theory Spec2Isabelle
  imports Complex_Main
begin

section \<open>Go values used by the issue-dependency tools\<close>

text \<open>
  The theory embeds \<^verbatim>\<open>pkg/github/issue_dependencies.go\<close>: the four tool handlers
  (\<^verbatim>\<open>ListBlockedBy\<close>, \<^verbatim>\<open>ListBlocking\<close>, \<^verbatim>\<open>AddBlockedBy\<close>, \<^verbatim>\<open>RemoveBlockedBy\<close>) and the
  three functions they call (\<^verbatim>\<open>listIssueDependencies\<close>, \<^verbatim>\<open>addIssueDependency\<close>,
  \<^verbatim>\<open>removeIssueDependency\<close>).

  A Go \<^verbatim>\<open>error\<close> is kept as its message, the text of \<^verbatim>\<open>err.Error()\<close>; wrapping
  with \<^verbatim>\<open>fmt.Errorf("...: %w", err)\<close> prefixes the message. A Go \<^verbatim>\<open>int\<close> is an
  \<open>int\<close>: the file does no arithmetic on integers, it only prints them. A Go
  \<^verbatim>\<open>string\<close> is a list of bytes.
\<close>

type_synonym go_error = string

subsection \<open>The verb \<^verbatim>\<open>%d\<close> of \<^verbatim>\<open>fmt.Sprintf\<close>\<close>

fun digits :: "nat \<Rightarrow> string" where
  "digits n =
     (if n < 10 then [''0123456789'' ! n] else digits (n div 10) @ [''0123456789'' ! (n mod 10)])"

declare digits.simps [simp del]

definition fmt_d :: "int \<Rightarrow> string" where
  "fmt_d i = (if i < 0 then CHR ''-'' # digits (nat (- i)) else digits (nat i))"

subsection \<open>Strings as \<^verbatim>\<open>encoding/json\<close> writes them\<close>

text \<open>
  \<^verbatim>\<open>json.Marshal\<close> writes a string between double quotes. It puts a backslash
  before the quote and the backslash, writes backslash and one of \<^verbatim>\<open>b f n r t\<close> for
  those five control bytes, and backslash, \<^verbatim>\<open>u00\<close> and two hexadecimal digits for
  the other bytes below 0x20 and for \<^verbatim>\<open><\<close>, \<^verbatim>\<open>>\<close> and \<^verbatim>\<open>&\<close>. For a byte that
  starts no well-formed UTF-8 sequence it writes backslash and \<^verbatim>\<open>ufffd\<close>, for the code
  points U+2028 and U+2029 backslash and \<^verbatim>\<open>u2028\<close>, \<^verbatim>\<open>u2029\<close>; every other byte is
  copied.
\<close>

definition hex :: "nat \<Rightarrow> char" where
  "hex n = ''0123456789abcdef'' ! (n mod 16)"

definition backslash :: char where
  "backslash = CHR 0x5C"

definition escapeByte :: "char \<Rightarrow> string" where
  "escapeByte b =
     (if b = backslash \<or> b = CHR 0x22 then [backslash, b]
      else if b = CHR 0x08 then [backslash, CHR ''b'']
      else if b = CHR 0x0C then [backslash, CHR ''f'']
      else if b = CHR 0x0A then [backslash, CHR ''n'']
      else if b = CHR 0x0D then [backslash, CHR ''r'']
      else if b = CHR 0x09 then [backslash, CHR ''t'']
      else if of_char b < (0x20::nat) \<or> b = CHR ''<'' \<or> b = CHR ''>'' \<or> b = CHR ''&''
        then backslash # ''u00'' @ [hex (of_char b div 16), hex (of_char b)]
      else [b])"

definition inRange :: "nat \<Rightarrow> nat \<Rightarrow> char \<Rightarrow> bool" where
  "inRange lo hi c = (lo \<le> of_char c \<and> of_char c \<le> hi)"

definition rune2 :: "string \<Rightarrow> bool" where
  "rune2 s = (case s of a # b # _ \<Rightarrow> inRange 0xC2 0xDF a \<and> inRange 0x80 0xBF b | _ \<Rightarrow> False)"

definition rune3 :: "string \<Rightarrow> bool" where
  "rune3 s =
     (case s of
        a # b # c # _ \<Rightarrow>
          (a = CHR 0xE0 \<and> inRange 0xA0 0xBF b \<or> inRange 0xE1 0xEC a \<and> inRange 0x80 0xBF b \<or>
           a = CHR 0xED \<and> inRange 0x80 0x9F b \<or> inRange 0xEE 0xEF a \<and> inRange 0x80 0xBF b) \<and>
          inRange 0x80 0xBF c
      | _ \<Rightarrow> False)"

definition rune4 :: "string \<Rightarrow> bool" where
  "rune4 s =
     (case s of
        a # b # c # d # _ \<Rightarrow>
          (a = CHR 0xF0 \<and> inRange 0x90 0xBF b \<or> inRange 0xF1 0xF3 a \<and> inRange 0x80 0xBF b \<or>
           a = CHR 0xF4 \<and> inRange 0x80 0x8F b) \<and>
          inRange 0x80 0xBF c \<and> inRange 0x80 0xBF d
      | _ \<Rightarrow> False)"

text \<open>The size \<^verbatim>\<open>utf8.DecodeRuneInString\<close> reports at a byte of 0x80 or more: 1 when
  the bytes there are no well-formed sequence.\<close>

definition runeSize :: "string \<Rightarrow> nat" where
  "runeSize s = (if rune2 s then 2 else if rune3 s then 3 else if rune4 s then 4 else 1)"

function appendString :: "string \<Rightarrow> string" where
  "appendString [] = []"
| "appendString (b # bs) =
     (if of_char b < (0x80::nat) then escapeByte b @ appendString bs
      else if runeSize (b # bs) = 1 then backslash # ''ufffd'' @ appendString bs
      else if take 3 (b # bs) = [CHR 0xE2, CHR 0x80, CHR 0xA8]
        then backslash # ''u2028'' @ appendString (drop 2 bs)
      else if take 3 (b # bs) = [CHR 0xE2, CHR 0x80, CHR 0xA9]
        then backslash # ''u2029'' @ appendString (drop 2 bs)
      else take (runeSize (b # bs)) (b # bs) @ appendString (drop (runeSize (b # bs) - 1) bs))"
  by pat_completeness auto
termination
  by (relation "measure length") auto

definition encodeString :: "string \<Rightarrow> string" where
  "encodeString s = CHR 0x22 # appendString s @ [CHR 0x22]"

fun joinWith :: "string \<Rightarrow> string list \<Rightarrow> string" where
  "joinWith sep [] = []"
| "joinWith sep [x] = x"
| "joinWith sep (x # y # ys) = x @ sep @ joinWith sep (y # ys)"

subsection \<open>The types declared in the file\<close>

record IssueDependency =
  Number :: int
  Title :: string
  State :: string
  HTMLURL :: string

text \<open>A slice is \<open>None\<close> when it is nil.\<close>

record IssueDependenciesResponse =
  Dependencies :: "IssueDependency list option"

record DependencyRequest =
  Owner :: string
  Repo :: string
  IssueNumber :: int

text \<open>\<^verbatim>\<open>json.Marshal\<close> on these types, following their \<^verbatim>\<open>json:"..."\<close> tags. It returns
  no error on any of them; the result keeps Go's shape (an error or the bytes) so that
  the callers' error branches are those of the source.\<close>

definition encodeIssueDependency :: "IssueDependency \<Rightarrow> string" where
  "encodeIssueDependency d =
     ''{\"number\":'' @ fmt_d (Number d) @ '',\"title\":'' @ encodeString (Title d) @
     '',\"state\":'' @ encodeString (State d) @ '',\"html_url\":'' @ encodeString (HTMLURL d) @ ''}''"

definition json_Marshal_Dependencies :: "IssueDependency list option \<Rightarrow> go_error + string" where
  "json_Marshal_Dependencies deps =
     (case deps of
        None \<Rightarrow> Inr ''null''
      | Some ds \<Rightarrow> Inr (''['' @ joinWith '','' (map encodeIssueDependency ds) @ '']''))"

definition json_Marshal_DependencyRequest :: "DependencyRequest \<Rightarrow> go_error + string" where
  "json_Marshal_DependencyRequest r =
     Inr (''{\"owner\":'' @ encodeString (Owner r) @ '',\"repo\":'' @ encodeString (Repo r) @
          '',\"issue_number\":'' @ fmt_d (IssueNumber r) @ ''}'')"

subsection \<open>JSON documents and the decoded \<^verbatim>\<open>map[string]any\<close>\<close>

text \<open>
  A JSON document is a tree; a number keeps its text. \<^verbatim>\<open>addIssueDependency\<close> and
  \<^verbatim>\<open>removeIssueDependency\<close> let \<^verbatim>\<open>client.Do\<close> decode the response into a
  \<^verbatim>\<open>map[string]any\<close> and only ever hand that map to \<^verbatim>\<open>json.Marshal\<close>. The model
  keeps such a map as the members of the JSON object that \<^verbatim>\<open>json.Marshal\<close> writes for
  it (members in the order of their keys, every number as the encoder prints the
  \<^verbatim>\<open>float64\<close>); the nil map is \<open>None\<close>. Marshalling is then writing the tree down,
  and it has no error to return: the values the decoder puts into an \<^verbatim>\<open>any\<close>
  (nil, bool, finite float64, string, slice, map) all have an encoding.
\<close>

datatype json =
  JNull | JBool bool | JNumber string | JString string | JArray "json list"
  | JObject "(string \<times> json) list"

fun encode_json :: "json \<Rightarrow> string" where
  "encode_json JNull = ''null''"
| "encode_json (JBool b) = (if b then ''true'' else ''false'')"
| "encode_json (JNumber n) = n"
| "encode_json (JString s) = encodeString s"
| "encode_json (JArray xs) = ''['' @ joinWith '','' (map encode_json xs) @ '']''"
| "encode_json (JObject ms) =
     ''{'' @ joinWith '','' (map (\<lambda>(k, v). encodeString k @ '':'' @ encode_json v) ms) @ ''}''"

type_synonym go_map = "(string \<times> json) list option"

definition json_Marshal_map :: "go_map \<Rightarrow> go_error + string" where
  "json_Marshal_map m = (case m of None \<Rightarrow> Inr ''null'' | Some ms \<Rightarrow> Inr (encode_json (JObject ms)))"

subsection \<open>Decoding a response body into \<^verbatim>\<open>IssueDependenciesResponse\<close>\<close>

text \<open>
  \<^verbatim>\<open>client.Do\<close> decodes the body of the response into the value it is given, with
  \<^verbatim>\<open>encoding/json\<close>. What the decoder does with a JSON document and the two struct
  types of the file follows from their \<^verbatim>\<open>json:"..."\<close> tags:
  \<^item> a member is stored in the field whose name equals the member's key, upper and
    lower case aside (the decoder folds case, and with it the two letters outside
    ASCII that fold to \<^verbatim>\<open>S\<close> and \<^verbatim>\<open>K\<close>); a member with no such field is skipped;
  \<^item> \<^verbatim>\<open>null\<close> leaves an \<^verbatim>\<open>int\<close>, a \<^verbatim>\<open>string\<close> and a struct as they are and makes a
    slice nil;
  \<^item> an \<^verbatim>\<open>int\<close> takes a number that \<^verbatim>\<open>strconv.ParseInt\<close> reads in base 10 within 64
    bits, a \<^verbatim>\<open>string\<close> takes a string, a slice takes an array, a struct takes an
    object; any other value is an \<^verbatim>\<open>UnmarshalTypeError\<close>, and the result is \<open>None\<close>.
  Each element of an array is decoded into a zero struct. (Where a key occurs again,
  the decoder writes over what the earlier member left, element by element; the model
  agrees with it on documents in which \<^verbatim>\<open>dependencies\<close> holds an array at most once.)
\<close>

definition toUpper :: "char \<Rightarrow> char" where
  "toUpper c =
     (if of_char (CHR ''a'') \<le> (of_char c :: nat) \<and> (of_char c :: nat) \<le> of_char (CHR ''z'')
      then char_of (of_char c - (32::nat)) else c)"

function foldName :: "string \<Rightarrow> string" where
  "foldName [] = []"
| "foldName (b # bs) =
     (if b = CHR 0xC5 \<and> take 1 bs = [CHR 0xBF] then CHR ''S'' # foldName (drop 1 bs)
      else if b = CHR 0xE2 \<and> take 2 bs = [CHR 0x84, CHR 0xAA] then CHR ''K'' # foldName (drop 2 bs)
      else toUpper b # foldName bs)"
  by pat_completeness auto
termination
  by (relation "measure length") auto

fun parseDigits :: "string \<Rightarrow> nat \<Rightarrow> nat option" where
  "parseDigits [] acc = Some acc"
| "parseDigits (c # cs) acc =
     (if of_char (CHR ''0'') \<le> (of_char c :: nat) \<and> (of_char c :: nat) \<le> of_char (CHR ''9'')
      then parseDigits cs (10 * acc + (of_char c - of_char (CHR ''0'')))
      else None)"

definition strconv_ParseInt :: "string \<Rightarrow> int option" where
  "strconv_ParseInt s =
     (let neg = (take 1 s = ''-'');
          ds = (if take 1 s = ''-'' \<or> take 1 s = ''+'' then drop 1 s else s)
      in if ds = [] then None
         else (case parseDigits ds 0 of
                 None \<Rightarrow> None
               | Some n \<Rightarrow>
                   (let v = (if neg then - int n else int n)
                    in if - (2 ^ 63) \<le> v \<and> v < 2 ^ 63 then Some v else None)))"

definition decodeInt :: "json \<Rightarrow> int \<Rightarrow> int option" where
  "decodeInt j old = (case j of JNull \<Rightarrow> Some old | JNumber s \<Rightarrow> strconv_ParseInt s | _ \<Rightarrow> None)"

definition decodeString :: "json \<Rightarrow> string \<Rightarrow> string option" where
  "decodeString j old = (case j of JNull \<Rightarrow> Some old | JString s \<Rightarrow> Some s | _ \<Rightarrow> None)"

fun decodeMembers :: "(string \<times> json \<Rightarrow> 'a \<Rightarrow> 'a option) \<Rightarrow> (string \<times> json) list \<Rightarrow> 'a \<Rightarrow> 'a option" where
  "decodeMembers f [] v = Some v"
| "decodeMembers f (m # ms) v = (case f m v of None \<Rightarrow> None | Some v' \<Rightarrow> decodeMembers f ms v')"

definition decodeIssueDependencyMember :: "string \<times> json \<Rightarrow> IssueDependency \<Rightarrow> IssueDependency option" where
  "decodeIssueDependencyMember m d =
     (if foldName (fst m) = foldName ''number''
        then map_option (\<lambda>n. d\<lparr>Number := n\<rparr>) (decodeInt (snd m) (Number d))
      else if foldName (fst m) = foldName ''title''
        then map_option (\<lambda>s. d\<lparr>Title := s\<rparr>) (decodeString (snd m) (Title d))
      else if foldName (fst m) = foldName ''state''
        then map_option (\<lambda>s. d\<lparr>State := s\<rparr>) (decodeString (snd m) (State d))
      else if foldName (fst m) = foldName ''html_url''
        then map_option (\<lambda>s. d\<lparr>HTMLURL := s\<rparr>) (decodeString (snd m) (HTMLURL d))
      else Some d)"

definition decodeIssueDependency :: "json \<Rightarrow> IssueDependency \<Rightarrow> IssueDependency option" where
  "decodeIssueDependency j d =
     (case j of
        JNull \<Rightarrow> Some d
      | JObject ms \<Rightarrow> decodeMembers decodeIssueDependencyMember ms d
      | _ \<Rightarrow> None)"

fun decodeElements :: "json list \<Rightarrow> IssueDependency list option" where
  "decodeElements [] = Some []"
| "decodeElements (j # js) =
     (case decodeIssueDependency j \<lparr>Number = 0, Title = [], State = [], HTMLURL = []\<rparr> of
        None \<Rightarrow> None
      | Some d \<Rightarrow> map_option ((#) d) (decodeElements js))"

definition decodeDependencies :: "json \<Rightarrow> IssueDependency list option option" where
  "decodeDependencies j =
     (case j of
        JNull \<Rightarrow> Some None
      | JArray js \<Rightarrow> map_option Some (decodeElements js)
      | _ \<Rightarrow> None)"

definition decodeResponseMember ::
  "string \<times> json \<Rightarrow> IssueDependenciesResponse \<Rightarrow> IssueDependenciesResponse option" where
  "decodeResponseMember m v =
     (if foldName (fst m) = foldName ''dependencies''
        then map_option (\<lambda>ds. v\<lparr>Dependencies := ds\<rparr>) (decodeDependencies (snd m))
      else Some v)"

definition json_Unmarshal_IssueDependenciesResponse ::
  "json \<Rightarrow> IssueDependenciesResponse \<Rightarrow> IssueDependenciesResponse option" where
  "json_Unmarshal_IssueDependenciesResponse j v =
     (case j of
        JNull \<Rightarrow> Some v
      | JObject ms \<Rightarrow> decodeMembers decodeResponseMember ms v
      | _ \<Rightarrow> None)"

section \<open>The environment of a call\<close>

subsection \<open>Tool results\<close>

text \<open>
  \<^verbatim>\<open>mcp.CallToolResult\<close> comes from the MCP SDK. The model keeps the text of its one
  text content and its flag \<^verbatim>\<open>IsError\<close>.
\<close>

record CallToolResult =
  Text :: string
  IsError :: bool

text \<open>
  Modelled from the spec: \<^verbatim>\<open>utils.NewToolResultText\<close> is defined in another package
  of the server. The spec (section 4.4) has the serialized JSON text returned "as a
  success result": the text, not flagged.
\<close>

definition NewToolResultText :: "string \<Rightarrow> CallToolResult" where
  "NewToolResultText t = \<lparr>Text = t, IsError = False\<rparr>"

text \<open>
  Modelled from the spec: \<^verbatim>\<open>utils.NewToolResultError\<close> is defined in another package
  of the server. The spec (section 6): "Error results are plain-text messages, flagged
  as errors".
\<close>

definition NewToolResultError :: "string \<Rightarrow> CallToolResult" where
  "NewToolResultError msg = \<lparr>Text = msg, IsError = True\<rparr>"

text \<open>
  Modelled from the spec: \<^verbatim>\<open>utils.NewToolResultErrorFromErr\<close> is defined in another
  package of the server. By the spec an error result is a plain-text message flagged
  as an error; the message made of a text and a Go error is taken to be the text, a
  colon and the error's own text.
\<close>

definition NewToolResultErrorFromErr :: "string \<Rightarrow> go_error \<Rightarrow> CallToolResult" where
  "NewToolResultErrorFromErr msg err = \<lparr>Text = msg @ '': '' @ err, IsError = True\<rparr>"

subsection \<open>The GitHub client\<close>

text \<open>
  \<^verbatim>\<open>*github.Client\<close> comes from the go-github library; the functions take it as an
  argument and the model takes its two methods as they are called here.
  \<^verbatim>\<open>NewRequest(method, url, body)\<close> gives an error or a request, of a type \<open>'req\<close>
  the model does not look into. Its \<^verbatim>\<open>body\<close> is \<^verbatim>\<open>nil\<close> in one function and the
  reader \<^verbatim>\<open>bytes.NewReader(bodyBytes)\<close> in the other two: the argument is that reader,
  not the bytes, and what the client sends for it is the client's doing (see the
  section on go-github's client). \<^verbatim>\<open>Do(ctx, req, v)\<close> gives an error, with or without
  a response, or a response and what it decoded into \<^verbatim>\<open>v\<close>; a nil response with a nil
  error is no answer of \<^verbatim>\<open>Do\<close>. \<^verbatim>\<open>Do\<close> is called with a pointer to an
  \<^verbatim>\<open>IssueDependenciesResponse\<close> in one function and to a \<^verbatim>\<open>map[string]any\<close> in the
  other two, hence the two fields. \<open>DoCloses\<close> is the number of \<^verbatim>\<open>Close\<close> calls that
  \<^verbatim>\<open>Do\<close> itself makes, before it returns, on the body of the response to a request.
  A response is its status code and its body, and the body is what \<^verbatim>\<open>io.ReadAll\<close>
  returns on it once \<^verbatim>\<open>Do\<close> has returned: an error or the text that was read.
\<close>

datatype Reader = bytes_NewReader string

record Response =
  StatusCode :: int
  Body :: "go_error + string"

definition io_ReadAll :: "go_error + string \<Rightarrow> go_error + string" where
  "io_ReadAll body = body"

datatype 'v DoResult = DoError "Response option" go_error | DoOK Response 'v

record 'req Client =
  NewRequest :: "string \<Rightarrow> string \<Rightarrow> Reader option \<Rightarrow> go_error + 'req"
  Do_deps :: "'req \<Rightarrow> IssueDependenciesResponse \<Rightarrow> IssueDependenciesResponse DoResult"
  Do_map :: "'req \<Rightarrow> go_map \<Rightarrow> go_map DoResult"
  DoCloses :: "'req \<Rightarrow> nat"

text \<open>
  Modelled from the spec: \<^verbatim>\<open>ghErrors.NewGitHubAPIErrorResponse\<close> is defined in another
  package of the server. The spec (section 4.4): a transport failure "produces a
  structured API-error result without the raw body"; (section 7) it is "reported as a
  structured API-error result". The result is an error result made of the message and
  the error. The source also hands it the context and the response; nothing of them
  is in the result.
\<close>

definition NewGitHubAPIErrorResponse :: "string \<Rightarrow> Response option \<Rightarrow> go_error \<Rightarrow> CallToolResult" where
  "NewGitHubAPIErrorResponse message resp err = NewToolResultErrorFromErr message err"

subsection \<open>What a call does to the outside\<close>

text \<open>
  A function returns Go's pair \<^verbatim>\<open>(*mcp.CallToolResult, error)\<close>, each \<open>None\<close> when nil,
  together with the calls the function itself made on the client and on the response
  body, in order. What a call of \<^verbatim>\<open>client.Do\<close> does in turn (sending the request,
  reading and closing the body) is behind \<open>DoCall\<close>.
\<close>

datatype 'req effect =
  NewRequestCall string string "Reader option"
  | DoCall 'req
  | BodyReadAll
  | BodyClose

type_synonym 'req outcome = "(CallToolResult option \<times> go_error option) \<times> 'req effect list"

text \<open>
  Modelled from the spec: \<^verbatim>\<open>PaginationParams\<close> is declared in another file of the
  package. The spec (section 3) gives it a page and a per-page count, zero when the
  caller gave none; the source reads its fields \<^verbatim>\<open>Page\<close> and \<^verbatim>\<open>PerPage\<close>.
\<close>

record PaginationParams =
  Page :: int
  PerPage :: int

section \<open>The three request functions\<close>

text \<open>
  Each function is the source's text, statement by statement. The deferred
  \<^verbatim>\<open>resp.Body.Close()\<close> is registered after the error check on \<^verbatim>\<open>client.Do\<close>; it runs
  when the function returns from any statement after that point, so the model appends
  \<open>BodyClose\<close> to whatever the rest of the body did.
\<close>

definition listIssueDependencies ::
  "'req Client \<Rightarrow> string \<Rightarrow> string \<Rightarrow> int \<Rightarrow> string \<Rightarrow> PaginationParams \<Rightarrow> 'req outcome" where
  "listIssueDependencies client owner repo issueNumber dependencyType pagination =
     (let url = ''repos/'' @ owner @ ''/'' @ repo @ ''/issues/'' @ fmt_d issueNumber @
                ''/dependencies/'' @ dependencyType;
          url = (if Page pagination > 0 \<or> PerPage pagination > 0
                 then url @ ''?page='' @ fmt_d (Page pagination) @
                      ''&per_page='' @ fmt_d (PerPage pagination)
                 else url)
      in case NewRequest client ''GET'' url None of
           Inl err \<Rightarrow>
             ((None, Some (''failed to create request: '' @ err)),
              [NewRequestCall ''GET'' url None])
         | Inr req \<Rightarrow>
             (case Do_deps client req \<lparr>Dependencies = None\<rparr> of
                DoError resp err \<Rightarrow>
                  ((Some (NewGitHubAPIErrorResponse
                            (''failed to list '' @ dependencyType @ '' dependencies'') resp err),
                    None),
                   [NewRequestCall ''GET'' url None, DoCall req])
              | DoOK resp deps \<Rightarrow>
                  (let (ret, effects) =
                         (if StatusCode resp \<noteq> 200 then
                            (case io_ReadAll (Body resp) of
                               Inl err \<Rightarrow>
                                 ((None, Some (''failed to read response body: '' @ err)),
                                  [BodyReadAll])
                             | Inr body \<Rightarrow>
                                 ((Some (NewToolResultError (''failed to list dependencies: '' @ body)),
                                   None),
                                  [BodyReadAll]))
                          else
                            (case json_Marshal_Dependencies (Dependencies deps) of
                               Inl err \<Rightarrow>
                                 ((None, Some (''failed to marshal response: '' @ err)), [])
                             | Inr r \<Rightarrow> ((Some (NewToolResultText r), None), [])))
                   in (ret, [NewRequestCall ''GET'' url None, DoCall req] @ effects @ [BodyClose]))))"

definition addIssueDependency ::
  "'req Client \<Rightarrow> string \<Rightarrow> string \<Rightarrow> int \<Rightarrow> string \<Rightarrow> string \<Rightarrow> int \<Rightarrow> 'req outcome" where
  "addIssueDependency client owner repo issueNumber blockedByOwner blockedByRepo blockedByIssueNumber =
     (let url = ''repos/'' @ owner @ ''/'' @ repo @ ''/issues/'' @ fmt_d issueNumber @
                ''/dependencies/blocked_by'';
          reqBody = \<lparr>Owner = blockedByOwner, Repo = blockedByRepo,
                     IssueNumber = blockedByIssueNumber\<rparr>
      in case json_Marshal_DependencyRequest reqBody of
           Inl err \<Rightarrow> ((None, Some (''failed to marshal request body: '' @ err)), [])
         | Inr bodyBytes \<Rightarrow>
             (case NewRequest client ''POST'' url (Some (bytes_NewReader bodyBytes)) of
                Inl err \<Rightarrow>
                  ((None, Some (''failed to create request: '' @ err)),
                   [NewRequestCall ''POST'' url (Some (bytes_NewReader bodyBytes))])
              | Inr req \<Rightarrow>
                  (case Do_map client req None of
                     DoError resp err \<Rightarrow>
                       ((Some (NewGitHubAPIErrorResponse ''failed to add blocked_by dependency'' resp err),
                         None),
                        [NewRequestCall ''POST'' url (Some (bytes_NewReader bodyBytes)), DoCall req])
                   | DoOK resp result \<Rightarrow>
                       (let (ret, effects) =
                              (if StatusCode resp \<noteq> 200 \<and> StatusCode resp \<noteq> 201 then
                                 (case io_ReadAll (Body resp) of
                                    Inl err \<Rightarrow>
                                      ((None, Some (''failed to read response body: '' @ err)),
                                       [BodyReadAll])
                                  | Inr body \<Rightarrow>
                                      ((Some (NewToolResultError (''failed to add dependency: '' @ body)),
                                        None),
                                       [BodyReadAll]))
                               else
                                 (case json_Marshal_map result of
                                    Inl err \<Rightarrow>
                                      ((None, Some (''failed to marshal response: '' @ err)), [])
                                  | Inr r \<Rightarrow> ((Some (NewToolResultText r), None), [])))
                        in (ret, [NewRequestCall ''POST'' url (Some (bytes_NewReader bodyBytes)), DoCall req] @
                                 effects @ [BodyClose])))))"

definition removeIssueDependency ::
  "'req Client \<Rightarrow> string \<Rightarrow> string \<Rightarrow> int \<Rightarrow> string \<Rightarrow> string \<Rightarrow> int \<Rightarrow> 'req outcome" where
  "removeIssueDependency client owner repo issueNumber blockedByOwner blockedByRepo blockedByIssueNumber =
     (let url = ''repos/'' @ owner @ ''/'' @ repo @ ''/issues/'' @ fmt_d issueNumber @
                ''/dependencies/blocked_by'';
          reqBody = \<lparr>Owner = blockedByOwner, Repo = blockedByRepo,
                     IssueNumber = blockedByIssueNumber\<rparr>
      in case json_Marshal_DependencyRequest reqBody of
           Inl err \<Rightarrow> ((None, Some (''failed to marshal request body: '' @ err)), [])
         | Inr bodyBytes \<Rightarrow>
             (case NewRequest client ''DELETE'' url (Some (bytes_NewReader bodyBytes)) of
                Inl err \<Rightarrow>
                  ((None, Some (''failed to create request: '' @ err)),
                   [NewRequestCall ''DELETE'' url (Some (bytes_NewReader bodyBytes))])
              | Inr req \<Rightarrow>
                  (case Do_map client req None of
                     DoError resp err \<Rightarrow>
                       ((Some (NewGitHubAPIErrorResponse ''failed to remove blocked_by dependency'' resp err),
                         None),
                        [NewRequestCall ''DELETE'' url (Some (bytes_NewReader bodyBytes)), DoCall req])
                   | DoOK resp result \<Rightarrow>
                       (let (ret, effects) =
                              (if StatusCode resp \<noteq> 200 \<and> StatusCode resp \<noteq> 204 then
                                 (case io_ReadAll (Body resp) of
                                    Inl err \<Rightarrow>
                                      ((None, Some (''failed to read response body: '' @ err)),
                                       [BodyReadAll])
                                  | Inr body \<Rightarrow>
                                      ((Some (NewToolResultError (''failed to remove dependency: '' @ body)),
                                        None),
                                       [BodyReadAll]))
                               else
                                 (case json_Marshal_map result of
                                    Inl err \<Rightarrow>
                                      ((None, Some (''failed to marshal response: '' @ err)), [])
                                  | Inr r \<Rightarrow> ((Some (NewToolResultText r), None), [])))
                        in (ret, [NewRequestCall ''DELETE'' url (Some (bytes_NewReader bodyBytes)), DoCall req] @
                                 effects @ [BodyClose])))))"

section \<open>The four tool handlers\<close>

subsection \<open>Arguments and their validation\<close>

text \<open>
  A handler receives its arguments as a \<^verbatim>\<open>map[string]any\<close> decoded from the caller's
  JSON: a value is nil, a bool, a \<^verbatim>\<open>float64\<close> (kept as the real number it stands for),
  a string, a slice or a map.
\<close>

datatype any =
  AnyNil | AnyBool bool | AnyFloat64 real | AnyString string | AnySlice "any list"
  | AnyMap "(string \<times> any) list"

text \<open>
  The parameter helpers \<^verbatim>\<open>RequiredParam\<close>, \<^verbatim>\<open>RequiredInt\<close>, \<^verbatim>\<open>OptionalParam\<close> and
  \<^verbatim>\<open>OptionalPaginationParams\<close> are defined in another file of the package; each is
  modelled from the spec's section 4.1, at the types the handlers use it at.
\<close>

text \<open>
  Modelled from the spec: the error of a helper on an absent parameter, defined with
  the helpers in another file. The spec: a helper "fails with MissingParameterError
  (name embedded in message) when absent". The message is the one the tests of the
  source expect, \<^verbatim>\<open>missing required parameter: <name>\<close>.
\<close>

definition MissingParameterError :: "string \<Rightarrow> go_error" where
  "MissingParameterError p = ''missing required parameter: '' @ p"

text \<open>
  Modelled from the spec: the error of a helper on a parameter of the wrong type,
  defined with the helpers in another file. The spec: a helper fails with
  "TypeMismatchError when present but not coercible to the expected type (string or
  number)". The spec does not word the message; no property below depends on the
  wording chosen here.
\<close>

definition TypeMismatchError :: "string \<Rightarrow> string \<Rightarrow> go_error" where
  "TypeMismatchError p ty = ''parameter '' @ p @ '' is not of type '' @ ty"

text \<open>
  Modelled from the spec: \<^verbatim>\<open>RequiredParam[string]\<close>, defined in another file of the
  package. The spec: "given an untyped key-value mapping and a parameter name, returns
  the typed value or fails with MissingParameterError when absent, or
  TypeMismatchError when present but not coercible to the expected type".
\<close>

definition RequiredParam_string :: "(string \<rightharpoonup> any) \<Rightarrow> string \<Rightarrow> go_error + string" where
  "RequiredParam_string args p =
     (case args p of
        None \<Rightarrow> Inl (MissingParameterError p)
      | Some (AnyString s) \<Rightarrow> Inr s
      | Some _ \<Rightarrow> Inl (TypeMismatchError p ''string''))"

text \<open>
  Go's conversion \<^verbatim>\<open>int(v)\<close> of a \<^verbatim>\<open>float64\<close> to the 64-bit \<^verbatim>\<open>int\<close>: the fraction
  is discarded. When the whole number does not fit 64 bits the language leaves the
  result to the implementation; on amd64 it is the least \<^verbatim>\<open>int64\<close>, as for
  \<^verbatim>\<open>int(1e19)\<close>.
\<close>

definition int_of_float64 :: "real \<Rightarrow> int" where
  "int_of_float64 v =
     (let t = (if 0 \<le> v then \<lfloor>v\<rfloor> else \<lceil>v\<rceil>)
      in if - (2 ^ 63) \<le> t \<and> t < 2 ^ 63 then t else - (2 ^ 63))"

text \<open>
  Modelled from the spec: \<^verbatim>\<open>RequiredInt\<close>, defined in another file of the package. The
  spec: "Integer extraction must accept any numeric representation used by the calling
  protocol (floating-point is common) and truncate/validate to a whole number"; it
  fails as \<^verbatim>\<open>RequiredParam\<close> does.
\<close>

definition RequiredInt :: "(string \<rightharpoonup> any) \<Rightarrow> string \<Rightarrow> go_error + int" where
  "RequiredInt args p =
     (case args p of
        None \<Rightarrow> Inl (MissingParameterError p)
      | Some (AnyFloat64 v) \<Rightarrow> Inr (int_of_float64 v)
      | Some _ \<Rightarrow> Inl (TypeMismatchError p ''float64''))"

text \<open>
  Modelled from the spec: \<^verbatim>\<open>OptionalParam[string]\<close>, defined in another file of the
  package. The spec: "Optional parameters return a zero-value and no error when
  absent"; a present value of another type is a TypeMismatchError.
\<close>

definition OptionalParam_string :: "(string \<rightharpoonup> any) \<Rightarrow> string \<Rightarrow> go_error + string" where
  "OptionalParam_string args p =
     (case args p of
        None \<Rightarrow> Inr []
      | Some (AnyString s) \<Rightarrow> Inr s
      | Some _ \<Rightarrow> Inl (TypeMismatchError p ''string''))"

text \<open>
  Modelled from the spec: the optional integer parameter that
  \<^verbatim>\<open>OptionalPaginationParams\<close> reads, defined in another file of the package. By the
  spec an optional parameter is its zero value when absent, and an integer is the
  protocol's number truncated.
\<close>

definition OptionalIntParam :: "(string \<rightharpoonup> any) \<Rightarrow> string \<Rightarrow> go_error + int" where
  "OptionalIntParam args p =
     (case args p of
        None \<Rightarrow> Inr 0
      | Some (AnyFloat64 v) \<Rightarrow> Inr (int_of_float64 v)
      | Some _ \<Rightarrow> Inl (TypeMismatchError p ''float64''))"

text \<open>
  Modelled from the spec: \<^verbatim>\<open>OptionalPaginationParams\<close>, defined in another file of the
  package. The spec (sections 3 and 6): the optional fields \<^verbatim>\<open>page\<close> and \<^verbatim>\<open>per_page\<close>
  give \<^verbatim>\<open>PaginationParams\<close> its page and per-page count.
\<close>

definition OptionalPaginationParams :: "(string \<rightharpoonup> any) \<Rightarrow> go_error + PaginationParams" where
  "OptionalPaginationParams args =
     (case OptionalIntParam args ''page'' of
        Inl err \<Rightarrow> Inl err
      | Inr page \<Rightarrow>
          (case OptionalIntParam args ''per_page'' of
             Inl err \<Rightarrow> Inl err
           | Inr perPage \<Rightarrow> Inr \<lparr>Page = page, PerPage = perPage\<rparr>))"

subsection \<open>The handlers\<close>

text \<open>
  A handler is the function literal each tool constructor returns. \<^verbatim>\<open>getClient(ctx)\<close>
  is its answer: an error or a client. The handler's middle result is \<^verbatim>\<open>nil\<close> on every
  path and is left out.
\<close>

definition ListBlockedBy :: "go_error + 'req Client \<Rightarrow> (string \<rightharpoonup> any) \<Rightarrow> 'req outcome" where
  "ListBlockedBy getClient args =
     (case RequiredParam_string args ''owner'' of
        Inl err \<Rightarrow> ((Some (NewToolResultError err), None), [])
      | Inr owner \<Rightarrow>
     (case RequiredParam_string args ''repo'' of
        Inl err \<Rightarrow> ((Some (NewToolResultError err), None), [])
      | Inr repo \<Rightarrow>
     (case RequiredInt args ''issue_number'' of
        Inl err \<Rightarrow> ((Some (NewToolResultError err), None), [])
      | Inr issueNumber \<Rightarrow>
     (case OptionalPaginationParams args of
        Inl err \<Rightarrow> ((Some (NewToolResultError err), None), [])
      | Inr pagination \<Rightarrow>
     (case getClient of
        Inl err \<Rightarrow> ((Some (NewToolResultErrorFromErr ''failed to get GitHub client'' err), None), [])
      | Inr client \<Rightarrow>
          listIssueDependencies client owner repo issueNumber ''blocked_by'' pagination)))))"

definition ListBlocking :: "go_error + 'req Client \<Rightarrow> (string \<rightharpoonup> any) \<Rightarrow> 'req outcome" where
  "ListBlocking getClient args =
     (case RequiredParam_string args ''owner'' of
        Inl err \<Rightarrow> ((Some (NewToolResultError err), None), [])
      | Inr owner \<Rightarrow>
     (case RequiredParam_string args ''repo'' of
        Inl err \<Rightarrow> ((Some (NewToolResultError err), None), [])
      | Inr repo \<Rightarrow>
     (case RequiredInt args ''issue_number'' of
        Inl err \<Rightarrow> ((Some (NewToolResultError err), None), [])
      | Inr issueNumber \<Rightarrow>
     (case OptionalPaginationParams args of
        Inl err \<Rightarrow> ((Some (NewToolResultError err), None), [])
      | Inr pagination \<Rightarrow>
     (case getClient of
        Inl err \<Rightarrow> ((Some (NewToolResultErrorFromErr ''failed to get GitHub client'' err), None), [])
      | Inr client \<Rightarrow>
          listIssueDependencies client owner repo issueNumber ''blocking'' pagination)))))"

definition AddBlockedBy :: "go_error + 'req Client \<Rightarrow> (string \<rightharpoonup> any) \<Rightarrow> 'req outcome" where
  "AddBlockedBy getClient args =
     (case RequiredParam_string args ''owner'' of
        Inl err \<Rightarrow> ((Some (NewToolResultError err), None), [])
      | Inr owner \<Rightarrow>
     (case RequiredParam_string args ''repo'' of
        Inl err \<Rightarrow> ((Some (NewToolResultError err), None), [])
      | Inr repo \<Rightarrow>
     (case RequiredInt args ''issue_number'' of
        Inl err \<Rightarrow> ((Some (NewToolResultError err), None), [])
      | Inr issueNumber \<Rightarrow>
     (case RequiredInt args ''blocked_by_issue_number'' of
        Inl err \<Rightarrow> ((Some (NewToolResultError err), None), [])
      | Inr blockedByIssueNumber \<Rightarrow>
     (case OptionalParam_string args ''blocked_by_owner'' of
        Inl err \<Rightarrow> ((Some (NewToolResultError err), None), [])
      | Inr blockedByOwner \<Rightarrow>
     (let blockedByOwner = (if blockedByOwner = [] then owner else blockedByOwner) in
     (case OptionalParam_string args ''blocked_by_repo'' of
        Inl err \<Rightarrow> ((Some (NewToolResultError err), None), [])
      | Inr blockedByRepo \<Rightarrow>
     (let blockedByRepo = (if blockedByRepo = [] then repo else blockedByRepo) in
     (case getClient of
        Inl err \<Rightarrow> ((Some (NewToolResultErrorFromErr ''failed to get GitHub client'' err), None), [])
      | Inr client \<Rightarrow>
          addIssueDependency client owner repo issueNumber blockedByOwner blockedByRepo
            blockedByIssueNumber)))))))))"

definition RemoveBlockedBy :: "go_error + 'req Client \<Rightarrow> (string \<rightharpoonup> any) \<Rightarrow> 'req outcome" where
  "RemoveBlockedBy getClient args =
     (case RequiredParam_string args ''owner'' of
        Inl err \<Rightarrow> ((Some (NewToolResultError err), None), [])
      | Inr owner \<Rightarrow>
     (case RequiredParam_string args ''repo'' of
        Inl err \<Rightarrow> ((Some (NewToolResultError err), None), [])
      | Inr repo \<Rightarrow>
     (case RequiredInt args ''issue_number'' of
        Inl err \<Rightarrow> ((Some (NewToolResultError err), None), [])
      | Inr issueNumber \<Rightarrow>
     (case RequiredInt args ''blocked_by_issue_number'' of
        Inl err \<Rightarrow> ((Some (NewToolResultError err), None), [])
      | Inr blockedByIssueNumber \<Rightarrow>
     (case OptionalParam_string args ''blocked_by_owner'' of
        Inl err \<Rightarrow> ((Some (NewToolResultError err), None), [])
      | Inr blockedByOwner \<Rightarrow>
     (let blockedByOwner = (if blockedByOwner = [] then owner else blockedByOwner) in
     (case OptionalParam_string args ''blocked_by_repo'' of
        Inl err \<Rightarrow> ((Some (NewToolResultError err), None), [])
      | Inr blockedByRepo \<Rightarrow>
     (let blockedByRepo = (if blockedByRepo = [] then repo else blockedByRepo) in
     (case getClient of
        Inl err \<Rightarrow> ((Some (NewToolResultErrorFromErr ''failed to get GitHub client'' err), None), [])
      | Inr client \<Rightarrow>
          removeIssueDependency client owner repo issueNumber blockedByOwner blockedByRepo
            blockedByIssueNumber)))))))))"

section \<open>The client of go-github\<close>

text \<open>
  The functions work with any client; the server hands them the client of go-github
  (\<^verbatim>\<open>github.com/google/go-github/v79\<close>). Three of the properties below turn on what
  that client does with the body argument of \<^verbatim>\<open>NewRequest\<close> and with the response
  body in \<^verbatim>\<open>Do\<close>, so its two methods are modelled here as the library documents and
  implements them, over what lies below the library: the parsing of a URL, the exchange
  of a request for a response (\<^verbatim>\<open>http.Client.Do\<close>), and the decoding of a JSON
  document into a \<^verbatim>\<open>map[string]any\<close>. The client's rate-limit bookkeeping, its headers,
  redirects and the cancellation of the context are left out.
\<close>

text \<open>
  A request as it leaves the client: the method, the URL (kept relative to the client's
  base URL) and the bytes of its body, \<open>None\<close> for no body.
\<close>

record WireRequest =
  Method :: string
  URL :: string
  Payload :: "string option"

text \<open>
  A response as it arrives: its status code, the bytes of its body, and what a JSON
  decoder finds in them: nothing (an empty body, \<^verbatim>\<open>io.EOF\<close>), bytes that are no JSON
  (with the decoder's error), or a document.
\<close>

datatype content = NoContent | NotJSON go_error | Document json

record Arrival =
  Status :: int
  Raw :: string
  Content :: content

record Platform =
  url_Parse :: "string \<Rightarrow> go_error option"
  RoundTrip :: "WireRequest \<Rightarrow> go_error + Arrival"
  Unmarshal_map :: "json \<Rightarrow> go_map option"

text \<open>
  \<^verbatim>\<open>NewRequest\<close> of go-github takes its \<^verbatim>\<open>body\<close> as a value to be encoded: when it is
  not nil the client writes \<^verbatim>\<open>json.NewEncoder(buf).Encode(body)\<close> into the body of the
  request. \<^verbatim>\<open>encoding/json\<close> writes a struct by its exported fields, and
  \<^verbatim>\<open>bytes.Reader\<close> has none: whatever bytes the reader is over, its encoding is
  \<^verbatim>\<open>{}\<close>, and \<^verbatim>\<open>Encode\<close> ends it with a newline.
\<close>

definition json_Encode_Reader :: "Reader \<Rightarrow> string" where
  "json_Encode_Reader r = ''{}'' @ [CHR 0x0A]"

definition github_NewRequest ::
  "Platform \<Rightarrow> string \<Rightarrow> string \<Rightarrow> Reader option \<Rightarrow> go_error + WireRequest" where
  "github_NewRequest pf method url body =
     (case url_Parse pf url of
        Some err \<Rightarrow> Inl err
      | None \<Rightarrow> Inr \<lparr>Method = method, URL = url, Payload = map_option json_Encode_Reader body\<rparr>)"

text \<open>
  \<^verbatim>\<open>CheckResponse\<close> of go-github: a status of 202 is an error (\<^verbatim>\<open>AcceptedError\<close>), any
  other status from 200 to 299 is none, and every other status is an error
  (\<^verbatim>\<open>ErrorResponse\<close> and its kin). The library words the latter from the request and
  the body; the model words it by the status code alone, and no property below depends
  on the wording.
\<close>

definition CheckResponse :: "Arrival \<Rightarrow> go_error option" where
  "CheckResponse a =
     (if Status a = 202 then Some ''job scheduled on GitHub side; try again later''
      else if 200 \<le> Status a \<and> Status a \<le> 299 then None
      else Some (''unexpected status code: '' @ fmt_d (Status a)))"

text \<open>
  \<^verbatim>\<open>Do\<close> of go-github sends the request. An error of the exchange is returned with no
  response. A response that \<^verbatim>\<open>CheckResponse\<close> refuses is returned with that error: the
  library has read its body and, but for a 202, put the bytes back to be read again.
  Otherwise \<^verbatim>\<open>Do\<close> decodes the body into \<^verbatim>\<open>v\<close> and closes it before it returns
  (\<^verbatim>\<open>defer resp.Body.Close()\<close>): an empty body leaves \<^verbatim>\<open>v\<close> as it is and is no error
  (\<^verbatim>\<open>io.EOF\<close> is ignored), a body that does not decode is returned with the decoder's
  error beside the response. A body that \<^verbatim>\<open>Do\<close> has closed cannot be read any more:
  \<^verbatim>\<open>io.ReadAll\<close> on it gives the error of \<^verbatim>\<open>net/http\<close> below. (The text of an
  \<^verbatim>\<open>UnmarshalTypeError\<close> is cut short; no property below depends on it.)
\<close>

definition github_Do ::
  "Platform \<Rightarrow> (json \<Rightarrow> 'v \<Rightarrow> 'v option) \<Rightarrow> WireRequest \<Rightarrow> 'v \<Rightarrow> 'v DoResult" where
  "github_Do pf unmarshal req v =
     (case RoundTrip pf req of
        Inl err \<Rightarrow> DoError None err
      | Inr a \<Rightarrow>
          (case CheckResponse a of
             Some err \<Rightarrow>
               DoError
                 (Some \<lparr>StatusCode = Status a,
                        Body = (if Status a = 202 then Inl ''http: read on closed response body''
                                else Inr (Raw a))\<rparr>)
                 err
           | None \<Rightarrow>
               (let resp = \<lparr>StatusCode = Status a, Body = Inl ''http: read on closed response body''\<rparr>
                in case Content a of
                     NoContent \<Rightarrow> DoOK resp v
                   | NotJSON err \<Rightarrow> DoError (Some resp) err
                   | Document j \<Rightarrow>
                       (case unmarshal j v of
                          None \<Rightarrow> DoError (Some resp) ''json: cannot unmarshal''
                        | Some v' \<Rightarrow> DoOK resp v'))))"

text \<open>
  The client: \<^verbatim>\<open>Do\<close> closes the body of every response it gets, once, whether it
  returns the response with an error or without.
\<close>

definition github_Client :: "Platform \<Rightarrow> WireRequest Client" where
  "github_Client pf =
     \<lparr>NewRequest = github_NewRequest pf,
      Do_deps = github_Do pf json_Unmarshal_IssueDependenciesResponse,
      Do_map = github_Do pf (\<lambda>j v. Unmarshal_map pf j),
      DoCloses = (\<lambda>req. case RoundTrip pf req of Inl err \<Rightarrow> 0 | Inr a \<Rightarrow> 1)\<rparr>"

section \<open>Reading an outcome\<close>

text \<open>
  The properties below speak of an outcome through these readers. A call succeeded
  when it returned a result that is not flagged as an error, with a nil error; it
  is error-flagged when it returned a flagged result with a nil error; a hard failure
  is a non-nil error. \<open>NewRequest_arguments\<close> is what the first \<^verbatim>\<open>NewRequest\<close> call
  was given: the method, the URL and the body argument (the reader, where there is
  one); it is not the request the client sends. \<open>closes\<close> counts the \<^verbatim>\<open>Close\<close>
  calls made on the response body in the course of a call: those the function makes
  itself and, for every call of \<^verbatim>\<open>client.Do\<close>, those that \<^verbatim>\<open>Do\<close> makes.
\<close>

definition succeeded :: "CallToolResult option \<times> go_error option \<Rightarrow> bool" where
  "succeeded ret = (case ret of (Some r, None) \<Rightarrow> \<not> IsError r | _ \<Rightarrow> False)"

definition errorFlagged :: "CallToolResult option \<times> go_error option \<Rightarrow> bool" where
  "errorFlagged ret = (case ret of (Some r, None) \<Rightarrow> IsError r | _ \<Rightarrow> False)"

definition hardFailure :: "CallToolResult option \<times> go_error option \<Rightarrow> bool" where
  "hardFailure ret = (snd ret \<noteq> None)"

fun NewRequest_arguments :: "'req effect list \<Rightarrow> (string \<times> string \<times> Reader option) option" where
  "NewRequest_arguments [] = None"
| "NewRequest_arguments (NewRequestCall m u b # es) = Some (m, u, b)"
| "NewRequest_arguments (e # es) = NewRequest_arguments es"

definition closes :: "'req Client \<Rightarrow> 'req effect list \<Rightarrow> nat" where
  "closes client es =
     sum_list (map (\<lambda>e. case e of BodyClose \<Rightarrow> 1 | DoCall req \<Rightarrow> DoCloses client req | _ \<Rightarrow> 0) es)"

text \<open>
  The four operations by name, for the properties that hold of each of them alike:
  the handler of an operation, its accepted status codes (the table of the spec's
  section 6, which the three functions test with \<^verbatim>\<open>!=\<close>), and Go's pair
  \<^verbatim>\<open>(resp, err)\<close> that \<^verbatim>\<open>client.Do\<close> returns to the operation for a request.
\<close>

datatype operation = list_blocked_by | list_blocking | add_blocked_by | remove_blocked_by

definition handler ::
  "operation \<Rightarrow> go_error + 'req Client \<Rightarrow> (string \<rightharpoonup> any) \<Rightarrow> 'req outcome" where
  "handler op =
     (case op of
        list_blocked_by \<Rightarrow> ListBlockedBy
      | list_blocking \<Rightarrow> ListBlocking
      | add_blocked_by \<Rightarrow> AddBlockedBy
      | remove_blocked_by \<Rightarrow> RemoveBlockedBy)"

definition accepted :: "operation \<Rightarrow> int set" where
  "accepted op =
     (case op of
        list_blocked_by \<Rightarrow> {200}
      | list_blocking \<Rightarrow> {200}
      | add_blocked_by \<Rightarrow> {200, 201}
      | remove_blocked_by \<Rightarrow> {200, 204})"

definition returned :: "'v DoResult \<Rightarrow> Response option \<times> go_error option" where
  "returned d = (case d of DoError resp err \<Rightarrow> (resp, Some err) | DoOK resp v \<Rightarrow> (Some resp, None))"

definition Do_returned ::
  "operation \<Rightarrow> 'req Client \<Rightarrow> 'req \<Rightarrow> Response option \<times> go_error option" where
  "Do_returned op client req =
     (case op of
        list_blocked_by \<Rightarrow> returned (Do_deps client req \<lparr>Dependencies = None\<rparr>)
      | list_blocking \<Rightarrow> returned (Do_deps client req \<lparr>Dependencies = None\<rparr>)
      | add_blocked_by \<Rightarrow> returned (Do_map client req None)
      | remove_blocked_by \<Rightarrow> returned (Do_map client req None))"

section \<open>Sample calls\<close>

text \<open>
  The arguments of the source's tests, and clients with fixed answers: \<open>answering\<close>
  builds every request (a request is then the method, path and body argument it was
  built from) and answers \<^verbatim>\<open>Do\<close> as told; \<open>refusing\<close> fails to build any request.
  Neither closes a body itself.
\<close>

type_synonym request = "string \<times> string \<times> Reader option"

definition testArgs :: "string \<rightharpoonup> any" where
  "testArgs = [''owner'' \<mapsto> AnyString ''owner'', ''repo'' \<mapsto> AnyString ''repo'',
               ''issue_number'' \<mapsto> AnyFloat64 42, ''blocked_by_issue_number'' \<mapsto> AnyFloat64 10]"

text \<open>The arguments and the response body of the first case of \<^verbatim>\<open>Test_ListBlockedBy\<close>.\<close>

definition listTestArgs :: "string \<rightharpoonup> any" where
  "listTestArgs = [''owner'' \<mapsto> AnyString ''owner'', ''repo'' \<mapsto> AnyString ''repo'',
                   ''issue_number'' \<mapsto> AnyFloat64 42]"

definition listTestBody :: json where
  "listTestBody =
     JObject [(''dependencies'',
       JArray [JObject [(''number'', JNumber ''10''), (''title'', JString ''Blocking Issue''),
                        (''state'', JString ''open''),
                        (''html_url'', JString ''https://github.com/owner/repo/issues/10'')]])]"

text \<open>The answer of that test as it arrives.\<close>

definition listTestArrival :: Arrival where
  "listTestArrival =
     \<lparr>Status = 200,
      Raw = ''{\"dependencies\":[{\"number\":10,\"title\":\"Blocking Issue\",\"state\":\"open\",\"html_url\":\"https://github.com/owner/repo/issues/10\"}]}'',
      Content = Document listTestBody\<rparr>"

definition answering ::
  "IssueDependenciesResponse DoResult \<Rightarrow> go_map DoResult \<Rightarrow> request Client" where
  "answering deps_answer map_answer =
     \<lparr>NewRequest = (\<lambda>method url body. Inr (method, url, body)),
      Do_deps = (\<lambda>req v. deps_answer),
      Do_map = (\<lambda>req v. map_answer),
      DoCloses = (\<lambda>req. 0)\<rparr>"

definition refusing :: "go_error \<Rightarrow> request Client" where
  "refusing err =
     \<lparr>NewRequest = (\<lambda>method url body. Inl err),
      Do_deps = (\<lambda>req v. DoError None err),
      Do_map = (\<lambda>req v. DoError None err),
      DoCloses = (\<lambda>req. 0)\<rparr>"

text \<open>
  For the client of go-github: \<open>serving\<close> parses every URL and answers every request
  with the given response; \<open>unreachable\<close> fails every exchange. Both decode an object
  into the map of its members, for documents whose members stand as \<^verbatim>\<open>json.Marshal\<close>
  writes a map (in the order of their keys).
\<close>

definition membersOf :: "json \<Rightarrow> go_map option" where
  "membersOf j = (case j of JNull \<Rightarrow> Some None | JObject ms \<Rightarrow> Some (Some ms) | _ \<Rightarrow> None)"

definition serving :: "Arrival \<Rightarrow> Platform" where
  "serving a =
     \<lparr>url_Parse = (\<lambda>url. None), RoundTrip = (\<lambda>req. Inr a), Unmarshal_map = membersOf\<rparr>"

definition unreachable :: "go_error \<Rightarrow> Platform" where
  "unreachable err =
     \<lparr>url_Parse = (\<lambda>url. None), RoundTrip = (\<lambda>req. Inl err), Unmarshal_map = membersOf\<rparr>"

text \<open>\<^verbatim>\<open>strings.Contains\<close>, as the source's tests use it on a result's text.\<close>

fun hasPrefix :: "string \<Rightarrow> string \<Rightarrow> bool" where
  "hasPrefix s [] = True"
| "hasPrefix [] (p # ps) = False"
| "hasPrefix (c # cs) (p # ps) = (c = p \<and> hasPrefix cs ps)"

fun strings_Contains :: "string \<Rightarrow> string \<Rightarrow> bool" where
  "strings_Contains [] sub = (sub = [])"
| "strings_Contains (c # cs) sub = (hasPrefix (c # cs) sub \<or> strings_Contains cs sub)"

section \<open>Lemmas\<close>

subsection \<open>The request functions, case by case\<close>

text \<open>\<^verbatim>\<open>json.Marshal\<close> returns bytes on the values it is given here.\<close>

lemma json_Marshal_Dependencies_Inr:
  "\<exists>r. json_Marshal_Dependencies ds = Inr r"
  by (simp add: json_Marshal_Dependencies_def split: option.split)

lemma json_Marshal_map_Inr:
  "\<exists>r. json_Marshal_map m = Inr r"
  by (simp add: json_Marshal_map_def split: option.split)

lemma listIssueDependencies_cases:
  fixes client :: "'req Client"
  assumes out_def: "out = listIssueDependencies client owner repo issueNumber dependencyType pagination"
  assumes url_def: "url = ''repos/'' @ owner @ ''/'' @ repo @ ''/issues/'' @ fmt_d issueNumber @
                ''/dependencies/'' @ dependencyType @
                (if Page pagination > 0 \<or> PerPage pagination > 0
                 then ''?page='' @ fmt_d (Page pagination) @ ''&per_page='' @ fmt_d (PerPage pagination)
                 else [])"
  obtains
    e where "NewRequest client ''GET'' url None = Inl e"
      "out = ((None, Some (''failed to create request: '' @ e)), [NewRequestCall ''GET'' url None])"
  | req resp e where "NewRequest client ''GET'' url None = Inr req"
      "Do_deps client req \<lparr>Dependencies = None\<rparr> = DoError resp e"
      "out = ((Some (NewGitHubAPIErrorResponse (''failed to list '' @ dependencyType @ '' dependencies'') resp e), None),
              [NewRequestCall ''GET'' url None, DoCall req])"
  | req resp deps e where "NewRequest client ''GET'' url None = Inr req"
      "Do_deps client req \<lparr>Dependencies = None\<rparr> = DoOK resp deps"
      "StatusCode resp \<noteq> 200" "Body resp = Inl e"
      "out = ((None, Some (''failed to read response body: '' @ e)),
              [NewRequestCall ''GET'' url None, DoCall req, BodyReadAll, BodyClose])"
  | req resp deps body where "NewRequest client ''GET'' url None = Inr req"
      "Do_deps client req \<lparr>Dependencies = None\<rparr> = DoOK resp deps"
      "StatusCode resp \<noteq> 200" "Body resp = Inr body"
      "out = ((Some (NewToolResultError (''failed to list dependencies: '' @ body)), None),
              [NewRequestCall ''GET'' url None, DoCall req, BodyReadAll, BodyClose])"
  | req resp deps r where "NewRequest client ''GET'' url None = Inr req"
      "Do_deps client req \<lparr>Dependencies = None\<rparr> = DoOK resp deps"
      "StatusCode resp = 200" "json_Marshal_Dependencies (Dependencies deps) = Inr r"
      "out = ((Some (NewToolResultText r), None),
              [NewRequestCall ''GET'' url None, DoCall req, BodyClose])"
proof -
  have u: "(if Page pagination > 0 \<or> PerPage pagination > 0
                 then (''repos/'' @ owner @ ''/'' @ repo @ ''/issues/'' @ fmt_d issueNumber @
                ''/dependencies/'' @ dependencyType) @ ''?page='' @ fmt_d (Page pagination) @
                      ''&per_page='' @ fmt_d (PerPage pagination)
                 else ''repos/'' @ owner @ ''/'' @ repo @ ''/issues/'' @ fmt_d issueNumber @
                ''/dependencies/'' @ dependencyType) = url"
    by (simp add: url_def)
  note d = listIssueDependencies_def [of client owner repo issueNumber dependencyType pagination,
      unfolded Let_def u, folded out_def]
  show thesis
  proof (cases "NewRequest client ''GET'' url None")
    case (Inl e)
    then show thesis using that(1) by (simp add: d)
  next
    case (Inr req)
    show thesis
    proof (cases "Do_deps client req \<lparr>Dependencies = None\<rparr>")
      case (DoError resp e)
      with Inr show thesis using that(2) by (simp add: d)
    next
      case (DoOK resp deps)
      show thesis
      proof (cases "StatusCode resp = 200")
        case True
        obtain r where "json_Marshal_Dependencies (Dependencies deps) = Inr r"
          using json_Marshal_Dependencies_Inr by blast
        with True Inr DoOK show thesis using that(5) by (simp add: d)
      next
        case False
        show thesis
        proof (cases "Body resp")
          case (Inl e)
          with False Inr DoOK show thesis using that(3) by (simp add: d io_ReadAll_def)
        next
          case (Inr body)
          with False \<open>NewRequest client ''GET'' url None = Inr req\<close> DoOK show thesis
            using that(4) by (simp add: d io_ReadAll_def)
        qed
      qed
    qed
  qed
qed

lemma addIssueDependency_cases:
  fixes client :: "'req Client"
  assumes out_def: "out = addIssueDependency client owner repo issueNumber blockedByOwner blockedByRepo blockedByIssueNumber"
  assumes url_def: "url = ''repos/'' @ owner @ ''/'' @ repo @ ''/issues/'' @ fmt_d issueNumber @
                ''/dependencies/blocked_by''"
  assumes body_def: "json_Marshal_DependencyRequest
                \<lparr>Owner = blockedByOwner, Repo = blockedByRepo, IssueNumber = blockedByIssueNumber\<rparr> = Inr bodyBytes"
  obtains
    e where "NewRequest client ''POST'' url (Some (bytes_NewReader bodyBytes)) = Inl e"
      "out = ((None, Some (''failed to create request: '' @ e)),
              [NewRequestCall ''POST'' url (Some (bytes_NewReader bodyBytes))])"
  | req resp e where "NewRequest client ''POST'' url (Some (bytes_NewReader bodyBytes)) = Inr req"
      "Do_map client req None = DoError resp e"
      "out = ((Some (NewGitHubAPIErrorResponse ''failed to add blocked_by dependency'' resp e), None),
              [NewRequestCall ''POST'' url (Some (bytes_NewReader bodyBytes)), DoCall req])"
  | req resp result e where "NewRequest client ''POST'' url (Some (bytes_NewReader bodyBytes)) = Inr req"
      "Do_map client req None = DoOK resp result"
      "StatusCode resp \<noteq> 200" "StatusCode resp \<noteq> 201" "Body resp = Inl e"
      "out = ((None, Some (''failed to read response body: '' @ e)),
              [NewRequestCall ''POST'' url (Some (bytes_NewReader bodyBytes)), DoCall req, BodyReadAll, BodyClose])"
  | req resp result body where "NewRequest client ''POST'' url (Some (bytes_NewReader bodyBytes)) = Inr req"
      "Do_map client req None = DoOK resp result"
      "StatusCode resp \<noteq> 200" "StatusCode resp \<noteq> 201" "Body resp = Inr body"
      "out = ((Some (NewToolResultError (''failed to add dependency: '' @ body)), None),
              [NewRequestCall ''POST'' url (Some (bytes_NewReader bodyBytes)), DoCall req, BodyReadAll, BodyClose])"
  | req resp result r where "NewRequest client ''POST'' url (Some (bytes_NewReader bodyBytes)) = Inr req"
      "Do_map client req None = DoOK resp result"
      "StatusCode resp = 200 \<or> StatusCode resp = 201" "json_Marshal_map result = Inr r"
      "out = ((Some (NewToolResultText r), None),
              [NewRequestCall ''POST'' url (Some (bytes_NewReader bodyBytes)), DoCall req, BodyClose])"
proof -
  note d = addIssueDependency_def [of client owner repo issueNumber blockedByOwner blockedByRepo
      blockedByIssueNumber, unfolded Let_def, folded url_def, unfolded body_def, folded out_def]
  show thesis
  proof (cases "NewRequest client ''POST'' url (Some (bytes_NewReader bodyBytes))")
    case (Inl e)
    then show thesis using that(1) by (simp add: d)
  next
    case (Inr req)
    show thesis
    proof (cases "Do_map client req None")
      case (DoError resp e)
      with Inr show thesis using that(2) by (simp add: d)
    next
      case (DoOK resp result)
      show thesis
      proof (cases "StatusCode resp = 200 \<or> StatusCode resp = 201")
        case True
        obtain r where "json_Marshal_map result = Inr r"
          using json_Marshal_map_Inr by blast
        with True Inr DoOK show thesis using that(5) [of req resp result r] by (auto simp add: d)
      next
        case False
        show thesis
        proof (cases "Body resp")
          case (Inl e)
          with False Inr DoOK show thesis using that(3) by (simp add: d io_ReadAll_def)
        next
          case (Inr body)
          with False \<open>NewRequest client ''POST'' url (Some (bytes_NewReader bodyBytes)) = Inr req\<close> DoOK
          show thesis using that(4) by (simp add: d io_ReadAll_def)
        qed
      qed
    qed
  qed
qed

lemma removeIssueDependency_cases:
  fixes client :: "'req Client"
  assumes out_def: "out = removeIssueDependency client owner repo issueNumber blockedByOwner blockedByRepo blockedByIssueNumber"
  assumes url_def: "url = ''repos/'' @ owner @ ''/'' @ repo @ ''/issues/'' @ fmt_d issueNumber @
                ''/dependencies/blocked_by''"
  assumes body_def: "json_Marshal_DependencyRequest
                \<lparr>Owner = blockedByOwner, Repo = blockedByRepo, IssueNumber = blockedByIssueNumber\<rparr> = Inr bodyBytes"
  obtains
    e where "NewRequest client ''DELETE'' url (Some (bytes_NewReader bodyBytes)) = Inl e"
      "out = ((None, Some (''failed to create request: '' @ e)),
              [NewRequestCall ''DELETE'' url (Some (bytes_NewReader bodyBytes))])"
  | req resp e where "NewRequest client ''DELETE'' url (Some (bytes_NewReader bodyBytes)) = Inr req"
      "Do_map client req None = DoError resp e"
      "out = ((Some (NewGitHubAPIErrorResponse ''failed to remove blocked_by dependency'' resp e), None),
              [NewRequestCall ''DELETE'' url (Some (bytes_NewReader bodyBytes)), DoCall req])"
  | req resp result e where "NewRequest client ''DELETE'' url (Some (bytes_NewReader bodyBytes)) = Inr req"
      "Do_map client req None = DoOK resp result"
      "StatusCode resp \<noteq> 200" "StatusCode resp \<noteq> 204" "Body resp = Inl e"
      "out = ((None, Some (''failed to read response body: '' @ e)),
              [NewRequestCall ''DELETE'' url (Some (bytes_NewReader bodyBytes)), DoCall req, BodyReadAll, BodyClose])"
  | req resp result body where "NewRequest client ''DELETE'' url (Some (bytes_NewReader bodyBytes)) = Inr req"
      "Do_map client req None = DoOK resp result"
      "StatusCode resp \<noteq> 200" "StatusCode resp \<noteq> 204" "Body resp = Inr body"
      "out = ((Some (NewToolResultError (''failed to remove dependency: '' @ body)), None),
              [NewRequestCall ''DELETE'' url (Some (bytes_NewReader bodyBytes)), DoCall req, BodyReadAll, BodyClose])"
  | req resp result r where "NewRequest client ''DELETE'' url (Some (bytes_NewReader bodyBytes)) = Inr req"
      "Do_map client req None = DoOK resp result"
      "StatusCode resp = 200 \<or> StatusCode resp = 204" "json_Marshal_map result = Inr r"
      "out = ((Some (NewToolResultText r), None),
              [NewRequestCall ''DELETE'' url (Some (bytes_NewReader bodyBytes)), DoCall req, BodyClose])"
proof -
  note d = removeIssueDependency_def [of client owner repo issueNumber blockedByOwner blockedByRepo
      blockedByIssueNumber, unfolded Let_def, folded url_def, unfolded body_def, folded out_def]
  show thesis
  proof (cases "NewRequest client ''DELETE'' url (Some (bytes_NewReader bodyBytes))")
    case (Inl e)
    then show thesis using that(1) by (simp add: d)
  next
    case (Inr req)
    show thesis
    proof (cases "Do_map client req None")
      case (DoError resp e)
      with Inr show thesis using that(2) by (simp add: d)
    next
      case (DoOK resp result)
      show thesis
      proof (cases "StatusCode resp = 200 \<or> StatusCode resp = 204")
        case True
        obtain r where "json_Marshal_map result = Inr r"
          using json_Marshal_map_Inr by blast
        with True Inr DoOK show thesis using that(5) [of req resp result r] by (auto simp add: d)
      next
        case False
        show thesis
        proof (cases "Body resp")
          case (Inl e)
          with False Inr DoOK show thesis using that(3) by (simp add: d io_ReadAll_def)
        next
          case (Inr body)
          with False \<open>NewRequest client ''DELETE'' url (Some (bytes_NewReader bodyBytes)) = Inr req\<close> DoOK
          show thesis using that(4) by (simp add: d io_ReadAll_def)
        qed
      qed
    qed
  qed
qed

subsection \<open>The handlers, case by case\<close>

lemma ListBlockedBy_cases:
  fixes getClient :: "go_error + 'req Client"
  assumes out_def: "out = ListBlockedBy getClient args"
  obtains
    e where "out = ((Some (NewToolResultError e), None), [])"
      "RequiredParam_string args ''owner'' = Inl e \<or>
       RequiredParam_string args ''repo'' = Inl e \<or>
       RequiredInt args ''issue_number'' = Inl e \<or>
       OptionalPaginationParams args = Inl e"
  | e where "getClient = Inl e"
      "out = ((Some (NewToolResultErrorFromErr ''failed to get GitHub client'' e), None), [])"
  | client owner repo issueNumber pagination where "getClient = Inr client"
      "RequiredParam_string args ''owner'' = Inr owner"
      "RequiredParam_string args ''repo'' = Inr repo"
      "RequiredInt args ''issue_number'' = Inr issueNumber"
      "OptionalPaginationParams args = Inr pagination"
      "out = listIssueDependencies client owner repo issueNumber ''blocked_by'' pagination"
proof (cases "RequiredParam_string args ''owner''")
  case (Inl e)
  then show thesis using that(1) [of e] by (simp add: out_def ListBlockedBy_def)
next
  case owner: (Inr owner)
  show thesis
  proof (cases "RequiredParam_string args ''repo''")
    case (Inl e)
    with owner show thesis using that(1) [of e] by (simp add: out_def ListBlockedBy_def)
  next
    case repo: (Inr repo)
    show thesis
    proof (cases "RequiredInt args ''issue_number''")
      case (Inl e)
      with owner repo show thesis using that(1) [of e] by (simp add: out_def ListBlockedBy_def)
    next
      case issueNumber: (Inr issueNumber)
      show thesis
      proof (cases "OptionalPaginationParams args")
        case (Inl e)
        with owner repo issueNumber show thesis
          using that(1) [of e] by (simp add: out_def ListBlockedBy_def)
      next
        case pagination: (Inr pagination)
        show thesis
        proof (cases getClient)
          case (Inl e)
          with owner repo issueNumber pagination show thesis
            using that(2) [of e] by (simp add: out_def ListBlockedBy_def)
        next
          case (Inr client)
          with owner repo issueNumber pagination show thesis
            using that(3) [of client owner repo issueNumber pagination]
            by (simp add: out_def ListBlockedBy_def)
        qed
      qed
    qed
  qed
qed

lemma ListBlocking_cases:
  fixes getClient :: "go_error + 'req Client"
  assumes out_def: "out = ListBlocking getClient args"
  obtains
    e where "out = ((Some (NewToolResultError e), None), [])"
      "RequiredParam_string args ''owner'' = Inl e \<or>
       RequiredParam_string args ''repo'' = Inl e \<or>
       RequiredInt args ''issue_number'' = Inl e \<or>
       OptionalPaginationParams args = Inl e"
  | e where "getClient = Inl e"
      "out = ((Some (NewToolResultErrorFromErr ''failed to get GitHub client'' e), None), [])"
  | client owner repo issueNumber pagination where "getClient = Inr client"
      "RequiredParam_string args ''owner'' = Inr owner"
      "RequiredParam_string args ''repo'' = Inr repo"
      "RequiredInt args ''issue_number'' = Inr issueNumber"
      "OptionalPaginationParams args = Inr pagination"
      "out = listIssueDependencies client owner repo issueNumber ''blocking'' pagination"
proof (cases "RequiredParam_string args ''owner''")
  case (Inl e)
  then show thesis using that(1) [of e] by (simp add: out_def ListBlocking_def)
next
  case owner: (Inr owner)
  show thesis
  proof (cases "RequiredParam_string args ''repo''")
    case (Inl e)
    with owner show thesis using that(1) [of e] by (simp add: out_def ListBlocking_def)
  next
    case repo: (Inr repo)
    show thesis
    proof (cases "RequiredInt args ''issue_number''")
      case (Inl e)
      with owner repo show thesis using that(1) [of e] by (simp add: out_def ListBlocking_def)
    next
      case issueNumber: (Inr issueNumber)
      show thesis
      proof (cases "OptionalPaginationParams args")
        case (Inl e)
        with owner repo issueNumber show thesis
          using that(1) [of e] by (simp add: out_def ListBlocking_def)
      next
        case pagination: (Inr pagination)
        show thesis
        proof (cases getClient)
          case (Inl e)
          with owner repo issueNumber pagination show thesis
            using that(2) [of e] by (simp add: out_def ListBlocking_def)
        next
          case (Inr client)
          with owner repo issueNumber pagination show thesis
            using that(3) [of client owner repo issueNumber pagination]
            by (simp add: out_def ListBlocking_def)
        qed
      qed
    qed
  qed
qed

lemma AddBlockedBy_cases:
  fixes getClient :: "go_error + 'req Client"
  assumes out_def: "out = AddBlockedBy getClient args"
  obtains
    e where "out = ((Some (NewToolResultError e), None), [])"
      "RequiredParam_string args ''owner'' = Inl e \<or>
       RequiredParam_string args ''repo'' = Inl e \<or>
       RequiredInt args ''issue_number'' = Inl e \<or>
       RequiredInt args ''blocked_by_issue_number'' = Inl e \<or>
       OptionalParam_string args ''blocked_by_owner'' = Inl e \<or>
       OptionalParam_string args ''blocked_by_repo'' = Inl e"
  | e where "getClient = Inl e"
      "out = ((Some (NewToolResultErrorFromErr ''failed to get GitHub client'' e), None), [])"
  | client owner repo issueNumber blockedByIssueNumber blockedByOwner blockedByRepo
    where "getClient = Inr client"
      "RequiredParam_string args ''owner'' = Inr owner"
      "RequiredParam_string args ''repo'' = Inr repo"
      "RequiredInt args ''issue_number'' = Inr issueNumber"
      "RequiredInt args ''blocked_by_issue_number'' = Inr blockedByIssueNumber"
      "OptionalParam_string args ''blocked_by_owner'' = Inr blockedByOwner"
      "OptionalParam_string args ''blocked_by_repo'' = Inr blockedByRepo"
      "out = addIssueDependency client owner repo issueNumber
               (if blockedByOwner = [] then owner else blockedByOwner)
               (if blockedByRepo = [] then repo else blockedByRepo) blockedByIssueNumber"
proof (cases "RequiredParam_string args ''owner''")
  case (Inl e)
  then show thesis using that(1) [of e] by (simp add: out_def AddBlockedBy_def)
next
  case owner: (Inr owner)
  show thesis
  proof (cases "RequiredParam_string args ''repo''")
    case (Inl e)
    with owner show thesis using that(1) [of e] by (simp add: out_def AddBlockedBy_def)
  next
    case repo: (Inr repo)
    show thesis
    proof (cases "RequiredInt args ''issue_number''")
      case (Inl e)
      with owner repo show thesis using that(1) [of e] by (simp add: out_def AddBlockedBy_def)
    next
      case issueNumber: (Inr issueNumber)
      show thesis
      proof (cases "RequiredInt args ''blocked_by_issue_number''")
        case (Inl e)
        with owner repo issueNumber show thesis
          using that(1) [of e] by (simp add: out_def AddBlockedBy_def)
      next
        case blockedByIssueNumber: (Inr blockedByIssueNumber)
        show thesis
        proof (cases "OptionalParam_string args ''blocked_by_owner''")
          case (Inl e)
          with owner repo issueNumber blockedByIssueNumber show thesis
            using that(1) [of e] by (simp add: out_def AddBlockedBy_def)
        next
          case blockedByOwner: (Inr blockedByOwner)
          show thesis
          proof (cases "OptionalParam_string args ''blocked_by_repo''")
            case (Inl e)
            with owner repo issueNumber blockedByIssueNumber blockedByOwner show thesis
              using that(1) [of e] by (simp add: out_def AddBlockedBy_def Let_def)
          next
            case blockedByRepo: (Inr blockedByRepo)
            show thesis
            proof (cases getClient)
              case (Inl e)
              with owner repo issueNumber blockedByIssueNumber blockedByOwner blockedByRepo
              show thesis using that(2) [of e] by (simp add: out_def AddBlockedBy_def Let_def)
            next
              case (Inr client)
              with owner repo issueNumber blockedByIssueNumber blockedByOwner blockedByRepo
              show thesis
                using that(3) [of client owner repo issueNumber blockedByIssueNumber
                    blockedByOwner blockedByRepo]
                by (simp add: out_def AddBlockedBy_def Let_def)
            qed
          qed
        qed
      qed
    qed
  qed
qed

lemma RemoveBlockedBy_cases:
  fixes getClient :: "go_error + 'req Client"
  assumes out_def: "out = RemoveBlockedBy getClient args"
  obtains
    e where "out = ((Some (NewToolResultError e), None), [])"
      "RequiredParam_string args ''owner'' = Inl e \<or>
       RequiredParam_string args ''repo'' = Inl e \<or>
       RequiredInt args ''issue_number'' = Inl e \<or>
       RequiredInt args ''blocked_by_issue_number'' = Inl e \<or>
       OptionalParam_string args ''blocked_by_owner'' = Inl e \<or>
       OptionalParam_string args ''blocked_by_repo'' = Inl e"
  | e where "getClient = Inl e"
      "out = ((Some (NewToolResultErrorFromErr ''failed to get GitHub client'' e), None), [])"
  | client owner repo issueNumber blockedByIssueNumber blockedByOwner blockedByRepo
    where "getClient = Inr client"
      "RequiredParam_string args ''owner'' = Inr owner"
      "RequiredParam_string args ''repo'' = Inr repo"
      "RequiredInt args ''issue_number'' = Inr issueNumber"
      "RequiredInt args ''blocked_by_issue_number'' = Inr blockedByIssueNumber"
      "OptionalParam_string args ''blocked_by_owner'' = Inr blockedByOwner"
      "OptionalParam_string args ''blocked_by_repo'' = Inr blockedByRepo"
      "out = removeIssueDependency client owner repo issueNumber
               (if blockedByOwner = [] then owner else blockedByOwner)
               (if blockedByRepo = [] then repo else blockedByRepo) blockedByIssueNumber"
proof (cases "RequiredParam_string args ''owner''")
  case (Inl e)
  then show thesis using that(1) [of e] by (simp add: out_def RemoveBlockedBy_def)
next
  case owner: (Inr owner)
  show thesis
  proof (cases "RequiredParam_string args ''repo''")
    case (Inl e)
    with owner show thesis using that(1) [of e] by (simp add: out_def RemoveBlockedBy_def)
  next
    case repo: (Inr repo)
    show thesis
    proof (cases "RequiredInt args ''issue_number''")
      case (Inl e)
      with owner repo show thesis using that(1) [of e] by (simp add: out_def RemoveBlockedBy_def)
    next
      case issueNumber: (Inr issueNumber)
      show thesis
      proof (cases "RequiredInt args ''blocked_by_issue_number''")
        case (Inl e)
        with owner repo issueNumber show thesis
          using that(1) [of e] by (simp add: out_def RemoveBlockedBy_def)
      next
        case blockedByIssueNumber: (Inr blockedByIssueNumber)
        show thesis
        proof (cases "OptionalParam_string args ''blocked_by_owner''")
          case (Inl e)
          with owner repo issueNumber blockedByIssueNumber show thesis
            using that(1) [of e] by (simp add: out_def RemoveBlockedBy_def)
        next
          case blockedByOwner: (Inr blockedByOwner)
          show thesis
          proof (cases "OptionalParam_string args ''blocked_by_repo''")
            case (Inl e)
            with owner repo issueNumber blockedByIssueNumber blockedByOwner show thesis
              using that(1) [of e] by (simp add: out_def RemoveBlockedBy_def Let_def)
          next
            case blockedByRepo: (Inr blockedByRepo)
            show thesis
            proof (cases getClient)
              case (Inl e)
              with owner repo issueNumber blockedByIssueNumber blockedByOwner blockedByRepo
              show thesis using that(2) [of e] by (simp add: out_def RemoveBlockedBy_def Let_def)
            next
              case (Inr client)
              with owner repo issueNumber blockedByIssueNumber blockedByOwner blockedByRepo
              show thesis
                using that(3) [of client owner repo issueNumber blockedByIssueNumber
                    blockedByOwner blockedByRepo]
                by (simp add: out_def RemoveBlockedBy_def Let_def)
            qed
          qed
        qed
      qed
    qed
  qed
qed

subsection \<open>Running a call on given arguments\<close>

text \<open>The definitions a concrete call unfolds to.\<close>

lemmas eval_defs = testArgs_def answering_def refusing_def
  RequiredParam_string_def RequiredInt_def OptionalParam_string_def OptionalIntParam_def
  OptionalPaginationParams_def int_of_float64_def MissingParameterError_def TypeMismatchError_def
  NewToolResultError_def NewToolResultText_def NewToolResultErrorFromErr_def NewGitHubAPIErrorResponse_def
  io_ReadAll_def json_Marshal_map_def json_Marshal_Dependencies_def json_Marshal_DependencyRequest_def
  encodeIssueDependency_def encodeString_def escapeByte_def backslash_def fmt_d_def digits.simps
  listIssueDependencies_def addIssueDependency_def removeIssueDependency_def
  ListBlockedBy_def ListBlocking_def AddBlockedBy_def RemoveBlockedBy_def Let_def

subsection \<open>After the request is built\<close>

text \<open>The request that \<^verbatim>\<open>Do\<close> was called with is the one \<^verbatim>\<open>NewRequest\<close> returned.\<close>

lemma listIssueDependencies_DoCall:
  fixes client :: "'req Client"
  assumes "DoCall req \<in> set (snd (listIssueDependencies client owner repo issueNumber dependencyType pagination))"
  shows "NewRequest client ''GET''
           (''repos/'' @ owner @ ''/'' @ repo @ ''/issues/'' @ fmt_d issueNumber @
            ''/dependencies/'' @ dependencyType @
            (if Page pagination > 0 \<or> PerPage pagination > 0
             then ''?page='' @ fmt_d (Page pagination) @ ''&per_page='' @ fmt_d (PerPage pagination)
             else [])) None = Inr req"
  using assms
  by (cases rule: listIssueDependencies_cases [OF refl refl, of client owner repo issueNumber dependencyType pagination])
     auto

lemma addIssueDependency_DoCall:
  fixes client :: "'req Client"
  assumes "DoCall req \<in> set (snd (addIssueDependency client owner repo issueNumber bo br bn))"
  shows "NewRequest client ''POST''
           (''repos/'' @ owner @ ''/'' @ repo @ ''/issues/'' @ fmt_d issueNumber @
            ''/dependencies/blocked_by'')
           (Some (bytes_NewReader (''{\"owner\":'' @ encodeString bo @ '',\"repo\":'' @ encodeString br @
                 '',\"issue_number\":'' @ fmt_d bn @ ''}''))) = Inr req"
  using assms
  by (cases rule: addIssueDependency_cases [OF refl refl json_Marshal_DependencyRequest_def,
        of client owner repo issueNumber bo br bn])
     auto

lemma removeIssueDependency_DoCall:
  fixes client :: "'req Client"
  assumes "DoCall req \<in> set (snd (removeIssueDependency client owner repo issueNumber bo br bn))"
  shows "NewRequest client ''DELETE''
           (''repos/'' @ owner @ ''/'' @ repo @ ''/issues/'' @ fmt_d issueNumber @
            ''/dependencies/blocked_by'')
           (Some (bytes_NewReader (''{\"owner\":'' @ encodeString bo @ '',\"repo\":'' @ encodeString br @
                 '',\"issue_number\":'' @ fmt_d bn @ ''}''))) = Inr req"
  using assms
  by (cases rule: removeIssueDependency_cases [OF refl refl json_Marshal_DependencyRequest_def,
        of client owner repo issueNumber bo br bn])
     auto

text \<open>What each function does once \<^verbatim>\<open>NewRequest\<close> has returned a request: it calls
  \<^verbatim>\<open>Do\<close> with it, and the outcome follows from what \<^verbatim>\<open>Do\<close> returns.\<close>

lemma listIssueDependencies_built:
  fixes client :: "'req Client"
  assumes "NewRequest client ''GET''
             (''repos/'' @ owner @ ''/'' @ repo @ ''/issues/'' @ fmt_d issueNumber @
              ''/dependencies/'' @ dependencyType @
              (if Page pagination > 0 \<or> PerPage pagination > 0
               then ''?page='' @ fmt_d (Page pagination) @ ''&per_page='' @ fmt_d (PerPage pagination)
               else [])) None = Inr req"
  shows "DoCall req \<in> set (snd (listIssueDependencies client owner repo issueNumber dependencyType pagination))"
    and "Do_deps client req \<lparr>Dependencies = None\<rparr> = DoOK resp deps \<Longrightarrow>
           (succeeded (fst (listIssueDependencies client owner repo issueNumber dependencyType pagination))
              \<longleftrightarrow> StatusCode resp = 200) \<and>
           closes client (snd (listIssueDependencies client owner repo issueNumber dependencyType pagination)) =
             DoCloses client req + 1 \<and>
           count_list (snd (listIssueDependencies client owner repo issueNumber dependencyType pagination))
             BodyClose = 1 \<and>
           last (snd (listIssueDependencies client owner repo issueNumber dependencyType pagination)) = BodyClose"
    and "Do_deps client req \<lparr>Dependencies = None\<rparr> = DoError resp' err \<Longrightarrow>
           errorFlagged (fst (listIssueDependencies client owner repo issueNumber dependencyType pagination)) \<and>
           closes client (snd (listIssueDependencies client owner repo issueNumber dependencyType pagination)) =
             DoCloses client req \<and>
           count_list (snd (listIssueDependencies client owner repo issueNumber dependencyType pagination))
             BodyClose = 0"
  using assms
  by (cases rule: listIssueDependencies_cases [OF refl refl, of client owner repo issueNumber dependencyType pagination];
      auto simp: succeeded_def errorFlagged_def closes_def NewToolResultText_def NewToolResultError_def
        NewGitHubAPIErrorResponse_def NewToolResultErrorFromErr_def)+

lemma addIssueDependency_built:
  fixes client :: "'req Client"
  assumes "NewRequest client ''POST''
             (''repos/'' @ owner @ ''/'' @ repo @ ''/issues/'' @ fmt_d issueNumber @
              ''/dependencies/blocked_by'')
             (Some (bytes_NewReader (''{\"owner\":'' @ encodeString bo @ '',\"repo\":'' @ encodeString br @
                   '',\"issue_number\":'' @ fmt_d bn @ ''}''))) = Inr req"
  shows "DoCall req \<in> set (snd (addIssueDependency client owner repo issueNumber bo br bn))"
    and "Do_map client req None = DoOK resp result \<Longrightarrow>
           (succeeded (fst (addIssueDependency client owner repo issueNumber bo br bn))
              \<longleftrightarrow> StatusCode resp = 200 \<or> StatusCode resp = 201) \<and>
           closes client (snd (addIssueDependency client owner repo issueNumber bo br bn)) =
             DoCloses client req + 1 \<and>
           count_list (snd (addIssueDependency client owner repo issueNumber bo br bn)) BodyClose = 1 \<and>
           last (snd (addIssueDependency client owner repo issueNumber bo br bn)) = BodyClose"
    and "Do_map client req None = DoError resp' err \<Longrightarrow>
           errorFlagged (fst (addIssueDependency client owner repo issueNumber bo br bn)) \<and>
           closes client (snd (addIssueDependency client owner repo issueNumber bo br bn)) =
             DoCloses client req \<and>
           count_list (snd (addIssueDependency client owner repo issueNumber bo br bn)) BodyClose = 0"
  using assms
  by (cases rule: addIssueDependency_cases [OF refl refl json_Marshal_DependencyRequest_def,
        of client owner repo issueNumber bo br bn];
      auto simp: succeeded_def errorFlagged_def closes_def NewToolResultText_def NewToolResultError_def
        NewGitHubAPIErrorResponse_def NewToolResultErrorFromErr_def)+

lemma removeIssueDependency_built:
  fixes client :: "'req Client"
  assumes "NewRequest client ''DELETE''
             (''repos/'' @ owner @ ''/'' @ repo @ ''/issues/'' @ fmt_d issueNumber @
              ''/dependencies/blocked_by'')
             (Some (bytes_NewReader (''{\"owner\":'' @ encodeString bo @ '',\"repo\":'' @ encodeString br @
                   '',\"issue_number\":'' @ fmt_d bn @ ''}''))) = Inr req"
  shows "DoCall req \<in> set (snd (removeIssueDependency client owner repo issueNumber bo br bn))"
    and "Do_map client req None = DoOK resp result \<Longrightarrow>
           (succeeded (fst (removeIssueDependency client owner repo issueNumber bo br bn))
              \<longleftrightarrow> StatusCode resp = 200 \<or> StatusCode resp = 204) \<and>
           closes client (snd (removeIssueDependency client owner repo issueNumber bo br bn)) =
             DoCloses client req + 1 \<and>
           count_list (snd (removeIssueDependency client owner repo issueNumber bo br bn)) BodyClose = 1 \<and>
           last (snd (removeIssueDependency client owner repo issueNumber bo br bn)) = BodyClose"
    and "Do_map client req None = DoError resp' err \<Longrightarrow>
           errorFlagged (fst (removeIssueDependency client owner repo issueNumber bo br bn)) \<and>
           closes client (snd (removeIssueDependency client owner repo issueNumber bo br bn)) =
             DoCloses client req \<and>
           count_list (snd (removeIssueDependency client owner repo issueNumber bo br bn)) BodyClose = 0"
  using assms
  by (cases rule: removeIssueDependency_cases [OF refl refl json_Marshal_DependencyRequest_def,
        of client owner repo issueNumber bo br bn];
      auto simp: succeeded_def errorFlagged_def closes_def NewToolResultText_def NewToolResultError_def
        NewGitHubAPIErrorResponse_def NewToolResultErrorFromErr_def)+

lemma removeIssueDependency_accepted:
  fixes client :: "'req Client"
  assumes "NewRequest client ''DELETE''
             (''repos/'' @ owner @ ''/'' @ repo @ ''/issues/'' @ fmt_d issueNumber @
              ''/dependencies/blocked_by'')
             (Some (bytes_NewReader (''{\"owner\":'' @ encodeString bo @ '',\"repo\":'' @ encodeString br @
                   '',\"issue_number\":'' @ fmt_d bn @ ''}''))) = Inr req"
    and "Do_map client req None = DoOK resp result"
    and "StatusCode resp = 200 \<or> StatusCode resp = 204"
  shows "fst (removeIssueDependency client owner repo issueNumber bo br bn) =
           (case json_Marshal_map result of
              Inl e \<Rightarrow> (None, Some (''failed to marshal response: '' @ e))
            | Inr r \<Rightarrow> (Some \<lparr>Text = r, IsError = False\<rparr>, None))"
  using assms
  by (cases rule: removeIssueDependency_cases [OF refl refl json_Marshal_DependencyRequest_def,
        of client owner repo issueNumber bo br bn])
     (auto simp: NewToolResultText_def)

subsection \<open>The handlers on arguments that validate\<close>

lemma ListBlockedBy_valid:
  assumes "RequiredParam_string args ''owner'' = Inr owner"
    "RequiredParam_string args ''repo'' = Inr repo"
    "RequiredInt args ''issue_number'' = Inr issueNumber"
    "OptionalPaginationParams args = Inr pagination"
  shows "ListBlockedBy (Inr client) args =
           listIssueDependencies client owner repo issueNumber ''blocked_by'' pagination"
  using assms by (simp add: ListBlockedBy_def)

lemma ListBlocking_valid:
  assumes "RequiredParam_string args ''owner'' = Inr owner"
    "RequiredParam_string args ''repo'' = Inr repo"
    "RequiredInt args ''issue_number'' = Inr issueNumber"
    "OptionalPaginationParams args = Inr pagination"
  shows "ListBlocking (Inr client) args =
           listIssueDependencies client owner repo issueNumber ''blocking'' pagination"
  using assms by (simp add: ListBlocking_def)

subsection \<open>The client of go-github\<close>

lemma github_NewRequest_Inr:
  "url_Parse pf url = None \<Longrightarrow>
     NewRequest (github_Client pf) meth url body =
       Inr \<lparr>Method = meth, URL = url, Payload = map_option json_Encode_Reader body\<rparr>"
  by (simp add: github_Client_def github_NewRequest_def)

lemma github_Do_map_decoded:
  assumes "RoundTrip pf req = Inr a" "Status a = 200 \<or> Status a = 201"
    "Content a = Document j" "Unmarshal_map pf j = Some m"
  shows "Do_map (github_Client pf) req v =
           DoOK \<lparr>StatusCode = Status a, Body = Inl ''http: read on closed response body''\<rparr> m"
  using assms by (auto simp: github_Client_def github_Do_def CheckResponse_def)

lemma github_Do_map_no_content:
  assumes "RoundTrip pf req = Inr a" "Status a = 204" "Content a = NoContent"
  shows "Do_map (github_Client pf) req v =
           DoOK \<lparr>StatusCode = 204, Body = Inl ''http: read on closed response body''\<rparr> v"
  using assms by (simp add: github_Client_def github_Do_def CheckResponse_def)

lemma github_Do_returned:
  "returned (github_Do pf um req v) = (Some resp, x) \<Longrightarrow> \<exists>a. RoundTrip pf req = Inr a"
  "returned (github_Do pf um req v) = (None, x) \<Longrightarrow> \<exists>e. RoundTrip pf req = Inl e"
proof -
  assume "returned (github_Do pf um req v) = (Some resp, x)"
  then show "\<exists>a. RoundTrip pf req = Inr a"
    by (cases "RoundTrip pf req") (simp_all add: github_Do_def returned_def)
next
  assume r: "returned (github_Do pf um req v) = (None, x)"
  show "\<exists>e. RoundTrip pf req = Inl e"
  proof (cases "RoundTrip pf req")
    case (Inr a)
    with r show ?thesis
      by (cases "CheckResponse a"; cases "Content a")
         (auto simp add: github_Do_def returned_def Let_def split: option.splits)
  qed simp
qed

lemma github_DoCloses:
  "Do_returned op (github_Client pf) req = (Some resp, x) \<Longrightarrow> DoCloses (github_Client pf) req = 1"
  "Do_returned op (github_Client pf) req = (None, x) \<Longrightarrow> DoCloses (github_Client pf) req = 0"
proof -
  have d: "DoCloses (github_Client pf) req = (case RoundTrip pf req of Inl err \<Rightarrow> 0 | Inr a \<Rightarrow> 1)"
    by (simp add: github_Client_def)
  {
    assume "Do_returned op (github_Client pf) req = (Some resp, x)"
    then have "\<exists>a. RoundTrip pf req = Inr a"
      by (cases op) (auto simp: Do_returned_def github_Client_def dest: github_Do_returned(1))
    then show "DoCloses (github_Client pf) req = 1"
      by (auto simp: d)
  }
  {
    assume "Do_returned op (github_Client pf) req = (None, x)"
    then have "\<exists>e. RoundTrip pf req = Inl e"
      by (cases op) (auto simp: Do_returned_def github_Client_def dest: github_Do_returned(2))
    then show "DoCloses (github_Client pf) req = 0"
      by (auto simp: d)
  }
qed

subsection \<open>Status codes outside the accepted set\<close>




subsection \<open>The URL of a list request\<close>

lemma listIssueDependencies_NewRequest_arguments:
  "NewRequest_arguments (snd (listIssueDependencies client owner repo issueNumber dependencyType pagination)) =
     Some (''GET'',
           ''repos/'' @ owner @ ''/'' @ repo @ ''/issues/'' @ fmt_d issueNumber @
           ''/dependencies/'' @ dependencyType @
           (if Page pagination > 0 \<or> PerPage pagination > 0
            then ''?page='' @ fmt_d (Page pagination) @ ''&per_page='' @ fmt_d (PerPage pagination)
            else []),
           None)"
  by (cases rule: listIssueDependencies_cases [OF refl refl, of client owner repo issueNumber dependencyType pagination])
     simp_all

subsection \<open>The requests of the two mutations\<close>

lemma addIssueDependency_NewRequest_arguments:
  "NewRequest_arguments (snd (addIssueDependency client owner repo issueNumber bo br bn)) =
     Some (''POST'',
           ''repos/'' @ owner @ ''/'' @ repo @ ''/issues/'' @ fmt_d issueNumber @
           ''/dependencies/blocked_by'',
           Some (bytes_NewReader (''{\"owner\":'' @ encodeString bo @ '',\"repo\":'' @ encodeString br @
                 '',\"issue_number\":'' @ fmt_d bn @ ''}'')))"
  by (cases rule: addIssueDependency_cases [OF refl refl json_Marshal_DependencyRequest_def,
        of client owner repo issueNumber bo br bn])
     simp_all

lemma removeIssueDependency_NewRequest_arguments:
  "NewRequest_arguments (snd (removeIssueDependency client owner repo issueNumber bo br bn)) =
     Some (''DELETE'',
           ''repos/'' @ owner @ ''/'' @ repo @ ''/issues/'' @ fmt_d issueNumber @
           ''/dependencies/blocked_by'',
           Some (bytes_NewReader (''{\"owner\":'' @ encodeString bo @ '',\"repo\":'' @ encodeString br @
                 '',\"issue_number\":'' @ fmt_d bn @ ''}'')))"
  by (cases rule: removeIssueDependency_cases [OF refl refl json_Marshal_DependencyRequest_def,
        of client owner repo issueNumber bo br bn])
     simp_all

subsection \<open>Defaults of the blocking owner and repo\<close>

lemma OptionalParam_string_empty:
  "args p = None \<or> args p = Some (AnyString []) \<Longrightarrow> OptionalParam_string args p = Inr []"
  by (auto simp: OptionalParam_string_def)

lemma OptionalParam_string_empty_same:
  "OptionalParam_string (args(p \<mapsto> AnyString [])) q = OptionalParam_string (args(p := None)) q"
  by (simp add: OptionalParam_string_def)

lemma Required_other_key:
  "p \<noteq> q \<Longrightarrow> RequiredParam_string (args(p := x)) q = RequiredParam_string args q"
  "p \<noteq> q \<Longrightarrow> RequiredInt (args(p := x)) q = RequiredInt args q"
  "p \<noteq> q \<Longrightarrow> OptionalParam_string (args(p := x)) q = OptionalParam_string args q"
  by (simp_all add: RequiredParam_string_def RequiredInt_def OptionalParam_string_def)

lemma AddBlockedBy_empty_same:
  "p = ''blocked_by_owner'' \<or> p = ''blocked_by_repo'' \<Longrightarrow>
   AddBlockedBy g (args(p \<mapsto> AnyString [])) = AddBlockedBy g (args(p := None))"
  by (auto simp add: AddBlockedBy_def Required_other_key OptionalParam_string_empty_same
      cong: sum.case_cong)

lemma RemoveBlockedBy_empty_same:
  "p = ''blocked_by_owner'' \<or> p = ''blocked_by_repo'' \<Longrightarrow>
   RemoveBlockedBy g (args(p \<mapsto> AnyString [])) = RemoveBlockedBy g (args(p := None))"
  by (auto simp add: RemoveBlockedBy_def Required_other_key OptionalParam_string_empty_same
      cong: sum.case_cong)

lemma Required_missing:
  "args p = None \<Longrightarrow> RequiredParam_string args p = Inl (MissingParameterError p)"
  "args p = None \<Longrightarrow> RequiredInt args p = Inl (MissingParameterError p)"
  by (simp_all add: RequiredParam_string_def RequiredInt_def)

lemma AddBlockedBy_required_first:
  assumes "q \<in> {''owner'', ''repo'', ''issue_number'', ''blocked_by_issue_number''}" "args q = None"
  shows "AddBlockedBy g (args(''blocked_by_owner'' := x, ''blocked_by_repo'' := y)) = AddBlockedBy g args"
proof -
  have "RequiredParam_string args ''owner'' = Inl (MissingParameterError ''owner'') \<or>
        RequiredParam_string args ''repo'' = Inl (MissingParameterError ''repo'') \<or>
        RequiredInt args ''issue_number'' = Inl (MissingParameterError ''issue_number'') \<or>
        RequiredInt args ''blocked_by_issue_number'' = Inl (MissingParameterError ''blocked_by_issue_number'')"
    using assms Required_missing by blast
  then show ?thesis
    by (auto simp add: AddBlockedBy_def Required_other_key cong: sum.case_cong)
qed

lemma RemoveBlockedBy_required_first:
  assumes "q \<in> {''owner'', ''repo'', ''issue_number'', ''blocked_by_issue_number''}" "args q = None"
  shows "RemoveBlockedBy g (args(''blocked_by_owner'' := x, ''blocked_by_repo'' := y)) = RemoveBlockedBy g args"
proof -
  have "RequiredParam_string args ''owner'' = Inl (MissingParameterError ''owner'') \<or>
        RequiredParam_string args ''repo'' = Inl (MissingParameterError ''repo'') \<or>
        RequiredInt args ''issue_number'' = Inl (MissingParameterError ''issue_number'') \<or>
        RequiredInt args ''blocked_by_issue_number'' = Inl (MissingParameterError ''blocked_by_issue_number'')"
    using assms Required_missing by blast
  then show ?thesis
    by (auto simp add: RemoveBlockedBy_def Required_other_key cong: sum.case_cong)
qed

lemma AddBlockedBy_valid:
  assumes "RequiredParam_string args ''owner'' = Inr owner"
    "RequiredParam_string args ''repo'' = Inr repo"
    "RequiredInt args ''issue_number'' = Inr issueNumber"
    "RequiredInt args ''blocked_by_issue_number'' = Inr blockedByIssueNumber"
    "OptionalParam_string args ''blocked_by_owner'' = Inr blockedByOwner"
    "OptionalParam_string args ''blocked_by_repo'' = Inr blockedByRepo"
  shows "AddBlockedBy (Inr client) args =
           addIssueDependency client owner repo issueNumber
             (if blockedByOwner = [] then owner else blockedByOwner)
             (if blockedByRepo = [] then repo else blockedByRepo) blockedByIssueNumber"
  using assms by (simp add: AddBlockedBy_def)

lemma RemoveBlockedBy_valid:
  assumes "RequiredParam_string args ''owner'' = Inr owner"
    "RequiredParam_string args ''repo'' = Inr repo"
    "RequiredInt args ''issue_number'' = Inr issueNumber"
    "RequiredInt args ''blocked_by_issue_number'' = Inr blockedByIssueNumber"
    "OptionalParam_string args ''blocked_by_owner'' = Inr blockedByOwner"
    "OptionalParam_string args ''blocked_by_repo'' = Inr blockedByRepo"
  shows "RemoveBlockedBy (Inr client) args =
           removeIssueDependency client owner repo issueNumber
             (if blockedByOwner = [] then owner else blockedByOwner)
             (if blockedByRepo = [] then repo else blockedByRepo) blockedByIssueNumber"
  using assms by (simp add: RemoveBlockedBy_def)

text \<open>
  What the two handlers hand to \<^verbatim>\<open>NewRequest\<close>, on arguments whose required parameters
  validate: the reader is over bytes in which an absent or empty \<^verbatim>\<open>blocked_by_owner\<close>
  (\<^verbatim>\<open>blocked_by_repo\<close>) has given way to the primary owner (repo). An empty string and
  an omission give the same outcome, and with a required parameter missing the two
  optional parameters do not matter.
\<close>

lemma blocked_by_defaults_handed_to_NewRequest:
  fixes client :: "'req Client"
  shows
    "(RequiredParam_string args ''owner'' = Inr owner \<and>
      RequiredParam_string args ''repo'' = Inr repo \<and>
      RequiredInt args ''issue_number'' = Inr issueNumber \<and>
      RequiredInt args ''blocked_by_issue_number'' = Inr blockedByIssueNumber \<and>
      (args ''blocked_by_owner'' = None \<or> args ''blocked_by_owner'' = Some (AnyString [])) \<and>
      OptionalParam_string args ''blocked_by_repo'' = Inr blockedByRepo \<longrightarrow>
        NewRequest_arguments (snd (AddBlockedBy (Inr client) args)) =
          Some (''POST'',
                ''repos/'' @ owner @ ''/'' @ repo @ ''/issues/'' @ fmt_d issueNumber @
                ''/dependencies/blocked_by'',
                Some (bytes_NewReader (''{\"owner\":'' @ encodeString owner @
                      '',\"repo\":'' @ encodeString (if blockedByRepo = [] then repo else blockedByRepo) @
                      '',\"issue_number\":'' @ fmt_d blockedByIssueNumber @ ''}''))) \<and>
        NewRequest_arguments (snd (RemoveBlockedBy (Inr client) args)) =
          Some (''DELETE'',
                ''repos/'' @ owner @ ''/'' @ repo @ ''/issues/'' @ fmt_d issueNumber @
                ''/dependencies/blocked_by'',
                Some (bytes_NewReader (''{\"owner\":'' @ encodeString owner @
                      '',\"repo\":'' @ encodeString (if blockedByRepo = [] then repo else blockedByRepo) @
                      '',\"issue_number\":'' @ fmt_d blockedByIssueNumber @ ''}'')))) \<and>
     (RequiredParam_string args ''owner'' = Inr owner \<and>
      RequiredParam_string args ''repo'' = Inr repo \<and>
      RequiredInt args ''issue_number'' = Inr issueNumber \<and>
      RequiredInt args ''blocked_by_issue_number'' = Inr blockedByIssueNumber \<and>
      OptionalParam_string args ''blocked_by_owner'' = Inr blockedByOwner \<and>
      (args ''blocked_by_repo'' = None \<or> args ''blocked_by_repo'' = Some (AnyString [])) \<longrightarrow>
        NewRequest_arguments (snd (AddBlockedBy (Inr client) args)) =
          Some (''POST'',
                ''repos/'' @ owner @ ''/'' @ repo @ ''/issues/'' @ fmt_d issueNumber @
                ''/dependencies/blocked_by'',
                Some (bytes_NewReader (''{\"owner\":'' @ encodeString (if blockedByOwner = [] then owner else blockedByOwner) @
                      '',\"repo\":'' @ encodeString repo @
                      '',\"issue_number\":'' @ fmt_d blockedByIssueNumber @ ''}''))) \<and>
        NewRequest_arguments (snd (RemoveBlockedBy (Inr client) args)) =
          Some (''DELETE'',
                ''repos/'' @ owner @ ''/'' @ repo @ ''/issues/'' @ fmt_d issueNumber @
                ''/dependencies/blocked_by'',
                Some (bytes_NewReader (''{\"owner\":'' @ encodeString (if blockedByOwner = [] then owner else blockedByOwner) @
                      '',\"repo\":'' @ encodeString repo @
                      '',\"issue_number\":'' @ fmt_d blockedByIssueNumber @ ''}'')))) \<and>
     (p = ''blocked_by_owner'' \<or> p = ''blocked_by_repo'' \<longrightarrow>
        AddBlockedBy getClient (args(p \<mapsto> AnyString [])) = AddBlockedBy getClient (args(p := None)) \<and>
        RemoveBlockedBy getClient (args(p \<mapsto> AnyString [])) =
          RemoveBlockedBy getClient (args(p := None))) \<and>
     (q \<in> {''owner'', ''repo'', ''issue_number'', ''blocked_by_issue_number''} \<and> args q = None \<longrightarrow>
        AddBlockedBy getClient (args(''blocked_by_owner'' := x, ''blocked_by_repo'' := y)) =
          AddBlockedBy getClient args \<and>
        RemoveBlockedBy getClient (args(''blocked_by_owner'' := x, ''blocked_by_repo'' := y)) =
          RemoveBlockedBy getClient args)"
proof (intro conjI impI; (elim conjE)?)
  assume v: "RequiredParam_string args ''owner'' = Inr owner"
    "RequiredParam_string args ''repo'' = Inr repo"
    "RequiredInt args ''issue_number'' = Inr issueNumber"
    "RequiredInt args ''blocked_by_issue_number'' = Inr blockedByIssueNumber"
    and o: "args ''blocked_by_owner'' = None \<or> args ''blocked_by_owner'' = Some (AnyString [])"
    and r: "OptionalParam_string args ''blocked_by_repo'' = Inr blockedByRepo"
  note o' = OptionalParam_string_empty [of args "''blocked_by_owner''", OF o]
  show "NewRequest_arguments (snd (AddBlockedBy (Inr client) args)) =
          Some (''POST'',
                ''repos/'' @ owner @ ''/'' @ repo @ ''/issues/'' @ fmt_d issueNumber @
                ''/dependencies/blocked_by'',
                Some (bytes_NewReader (''{\"owner\":'' @ encodeString owner @
                      '',\"repo\":'' @ encodeString (if blockedByRepo = [] then repo else blockedByRepo) @
                      '',\"issue_number\":'' @ fmt_d blockedByIssueNumber @ ''}'')))"
    by (simp add: AddBlockedBy_valid [OF v o' r] addIssueDependency_NewRequest_arguments)
  show "NewRequest_arguments (snd (RemoveBlockedBy (Inr client) args)) =
          Some (''DELETE'',
                ''repos/'' @ owner @ ''/'' @ repo @ ''/issues/'' @ fmt_d issueNumber @
                ''/dependencies/blocked_by'',
                Some (bytes_NewReader (''{\"owner\":'' @ encodeString owner @
                      '',\"repo\":'' @ encodeString (if blockedByRepo = [] then repo else blockedByRepo) @
                      '',\"issue_number\":'' @ fmt_d blockedByIssueNumber @ ''}'')))"
    by (simp add: RemoveBlockedBy_valid [OF v o' r] removeIssueDependency_NewRequest_arguments)
next
  assume v: "RequiredParam_string args ''owner'' = Inr owner"
    "RequiredParam_string args ''repo'' = Inr repo"
    "RequiredInt args ''issue_number'' = Inr issueNumber"
    "RequiredInt args ''blocked_by_issue_number'' = Inr blockedByIssueNumber"
    and o: "OptionalParam_string args ''blocked_by_owner'' = Inr blockedByOwner"
    and r: "args ''blocked_by_repo'' = None \<or> args ''blocked_by_repo'' = Some (AnyString [])"
  note r' = OptionalParam_string_empty [of args "''blocked_by_repo''", OF r]
  show "NewRequest_arguments (snd (AddBlockedBy (Inr client) args)) =
          Some (''POST'',
                ''repos/'' @ owner @ ''/'' @ repo @ ''/issues/'' @ fmt_d issueNumber @
                ''/dependencies/blocked_by'',
                Some (bytes_NewReader (''{\"owner\":'' @ encodeString (if blockedByOwner = [] then owner else blockedByOwner) @
                      '',\"repo\":'' @ encodeString repo @
                      '',\"issue_number\":'' @ fmt_d blockedByIssueNumber @ ''}'')))"
    by (simp add: AddBlockedBy_valid [OF v o r'] addIssueDependency_NewRequest_arguments)
  show "NewRequest_arguments (snd (RemoveBlockedBy (Inr client) args)) =
          Some (''DELETE'',
                ''repos/'' @ owner @ ''/'' @ repo @ ''/issues/'' @ fmt_d issueNumber @
                ''/dependencies/blocked_by'',
                Some (bytes_NewReader (''{\"owner\":'' @ encodeString (if blockedByOwner = [] then owner else blockedByOwner) @
                      '',\"repo\":'' @ encodeString repo @
                      '',\"issue_number\":'' @ fmt_d blockedByIssueNumber @ ''}'')))"
    by (simp add: RemoveBlockedBy_valid [OF v o r'] removeIssueDependency_NewRequest_arguments)
next
  assume "p = ''blocked_by_owner'' \<or> p = ''blocked_by_repo''"
  then show "AddBlockedBy getClient (args(p \<mapsto> AnyString [])) = AddBlockedBy getClient (args(p := None))"
    and "RemoveBlockedBy getClient (args(p \<mapsto> AnyString [])) =
          RemoveBlockedBy getClient (args(p := None))"
    by (rule AddBlockedBy_empty_same, rule RemoveBlockedBy_empty_same)
next
  assume "q \<in> {''owner'', ''repo'', ''issue_number'', ''blocked_by_issue_number''}" "args q = None"
  then show "AddBlockedBy getClient (args(''blocked_by_owner'' := x, ''blocked_by_repo'' := y)) =
          AddBlockedBy getClient args"
    and "RemoveBlockedBy getClient (args(''blocked_by_owner'' := x, ''blocked_by_repo'' := y)) =
          RemoveBlockedBy getClient args"
    by (rule AddBlockedBy_required_first, rule RemoveBlockedBy_required_first)
qed

subsection \<open>Missing required parameters\<close>

lemma missing_result:
  "((Some (NewToolResultError (MissingParameterError p)), None), []) =
   ((Some \<lparr>Text = ''missing required parameter: '' @ p, IsError = True\<rparr>, None), [])"
  by (simp add: NewToolResultError_def MissingParameterError_def)

lemma list_handlers_invalid:
  "RequiredParam_string args ''owner'' = Inl e \<Longrightarrow>
     ListBlockedBy g args = ((Some (NewToolResultError e), None), []) \<and>
     ListBlocking g args = ((Some (NewToolResultError e), None), [])"
  "RequiredParam_string args ''owner'' = Inr owner \<Longrightarrow> RequiredParam_string args ''repo'' = Inl e \<Longrightarrow>
     ListBlockedBy g args = ((Some (NewToolResultError e), None), []) \<and>
     ListBlocking g args = ((Some (NewToolResultError e), None), [])"
  "RequiredParam_string args ''owner'' = Inr owner \<Longrightarrow> RequiredParam_string args ''repo'' = Inr repo \<Longrightarrow>
   RequiredInt args ''issue_number'' = Inl e \<Longrightarrow>
     ListBlockedBy g args = ((Some (NewToolResultError e), None), []) \<and>
     ListBlocking g args = ((Some (NewToolResultError e), None), [])"
  by (simp_all add: ListBlockedBy_def ListBlocking_def)

lemma mutation_handlers_invalid:
  "RequiredParam_string args ''owner'' = Inl e \<Longrightarrow>
     AddBlockedBy g args = ((Some (NewToolResultError e), None), []) \<and>
     RemoveBlockedBy g args = ((Some (NewToolResultError e), None), [])"
  "RequiredParam_string args ''owner'' = Inr owner \<Longrightarrow> RequiredParam_string args ''repo'' = Inl e \<Longrightarrow>
     AddBlockedBy g args = ((Some (NewToolResultError e), None), []) \<and>
     RemoveBlockedBy g args = ((Some (NewToolResultError e), None), [])"
  "RequiredParam_string args ''owner'' = Inr owner \<Longrightarrow> RequiredParam_string args ''repo'' = Inr repo \<Longrightarrow>
   RequiredInt args ''issue_number'' = Inl e \<Longrightarrow>
     AddBlockedBy g args = ((Some (NewToolResultError e), None), []) \<and>
     RemoveBlockedBy g args = ((Some (NewToolResultError e), None), [])"
  "RequiredParam_string args ''owner'' = Inr owner \<Longrightarrow> RequiredParam_string args ''repo'' = Inr repo \<Longrightarrow>
   RequiredInt args ''issue_number'' = Inr issueNumber \<Longrightarrow>
   RequiredInt args ''blocked_by_issue_number'' = Inl e \<Longrightarrow>
     AddBlockedBy g args = ((Some (NewToolResultError e), None), []) \<and>
     RemoveBlockedBy g args = ((Some (NewToolResultError e), None), [])"
  by (simp_all add: AddBlockedBy_def RemoveBlockedBy_def)

lemma list_handlers_missing_flagged:
  assumes "q \<in> {''owner'', ''repo'', ''issue_number''}" "args q = None"
  shows "errorFlagged (fst (ListBlockedBy g args)) \<and> snd (ListBlockedBy g args) = [] \<and>
         errorFlagged (fst (ListBlocking g args)) \<and> snd (ListBlocking g args) = []"
proof -
  have "RequiredParam_string args ''owner'' = Inl (MissingParameterError ''owner'') \<or>
        RequiredParam_string args ''repo'' = Inl (MissingParameterError ''repo'') \<or>
        RequiredInt args ''issue_number'' = Inl (MissingParameterError ''issue_number'')"
    using assms Required_missing by blast
  then show ?thesis
    by (auto simp add: ListBlockedBy_def ListBlocking_def errorFlagged_def NewToolResultError_def
        split: sum.splits)
qed

lemma mutation_handlers_missing_flagged:
  assumes "q \<in> {''owner'', ''repo'', ''issue_number'', ''blocked_by_issue_number''}" "args q = None"
  shows "errorFlagged (fst (AddBlockedBy g args)) \<and> snd (AddBlockedBy g args) = [] \<and>
         errorFlagged (fst (RemoveBlockedBy g args)) \<and> snd (RemoveBlockedBy g args) = []"
proof -
  have "RequiredParam_string args ''owner'' = Inl (MissingParameterError ''owner'') \<or>
        RequiredParam_string args ''repo'' = Inl (MissingParameterError ''repo'') \<or>
        RequiredInt args ''issue_number'' = Inl (MissingParameterError ''issue_number'') \<or>
        RequiredInt args ''blocked_by_issue_number'' = Inl (MissingParameterError ''blocked_by_issue_number'')"
    using assms Required_missing by blast
  then show ?thesis
    by (auto simp add: AddBlockedBy_def RemoveBlockedBy_def errorFlagged_def NewToolResultError_def
        split: sum.splits)
qed

subsection \<open>Closing the response body\<close>

lemma returned_iff:
  "returned d = (Some resp, None) \<longleftrightarrow> (\<exists>v. d = DoOK resp v)"
  "returned d = (resp', Some err) \<longleftrightarrow> d = DoError resp' err"
  by (cases d; simp add: returned_def)+

lemma handler_cases:
  fixes getClient :: "go_error + 'req Client"
  assumes out_def: "out = handler op getClient args"
  obtains
    e where "out = ((Some (NewToolResultError e), None), [])"
  | e where "getClient = Inl e"
      "out = ((Some (NewToolResultErrorFromErr ''failed to get GitHub client'' e), None), [])"
  | client owner repo issueNumber dependencyType pagination where
      "op = list_blocked_by \<or> op = list_blocking" "getClient = Inr client"
      "out = listIssueDependencies client owner repo issueNumber dependencyType pagination"
  | client owner repo issueNumber bo br bn where
      "op = add_blocked_by" "getClient = Inr client"
      "out = addIssueDependency client owner repo issueNumber bo br bn"
  | client owner repo issueNumber bo br bn where
      "op = remove_blocked_by" "getClient = Inr client"
      "out = removeIssueDependency client owner repo issueNumber bo br bn"
proof (cases op)
  case list_blocked_by
  then have "out = ListBlockedBy getClient args" by (simp add: out_def handler_def)
  then show thesis
    using that(1,2) that(3) list_blocked_by by (cases rule: ListBlockedBy_cases) auto
next
  case list_blocking
  then have "out = ListBlocking getClient args" by (simp add: out_def handler_def)
  then show thesis
    using that(1,2) that(3) list_blocking by (cases rule: ListBlocking_cases) auto
next
  case add_blocked_by
  then have "out = AddBlockedBy getClient args" by (simp add: out_def handler_def)
  then show thesis
    using that(1,2) that(4) add_blocked_by by (cases rule: AddBlockedBy_cases) auto
next
  case remove_blocked_by
  then have "out = RemoveBlockedBy getClient args" by (simp add: out_def handler_def)
  then show thesis
    using that(1,2) that(5) remove_blocked_by by (cases rule: RemoveBlockedBy_cases) auto
qed

lemma closes_Nil: "closes client [] = 0"
  by (simp add: closes_def)

lemma handler_closes:
  fixes client :: "'req Client"
  shows "DoCall req \<in> set (snd (handler op (Inr client) args)) \<Longrightarrow>
         Do_returned op client req = (Some resp, None) \<Longrightarrow>
           closes client (snd (handler op (Inr client) args)) = DoCloses client req + 1"
    and "DoCall req \<in> set (snd (handler op (Inr client) args)) \<Longrightarrow>
         Do_returned op client req = (resp', Some err) \<Longrightarrow>
           closes client (snd (handler op (Inr client) args)) = DoCloses client req"
proof -
  assume d: "DoCall req \<in> set (snd (handler op (Inr client) args))"
    and r: "Do_returned op client req = (Some resp, None)"
  show "closes client (snd (handler op (Inr client) args)) = DoCloses client req + 1"
  proof (cases rule: handler_cases [OF refl, of op "Inr client" args])
    case (3 c owner repo n k p)
    with d r show ?thesis
      using listIssueDependencies_built(2) [OF listIssueDependencies_DoCall, of req client owner repo n k p]
      by (auto simp: Do_returned_def returned_iff)
  next
    case (4 c owner repo n bo br bn)
    with d r show ?thesis
      using addIssueDependency_built(2) [OF addIssueDependency_DoCall, of req client owner repo n bo br bn]
      by (auto simp: Do_returned_def returned_iff)
  next
    case (5 c owner repo n bo br bn)
    with d r show ?thesis
      using removeIssueDependency_built(2) [OF removeIssueDependency_DoCall, of req client owner repo n bo br bn]
      by (auto simp: Do_returned_def returned_iff)
  qed (use d in simp_all)
next
  assume d: "DoCall req \<in> set (snd (handler op (Inr client) args))"
    and r: "Do_returned op client req = (resp', Some err)"
  show "closes client (snd (handler op (Inr client) args)) = DoCloses client req"
  proof (cases rule: handler_cases [OF refl, of op "Inr client" args])
    case (3 c owner repo n k p)
    with d r show ?thesis
      using listIssueDependencies_built(3) [OF listIssueDependencies_DoCall, of req client owner repo n k p]
      by (auto simp: Do_returned_def returned_iff)
  next
    case (4 c owner repo n bo br bn)
    with d r show ?thesis
      using addIssueDependency_built(3) [OF addIssueDependency_DoCall, of req client owner repo n bo br bn]
      by (auto simp: Do_returned_def returned_iff)
  next
    case (5 c owner repo n bo br bn)
    with d r show ?thesis
      using removeIssueDependency_built(3) [OF removeIssueDependency_DoCall, of req client owner repo n bo br bn]
      by (auto simp: Do_returned_def returned_iff)
  qed (use d in simp_all)
qed

subsection \<open>Which failures are hard\<close>

lemma errorFlagged_simps:
  "errorFlagged (Some (NewToolResultError m), None)"
  "errorFlagged (Some (NewToolResultErrorFromErr m e), None)"
  "errorFlagged (Some (NewGitHubAPIErrorResponse m resp e), None)"
  "\<not> errorFlagged (Some (NewToolResultText t), None)"
  "\<not> errorFlagged (None, err)"
  by (simp_all add: errorFlagged_def NewToolResultError_def NewToolResultErrorFromErr_def
      NewGitHubAPIErrorResponse_def NewToolResultText_def)

lemma list_handlers_invalid_flagged:
  assumes "isl (RequiredParam_string args ''owner'') \<or> isl (RequiredParam_string args ''repo'') \<or>
           isl (RequiredInt args ''issue_number'') \<or> isl (OptionalPaginationParams args)"
  shows "errorFlagged (fst (ListBlockedBy g args)) \<and> errorFlagged (fst (ListBlocking g args))"
proof
  from assms show "errorFlagged (fst (ListBlockedBy g args))"
    by (cases rule: ListBlockedBy_cases [OF refl, of g args]) (auto simp: errorFlagged_simps)
  from assms show "errorFlagged (fst (ListBlocking g args))"
    by (cases rule: ListBlocking_cases [OF refl, of g args]) (auto simp: errorFlagged_simps)
qed

lemma mutation_handlers_invalid_flagged:
  assumes "isl (RequiredParam_string args ''owner'') \<or> isl (RequiredParam_string args ''repo'') \<or>
           isl (RequiredInt args ''issue_number'') \<or> isl (RequiredInt args ''blocked_by_issue_number'') \<or>
           isl (OptionalParam_string args ''blocked_by_owner'') \<or>
           isl (OptionalParam_string args ''blocked_by_repo'')"
  shows "errorFlagged (fst (AddBlockedBy g args)) \<and> errorFlagged (fst (RemoveBlockedBy g args))"
proof
  from assms show "errorFlagged (fst (AddBlockedBy g args))"
    by (cases rule: AddBlockedBy_cases [OF refl, of g args]) (auto simp: errorFlagged_simps)
  from assms show "errorFlagged (fst (RemoveBlockedBy g args))"
    by (cases rule: RemoveBlockedBy_cases [OF refl, of g args]) (auto simp: errorFlagged_simps)
qed

lemma handler_no_client_flagged:
  "errorFlagged (fst (handler op (Inl err :: go_error + 'req Client) args))"
  by (cases rule: handler_cases [OF refl, of op "Inl err :: go_error + 'req Client" args])
     (auto simp: errorFlagged_simps)

lemma listIssueDependencies_flagged:
  fixes client :: "'req Client"
  shows "DoCall req \<in> set (snd (listIssueDependencies client owner repo n k p)) \<Longrightarrow>
         Do_deps client req \<lparr>Dependencies = None\<rparr> = DoError resp' err \<Longrightarrow>
           errorFlagged (fst (listIssueDependencies client owner repo n k p))"
    and "DoCall req \<in> set (snd (listIssueDependencies client owner repo n k p)) \<Longrightarrow>
         Do_deps client req \<lparr>Dependencies = None\<rparr> = DoOK resp deps \<Longrightarrow>
         StatusCode resp \<noteq> 200 \<Longrightarrow> Body resp = Inr body \<Longrightarrow>
           errorFlagged (fst (listIssueDependencies client owner repo n k p))"
  by (cases rule: listIssueDependencies_cases [OF refl refl, of client owner repo n k p];
      auto simp: errorFlagged_simps)+

lemma addIssueDependency_flagged:
  fixes client :: "'req Client"
  shows "DoCall req \<in> set (snd (addIssueDependency client owner repo n bo br bn)) \<Longrightarrow>
         Do_map client req None = DoError resp' err \<Longrightarrow>
           errorFlagged (fst (addIssueDependency client owner repo n bo br bn))"
    and "DoCall req \<in> set (snd (addIssueDependency client owner repo n bo br bn)) \<Longrightarrow>
         Do_map client req None = DoOK resp result \<Longrightarrow>
         StatusCode resp \<noteq> 200 \<Longrightarrow> StatusCode resp \<noteq> 201 \<Longrightarrow> Body resp = Inr body \<Longrightarrow>
           errorFlagged (fst (addIssueDependency client owner repo n bo br bn))"
  by (cases rule: addIssueDependency_cases [OF refl refl json_Marshal_DependencyRequest_def,
        of client owner repo n bo br bn];
      auto simp: errorFlagged_simps)+

lemma removeIssueDependency_flagged:
  fixes client :: "'req Client"
  shows "DoCall req \<in> set (snd (removeIssueDependency client owner repo n bo br bn)) \<Longrightarrow>
         Do_map client req None = DoError resp' err \<Longrightarrow>
           errorFlagged (fst (removeIssueDependency client owner repo n bo br bn))"
    and "DoCall req \<in> set (snd (removeIssueDependency client owner repo n bo br bn)) \<Longrightarrow>
         Do_map client req None = DoOK resp result \<Longrightarrow>
         StatusCode resp \<noteq> 200 \<Longrightarrow> StatusCode resp \<noteq> 204 \<Longrightarrow> Body resp = Inr body \<Longrightarrow>
           errorFlagged (fst (removeIssueDependency client owner repo n bo br bn))"
  by (cases rule: removeIssueDependency_cases [OF refl refl json_Marshal_DependencyRequest_def,
        of client owner repo n bo br bn];
      auto simp: errorFlagged_simps)+

lemma listIssueDependencies_hardFailure:
  fixes client :: "'req Client"
  assumes "hardFailure (fst (listIssueDependencies client owner repo n k p))"
  shows "(\<exists>method url body e. NewRequest client method url body = Inl e \<and>
            listIssueDependencies client owner repo n k p =
              ((None, Some (''failed to create request: '' @ e)), [NewRequestCall method url body])) \<or>
         (\<exists>rq rs deps e. DoCall rq \<in> set (snd (listIssueDependencies client owner repo n k p)) \<and>
            Do_deps client rq \<lparr>Dependencies = None\<rparr> = DoOK rs deps \<and>
            StatusCode rs \<noteq> 200 \<and> Body rs = Inl e \<and>
            fst (listIssueDependencies client owner repo n k p) =
              (None, Some (''failed to read response body: '' @ e)))"
  using assms
  by (cases rule: listIssueDependencies_cases [OF refl refl, of client owner repo n k p])
     (auto simp: hardFailure_def)

lemma addIssueDependency_hardFailure:
  fixes client :: "'req Client"
  assumes "hardFailure (fst (addIssueDependency client owner repo n bo br bn))"
  shows "(\<exists>method url body e. NewRequest client method url body = Inl e \<and>
            addIssueDependency client owner repo n bo br bn =
              ((None, Some (''failed to create request: '' @ e)), [NewRequestCall method url body])) \<or>
         (\<exists>rq rs result e. DoCall rq \<in> set (snd (addIssueDependency client owner repo n bo br bn)) \<and>
            Do_map client rq None = DoOK rs result \<and>
            StatusCode rs \<noteq> 200 \<and> StatusCode rs \<noteq> 201 \<and> Body rs = Inl e \<and>
            fst (addIssueDependency client owner repo n bo br bn) =
              (None, Some (''failed to read response body: '' @ e)))"
  using assms
  by (cases rule: addIssueDependency_cases [OF refl refl json_Marshal_DependencyRequest_def,
        of client owner repo n bo br bn])
     (auto simp: hardFailure_def)

lemma removeIssueDependency_hardFailure:
  fixes client :: "'req Client"
  assumes "hardFailure (fst (removeIssueDependency client owner repo n bo br bn))"
  shows "(\<exists>method url body e. NewRequest client method url body = Inl e \<and>
            removeIssueDependency client owner repo n bo br bn =
              ((None, Some (''failed to create request: '' @ e)), [NewRequestCall method url body])) \<or>
         (\<exists>rq rs result e. DoCall rq \<in> set (snd (removeIssueDependency client owner repo n bo br bn)) \<and>
            Do_map client rq None = DoOK rs result \<and>
            StatusCode rs \<noteq> 200 \<and> StatusCode rs \<noteq> 204 \<and> Body rs = Inl e \<and>
            fst (removeIssueDependency client owner repo n bo br bn) =
              (None, Some (''failed to read response body: '' @ e)))"
  using assms
  by (cases rule: removeIssueDependency_cases [OF refl refl json_Marshal_DependencyRequest_def,
        of client owner repo n bo br bn])
     (auto simp: hardFailure_def)

subsection \<open>What a 200 answer to a listing is turned into\<close>

lemmas decode_defs = json_Unmarshal_IssueDependenciesResponse_def decodeResponseMember_def
  decodeDependencies_def decodeIssueDependency_def decodeIssueDependencyMember_def
  decodeString_def decodeInt_def strconv_ParseInt_def toUpper_def Let_def

lemma listTestBody_decoded:
  "json_Unmarshal_IssueDependenciesResponse listTestBody \<lparr>Dependencies = None\<rparr> =
     Some \<lparr>Dependencies = Some [\<lparr>Number = 10, Title = ''Blocking Issue'', State = ''open'',
                                   HTMLURL = ''https://github.com/owner/repo/issues/10''\<rparr>]\<rparr>"
  by (simp add: listTestBody_def decode_defs)



lemma listIssueDependencies_accepted:
  assumes "DoCall req \<in> set (snd (listIssueDependencies client owner repo n k p))"
    and "Do_deps client req \<lparr>Dependencies = None\<rparr> = DoOK resp deps"
    and "StatusCode resp = 200"
  shows "fst (listIssueDependencies client owner repo n k p) =
           (case json_Marshal_Dependencies (Dependencies deps) of
              Inl e \<Rightarrow> (None, Some (''failed to marshal response: '' @ e))
            | Inr r \<Rightarrow> (Some \<lparr>Text = r, IsError = False\<rparr>, None))"
  using assms
  by (cases rule: listIssueDependencies_cases [OF refl refl, of client owner repo n k p])
     (auto simp: NewToolResultText_def)

section \<open>Properties of the tools\<close>

subsection \<open>Accepted status codes are success\<close>

text \<open>
  C1, as stated, fails: "for every operation and every HTTP response obtained without a
  transport error, the response is treated as success exactly when its status code is in
  the operation's accepted set". The functions test the status code only after
  \<^verbatim>\<open>if err != nil\<close> on what \<^verbatim>\<open>client.Do\<close> returned, and \<^verbatim>\<open>Do\<close> returns an error beside
  the response when the body does not decode into the value it was given. Here the
  exchange succeeds with status 200, which is accepted, and a body in which
  \<^verbatim>\<open>dependencies\<close> is a string: \<^verbatim>\<open>list_blocked_by\<close> returns an error-flagged result.
\<close>

theorem undecodable_200_is_no_success_counterexample:
  "200 \<in> accepted list_blocked_by \<and>
   RoundTrip
     (serving \<lparr>Status = 200, Raw = ''{\"dependencies\":\"none\"}'',
               Content = Document (JObject [(''dependencies'', JString ''none'')])\<rparr>)
     \<lparr>Method = ''GET'', URL = ''repos/owner/repo/issues/42/dependencies/blocked_by'', Payload = None\<rparr> =
     Inr \<lparr>Status = 200, Raw = ''{\"dependencies\":\"none\"}'',
          Content = Document (JObject [(''dependencies'', JString ''none'')])\<rparr> \<and>
   errorFlagged (fst (ListBlockedBy
     (Inr (github_Client
        (serving \<lparr>Status = 200, Raw = ''{\"dependencies\":\"none\"}'',
                  Content = Document (JObject [(''dependencies'', JString ''none'')])\<rparr>)))
     listTestArgs)) \<and>
   \<not> succeeded (fst (ListBlockedBy
     (Inr (github_Client
        (serving \<lparr>Status = 200, Raw = ''{\"dependencies\":\"none\"}'',
                  Content = Document (JObject [(''dependencies'', JString ''none'')])\<rparr>)))
     listTestArgs))"
  by (simp add: accepted_def serving_def github_Client_def github_NewRequest_def github_Do_def
      CheckResponse_def decode_defs listTestArgs_def errorFlagged_def succeeded_def eval_defs)

text \<open>
  C1, amended. Each of the three functions, once \<^verbatim>\<open>client.NewRequest\<close> has returned
  the request, calls \<^verbatim>\<open>client.Do\<close> with it; when \<^verbatim>\<open>Do\<close> returns a response with a nil
  error, the outcome is a success (a result that is not flagged, and a nil error)
  exactly when the status code is in the accepted set: 200 for a listing, 200 and 201
  for an addition, 200 and 204 for a removal; when \<^verbatim>\<open>Do\<close> returns an error, with or
  without a response and whatever its status code, the outcome is an error-flagged
  result. The four handlers, on arguments that validate, are these functions. With the
  client of go-github, a 200 or a 201 answer to an addition whose body decodes is a
  success, and a 204 answer with no body to a removal is returned by \<^verbatim>\<open>Do\<close> with a nil
  error, nothing decoded, and is a success whose text is \<^verbatim>\<open>null\<close>.
\<close>

theorem nil_error_status_decides_success:
  fixes client :: "'req Client"
  shows
    "(NewRequest client ''GET''
        (''repos/'' @ owner @ ''/'' @ repo @ ''/issues/'' @ fmt_d issueNumber @
         ''/dependencies/'' @ dependencyType @
         (if Page pagination > 0 \<or> PerPage pagination > 0
          then ''?page='' @ fmt_d (Page pagination) @ ''&per_page='' @ fmt_d (PerPage pagination)
          else [])) None = Inr req \<longrightarrow>
        DoCall req \<in> set (snd (listIssueDependencies client owner repo issueNumber dependencyType
          pagination)) \<and>
        (Do_deps client req \<lparr>Dependencies = None\<rparr> = DoOK resp deps \<longrightarrow>
           (succeeded (fst (listIssueDependencies client owner repo issueNumber dependencyType pagination))
              \<longleftrightarrow> StatusCode resp \<in> {200})) \<and>
        (Do_deps client req \<lparr>Dependencies = None\<rparr> = DoError resp' err \<longrightarrow>
           errorFlagged (fst (listIssueDependencies client owner repo issueNumber dependencyType
             pagination)))) \<and>
     (NewRequest client ''POST''
        (''repos/'' @ owner @ ''/'' @ repo @ ''/issues/'' @ fmt_d issueNumber @
         ''/dependencies/blocked_by'')
        (Some (bytes_NewReader (''{\"owner\":'' @ encodeString blockedByOwner @
               '',\"repo\":'' @ encodeString blockedByRepo @
               '',\"issue_number\":'' @ fmt_d blockedByIssueNumber @ ''}''))) = Inr req \<longrightarrow>
        DoCall req \<in> set (snd (addIssueDependency client owner repo issueNumber
          blockedByOwner blockedByRepo blockedByIssueNumber)) \<and>
        (Do_map client req None = DoOK resp result \<longrightarrow>
           (succeeded (fst (addIssueDependency client owner repo issueNumber
              blockedByOwner blockedByRepo blockedByIssueNumber))
              \<longleftrightarrow> StatusCode resp \<in> {200, 201})) \<and>
        (Do_map client req None = DoError resp' err \<longrightarrow>
           errorFlagged (fst (addIssueDependency client owner repo issueNumber
             blockedByOwner blockedByRepo blockedByIssueNumber)))) \<and>
     (NewRequest client ''DELETE''
        (''repos/'' @ owner @ ''/'' @ repo @ ''/issues/'' @ fmt_d issueNumber @
         ''/dependencies/blocked_by'')
        (Some (bytes_NewReader (''{\"owner\":'' @ encodeString blockedByOwner @
               '',\"repo\":'' @ encodeString blockedByRepo @
               '',\"issue_number\":'' @ fmt_d blockedByIssueNumber @ ''}''))) = Inr req \<longrightarrow>
        DoCall req \<in> set (snd (removeIssueDependency client owner repo issueNumber
          blockedByOwner blockedByRepo blockedByIssueNumber)) \<and>
        (Do_map client req None = DoOK resp result \<longrightarrow>
           (succeeded (fst (removeIssueDependency client owner repo issueNumber
              blockedByOwner blockedByRepo blockedByIssueNumber))
              \<longleftrightarrow> StatusCode resp \<in> {200, 204})) \<and>
        (Do_map client req None = DoError resp' err \<longrightarrow>
           errorFlagged (fst (removeIssueDependency client owner repo issueNumber
             blockedByOwner blockedByRepo blockedByIssueNumber)))) \<and>
     (RequiredParam_string args ''owner'' = Inr owner \<and>
      RequiredParam_string args ''repo'' = Inr repo \<and>
      RequiredInt args ''issue_number'' = Inr issueNumber \<and>
      OptionalPaginationParams args = Inr pagination \<longrightarrow>
        ListBlockedBy (Inr client) args =
          listIssueDependencies client owner repo issueNumber ''blocked_by'' pagination \<and>
        ListBlocking (Inr client) args =
          listIssueDependencies client owner repo issueNumber ''blocking'' pagination) \<and>
     (RequiredParam_string args ''owner'' = Inr owner \<and>
      RequiredParam_string args ''repo'' = Inr repo \<and>
      RequiredInt args ''issue_number'' = Inr issueNumber \<and>
      RequiredInt args ''blocked_by_issue_number'' = Inr blockedByIssueNumber \<and>
      OptionalParam_string args ''blocked_by_owner'' = Inr givenOwner \<and>
      OptionalParam_string args ''blocked_by_repo'' = Inr givenRepo \<longrightarrow>
        AddBlockedBy (Inr client) args =
          addIssueDependency client owner repo issueNumber
            (if givenOwner = [] then owner else givenOwner)
            (if givenRepo = [] then repo else givenRepo) blockedByIssueNumber \<and>
        RemoveBlockedBy (Inr client) args =
          removeIssueDependency client owner repo issueNumber
            (if givenOwner = [] then owner else givenOwner)
            (if givenRepo = [] then repo else givenRepo) blockedByIssueNumber) \<and>
     (url_Parse pf (''repos/'' @ owner @ ''/'' @ repo @ ''/issues/'' @ fmt_d issueNumber @
                   ''/dependencies/blocked_by'') = None \<and>
      RoundTrip pf
        \<lparr>Method = ''POST'',
         URL = ''repos/'' @ owner @ ''/'' @ repo @ ''/issues/'' @ fmt_d issueNumber @
               ''/dependencies/blocked_by'',
         Payload = Some (''{}'' @ [CHR 0x0A])\<rparr> = Inr a \<and>
      (Status a = 200 \<or> Status a = 201) \<and> Content a = Document j \<and>
      Unmarshal_map pf j = Some m \<longrightarrow>
        succeeded (fst (addIssueDependency (github_Client pf) owner repo issueNumber
          blockedByOwner blockedByRepo blockedByIssueNumber))) \<and>
     (url_Parse pf (''repos/'' @ owner @ ''/'' @ repo @ ''/issues/'' @ fmt_d issueNumber @
                   ''/dependencies/blocked_by'') = None \<and>
      RoundTrip pf
        \<lparr>Method = ''DELETE'',
         URL = ''repos/'' @ owner @ ''/'' @ repo @ ''/issues/'' @ fmt_d issueNumber @
               ''/dependencies/blocked_by'',
         Payload = Some (''{}'' @ [CHR 0x0A])\<rparr> = Inr a \<and>
      Status a = 204 \<and> Content a = NoContent \<longrightarrow>
        fst (removeIssueDependency (github_Client pf) owner repo issueNumber
          blockedByOwner blockedByRepo blockedByIssueNumber) =
          (Some \<lparr>Text = ''null'', IsError = False\<rparr>, None))"
    (is "(?NL \<longrightarrow> ?CL) \<and> (?NA \<longrightarrow> ?CA) \<and> (?NR \<longrightarrow> ?CR) \<and> (?VL \<longrightarrow> ?HL) \<and>
         (?VM \<longrightarrow> ?HM) \<and> (?GAH \<longrightarrow> ?GA) \<and> (?GRH \<longrightarrow> ?GR)")
proof (intro conjI)
  show "?NL \<longrightarrow> ?CL"
  proof
    assume n: ?NL
    from listIssueDependencies_built(1) [OF n] listIssueDependencies_built(2) [OF n, of resp deps]
      listIssueDependencies_built(3) [OF n, of resp' err]
    show ?CL by simp
  qed
  show "?NA \<longrightarrow> ?CA"
  proof
    assume n: ?NA
    from addIssueDependency_built(1) [OF n] addIssueDependency_built(2) [OF n, of resp result]
      addIssueDependency_built(3) [OF n, of resp' err]
    show ?CA by simp
  qed
  show "?NR \<longrightarrow> ?CR"
  proof
    assume n: ?NR
    from removeIssueDependency_built(1) [OF n] removeIssueDependency_built(2) [OF n, of resp result]
      removeIssueDependency_built(3) [OF n, of resp' err]
    show ?CR by simp
  qed
  show "?VL \<longrightarrow> ?HL"
    by (simp add: ListBlockedBy_def ListBlocking_def)
  show "?VM \<longrightarrow> ?HM"
    by (simp add: AddBlockedBy_def RemoveBlockedBy_def)
  show "?GAH \<longrightarrow> ?GA"
  proof
    assume h: ?GAH
    then have u: "url_Parse pf (''repos/'' @ owner @ ''/'' @ repo @ ''/issues/'' @ fmt_d issueNumber @
                   ''/dependencies/blocked_by'') = None"
      and s: "Status a = 200 \<or> Status a = 201"
      and c: "Content a = Document j" "Unmarshal_map pf j = Some m"
      by simp_all
    note n = github_NewRequest_Inr [OF u, of "''POST''"
        "Some (bytes_NewReader (''{\"owner\":'' @ encodeString blockedByOwner @
               '',\"repo\":'' @ encodeString blockedByRepo @
               '',\"issue_number\":'' @ fmt_d blockedByIssueNumber @ ''}''))",
        simplified json_Encode_Reader_def option.map]
    from h have r: "RoundTrip pf
        \<lparr>Method = ''POST'',
         URL = ''repos/'' @ owner @ ''/'' @ repo @ ''/issues/'' @ fmt_d issueNumber @
               ''/dependencies/blocked_by'',
         Payload = Some (''{}'' @ [CHR 0x0A])\<rparr> = Inr a"
      by simp
    note d = github_Do_map_decoded [OF r s c, of None]
    from addIssueDependency_built(2) [OF n d] s show ?GA
      by simp
  qed
  show "?GRH \<longrightarrow> ?GR"
  proof
    assume h: ?GRH
    then have u: "url_Parse pf (''repos/'' @ owner @ ''/'' @ repo @ ''/issues/'' @ fmt_d issueNumber @
                   ''/dependencies/blocked_by'') = None"
      and s: "Status a = 204" and c: "Content a = NoContent"
      by simp_all
    note n = github_NewRequest_Inr [OF u, of "''DELETE''"
        "Some (bytes_NewReader (''{\"owner\":'' @ encodeString blockedByOwner @
               '',\"repo\":'' @ encodeString blockedByRepo @
               '',\"issue_number\":'' @ fmt_d blockedByIssueNumber @ ''}''))",
        simplified json_Encode_Reader_def option.map]
    from h have r: "RoundTrip pf
        \<lparr>Method = ''DELETE'',
         URL = ''repos/'' @ owner @ ''/'' @ repo @ ''/issues/'' @ fmt_d issueNumber @
               ''/dependencies/blocked_by'',
         Payload = Some (''{}'' @ [CHR 0x0A])\<rparr> = Inr a"
      by simp
    note d = github_Do_map_no_content [OF r s c, of None]
    from removeIssueDependency_accepted [OF n d] show ?GR
      by (simp add: json_Marshal_map_def)
  qed
qed

text \<open>With the client of go-github on the arguments of the source's tests: a 201 answer
  to an addition and a 204 answer without a body to a removal succeed; a 204 answer to a
  listing does not; a 404 answer to a listing is an error-flagged result.\<close>

theorem nil_error_status_decides_success_witness:
  "succeeded (fst (AddBlockedBy
      (Inr (github_Client
         (serving \<lparr>Status = 201, Raw = ''{\"id\":1}'', Content = Document (JObject [(''id'', JNumber ''1'')])\<rparr>)))
      testArgs)) \<and>
   fst (RemoveBlockedBy
      (Inr (github_Client (serving \<lparr>Status = 204, Raw = [], Content = NoContent\<rparr>))) testArgs) =
     (Some \<lparr>Text = ''null'', IsError = False\<rparr>, None) \<and>
   \<not> succeeded (fst (ListBlockedBy
      (Inr (github_Client (serving \<lparr>Status = 204, Raw = [], Content = NoContent\<rparr>))) listTestArgs)) \<and>
   errorFlagged (fst (ListBlocking
      (Inr (github_Client
         (serving \<lparr>Status = 404, Raw = ''{\"message\":\"Not Found\"}'',
                   Content = Document (JObject [(''message'', JString ''Not Found'')])\<rparr>)))
      listTestArgs))"
proof -
  let ?a201 = "\<lparr>Status = 201, Raw = ''{\"id\":1}'', Content = Document (JObject [(''id'', JNumber ''1'')])\<rparr>"
  let ?a204 = "\<lparr>Status = 204, Raw = [], Content = NoContent\<rparr>"
  let ?a404 = "\<lparr>Status = 404, Raw = ''{\"message\":\"Not Found\"}'',
                   Content = Document (JObject [(''message'', JString ''Not Found'')])\<rparr>"
  let ?path = "''repos/owner/repo/issues/42/dependencies/blocked_by''"
  let ?pathing = "''repos/owner/repo/issues/42/dependencies/blocking''"
  let ?get = "\<lparr>Method = ''GET'', URL = ?path, Payload = None\<rparr>"
  let ?geting = "\<lparr>Method = ''GET'', URL = ?pathing, Payload = None\<rparr>"
  have v: "RequiredParam_string testArgs ''owner'' = Inr ''owner'' \<and>
      RequiredParam_string testArgs ''repo'' = Inr ''repo'' \<and>
      RequiredInt testArgs ''issue_number'' = Inr 42 \<and>
      RequiredInt testArgs ''blocked_by_issue_number'' = Inr 10 \<and>
      OptionalParam_string testArgs ''blocked_by_owner'' = Inr [] \<and>
      OptionalParam_string testArgs ''blocked_by_repo'' = Inr []"
    by (simp add: eval_defs)
  have l: "RequiredParam_string listTestArgs ''owner'' = Inr ''owner'' \<and>
      RequiredParam_string listTestArgs ''repo'' = Inr ''repo'' \<and>
      RequiredInt listTestArgs ''issue_number'' = Inr 42 \<and>
      OptionalPaginationParams listTestArgs = Inr \<lparr>Page = 0, PerPage = 0\<rparr>"
    by (simp add: listTestArgs_def eval_defs)
  have a: "url_Parse (serving ?a201) ?path = None \<and>
      RoundTrip (serving ?a201) \<lparr>Method = ''POST'', URL = ?path, Payload = Some (''{}'' @ [CHR 0x0A])\<rparr> =
        Inr ?a201 \<and>
      (Status ?a201 = 200 \<or> Status ?a201 = 201) \<and>
      Content ?a201 = Document (JObject [(''id'', JNumber ''1'')]) \<and>
      Unmarshal_map (serving ?a201) (JObject [(''id'', JNumber ''1'')]) = Some (Some [(''id'', JNumber ''1'')])"
    by (simp add: serving_def membersOf_def)
  have r: "url_Parse (serving ?a204) ?path = None \<and>
      RoundTrip (serving ?a204) \<lparr>Method = ''DELETE'', URL = ?path, Payload = Some (''{}'' @ [CHR 0x0A])\<rparr> =
        Inr ?a204 \<and>
      Status ?a204 = 204 \<and> Content ?a204 = NoContent"
    by (simp add: serving_def)
  have g: "NewRequest (github_Client (serving ?a204)) ''GET'' ?path None = Inr ?get \<and>
      Do_deps (github_Client (serving ?a204)) ?get \<lparr>Dependencies = None\<rparr> =
        DoOK \<lparr>StatusCode = 204, Body = Inl ''http: read on closed response body''\<rparr> \<lparr>Dependencies = None\<rparr>"
    by (simp add: serving_def github_Client_def github_NewRequest_def github_Do_def CheckResponse_def)
  have n: "NewRequest (github_Client (serving ?a404)) ''GET'' ?pathing None = Inr ?geting \<and>
      Do_deps (github_Client (serving ?a404)) ?geting \<lparr>Dependencies = None\<rparr> =
        DoError (Some \<lparr>StatusCode = 404, Body = Inr ''{\"message\":\"Not Found\"}''\<rparr>)
          ''unexpected status code: 404''"
    by (simp add: serving_def github_Client_def github_NewRequest_def github_Do_def CheckResponse_def
        fmt_d_def digits.simps)
  note t1 = nil_error_status_decides_success [where client = "github_Client (serving ?a201)"
      and args = testArgs and owner = "''owner''" and repo = "''repo''" and issueNumber = 42
      and blockedByIssueNumber = 10 and givenOwner = "[]" and givenRepo = "[]"
      and blockedByOwner = "''owner''" and blockedByRepo = "''repo''"
      and pf = "serving ?a201" and a = ?a201 and j = "JObject [(''id'', JNumber ''1'')]"
      and m = "Some [(''id'', JNumber ''1'')]"]
  note t2 = nil_error_status_decides_success [where client = "github_Client (serving ?a204)"
      and args = testArgs and owner = "''owner''" and repo = "''repo''" and issueNumber = 42
      and blockedByIssueNumber = 10 and givenOwner = "[]" and givenRepo = "[]"
      and blockedByOwner = "''owner''" and blockedByRepo = "''repo''"
      and pf = "serving ?a204" and a = ?a204]
  note t3 = nil_error_status_decides_success [where client = "github_Client (serving ?a204)"
      and args = listTestArgs and owner = "''owner''" and repo = "''repo''" and issueNumber = 42
      and pagination = "\<lparr>Page = 0, PerPage = 0\<rparr>" and dependencyType = "''blocked_by''"
      and req = ?get and resp = "\<lparr>StatusCode = 204, Body = Inl ''http: read on closed response body''\<rparr>"
      and deps = "\<lparr>Dependencies = None\<rparr>"]
  note t4 = nil_error_status_decides_success [where client = "github_Client (serving ?a404)"
      and args = listTestArgs and owner = "''owner''" and repo = "''repo''" and issueNumber = 42
      and pagination = "\<lparr>Page = 0, PerPage = 0\<rparr>" and dependencyType = "''blocking''"
      and req = ?geting and resp' = "Some \<lparr>StatusCode = 404, Body = Inr ''{\"message\":\"Not Found\"}''\<rparr>"
      and err = "''unexpected status code: 404''"]
  from t1 v a have 1: "succeeded (fst (AddBlockedBy (Inr (github_Client (serving ?a201))) testArgs))"
    by (simp add: fmt_d_def digits.simps)
  from t2 v r have 2: "fst (RemoveBlockedBy (Inr (github_Client (serving ?a204))) testArgs) =
     (Some \<lparr>Text = ''null'', IsError = False\<rparr>, None)"
    by (simp add: fmt_d_def digits.simps)
  from t3 l g have 3: "\<not> succeeded (fst (ListBlockedBy (Inr (github_Client (serving ?a204))) listTestArgs))"
    by (simp add: fmt_d_def digits.simps)
  from t4 l n have 4: "errorFlagged (fst (ListBlocking (Inr (github_Client (serving ?a404))) listTestArgs))"
    by (simp add: fmt_d_def digits.simps)
  from 1 2 3 4 show ?thesis
    by blast
qed

subsection \<open>A status code outside the accepted set\<close>




subsection \<open>Defaults of the blocking owner and repo\<close>

text \<open>
  C3 fails on the code, by a slip of the code. In \<^verbatim>\<open>add_blocked_by\<close> and
  \<^verbatim>\<open>remove_blocked_by\<close> the handlers do replace an absent or empty \<^verbatim>\<open>blocked_by_owner\<close>
  (\<^verbatim>\<open>blocked_by_repo\<close>) by the primary owner (repo), after the required parameters
  have validated, and the functions marshal the blocking issue's owner, repo and number
  with these defaults (lemma \<open>blocked_by_defaults_handed_to_NewRequest\<close>). The bytes do
  not reach the API: the functions hand \<^verbatim>\<open>client.NewRequest\<close> the reader
  \<^verbatim>\<open>bytes.NewReader(bodyBytes)\<close>, and \<^verbatim>\<open>NewRequest\<close> of go-github encodes its body
  argument as JSON, which for a \<^verbatim>\<open>*bytes.Reader\<close> is \<^verbatim>\<open>{}\<close>. On the arguments of the
  source's test, and on the same with \<^verbatim>\<open>blocked_by_owner\<close> given, the body of the
  request that \<^verbatim>\<open>client.Do\<close> is called with is \<^verbatim>\<open>{}\<close> and a newline: it carries no
  owner, no repo and no issue number, the default no more than a given value.
\<close>

theorem blocked_by_body_sent:
  "snd (AddBlockedBy
      (Inr (github_Client
         (serving \<lparr>Status = 201, Raw = ''{\"id\":1}'', Content = Document (JObject [(''id'', JNumber ''1'')])\<rparr>)))
      testArgs) =
     [NewRequestCall ''POST'' ''repos/owner/repo/issues/42/dependencies/blocked_by''
        (Some (bytes_NewReader ''{\"owner\":\"owner\",\"repo\":\"repo\",\"issue_number\":10}'')),
      DoCall \<lparr>Method = ''POST'', URL = ''repos/owner/repo/issues/42/dependencies/blocked_by'',
              Payload = Some (''{}'' @ [CHR 0x0A])\<rparr>,
      BodyClose] \<and>
   snd (RemoveBlockedBy
      (Inr (github_Client (serving \<lparr>Status = 204, Raw = [], Content = NoContent\<rparr>)))
      (testArgs(''blocked_by_owner'' \<mapsto> AnyString ''other''))) =
     [NewRequestCall ''DELETE'' ''repos/owner/repo/issues/42/dependencies/blocked_by''
        (Some (bytes_NewReader ''{\"owner\":\"other\",\"repo\":\"repo\",\"issue_number\":10}'')),
      DoCall \<lparr>Method = ''DELETE'', URL = ''repos/owner/repo/issues/42/dependencies/blocked_by'',
              Payload = Some (''{}'' @ [CHR 0x0A])\<rparr>,
      BodyClose]"
  by (simp add: serving_def membersOf_def github_Client_def github_NewRequest_def github_Do_def
      CheckResponse_def json_Encode_Reader_def eval_defs)

subsection \<open>A missing required parameter\<close>

text \<open>
  C4, as stated, fails: "an input map omitting that parameter yields an error-flagged
  validation result whose message contains the exact missing field name". The handlers
  validate \<^verbatim>\<open>owner\<close>, \<^verbatim>\<open>repo\<close>, \<^verbatim>\<open>issue_number\<close> (and \<^verbatim>\<open>blocked_by_issue_number\<close>) in
  that order and return at the first failure. The map below omits \<^verbatim>\<open>repo\<close>, and
  \<^verbatim>\<open>owner\<close> too: the message names \<^verbatim>\<open>owner\<close> and does not contain \<^verbatim>\<open>repo\<close>.
\<close>

theorem missing_parameter_named_counterexample:
  "fst (ListBlockedBy (Inr (refusing ''no network'')) [''issue_number'' \<mapsto> AnyFloat64 42]) =
     (Some \<lparr>Text = ''missing required parameter: owner'', IsError = True\<rparr>, None) \<and>
   [''issue_number'' \<mapsto> AnyFloat64 42] ''repo'' = None \<and>
   \<not> strings_Contains ''missing required parameter: owner'' ''repo''"
  by (simp add: eval_defs)

text \<open>
  C4, amended. For each of the four operations and each of its required parameters
  (\<^verbatim>\<open>owner\<close>, \<^verbatim>\<open>repo\<close>, \<^verbatim>\<open>issue_number\<close>, and \<^verbatim>\<open>blocked_by_issue_number\<close> for the two
  mutations): on arguments that omit the parameter and on which the required parameters
  validated before it pass, the handler returns, without calling the client, an
  error-flagged result with a nil error whose message is
  \<^verbatim>\<open>missing required parameter: \<close> followed by the parameter's name. On any arguments
  that omit a required parameter the handler returns an error-flagged result with a nil
  error and calls nothing: never a hard failure.
\<close>

theorem missing_parameter_named:
  fixes g :: "go_error + 'req Client"
  shows
    "(args ''owner'' = None \<longrightarrow>
        ListBlockedBy g args =
          ((Some \<lparr>Text = ''missing required parameter: owner'', IsError = True\<rparr>, None), []) \<and>
        ListBlocking g args =
          ((Some \<lparr>Text = ''missing required parameter: owner'', IsError = True\<rparr>, None), []) \<and>
        AddBlockedBy g args =
          ((Some \<lparr>Text = ''missing required parameter: owner'', IsError = True\<rparr>, None), []) \<and>
        RemoveBlockedBy g args =
          ((Some \<lparr>Text = ''missing required parameter: owner'', IsError = True\<rparr>, None), [])) \<and>
     (RequiredParam_string args ''owner'' = Inr owner \<and> args ''repo'' = None \<longrightarrow>
        ListBlockedBy g args =
          ((Some \<lparr>Text = ''missing required parameter: repo'', IsError = True\<rparr>, None), []) \<and>
        ListBlocking g args =
          ((Some \<lparr>Text = ''missing required parameter: repo'', IsError = True\<rparr>, None), []) \<and>
        AddBlockedBy g args =
          ((Some \<lparr>Text = ''missing required parameter: repo'', IsError = True\<rparr>, None), []) \<and>
        RemoveBlockedBy g args =
          ((Some \<lparr>Text = ''missing required parameter: repo'', IsError = True\<rparr>, None), [])) \<and>
     (RequiredParam_string args ''owner'' = Inr owner \<and>
      RequiredParam_string args ''repo'' = Inr repo \<and> args ''issue_number'' = None \<longrightarrow>
        ListBlockedBy g args =
          ((Some \<lparr>Text = ''missing required parameter: issue_number'', IsError = True\<rparr>, None), []) \<and>
        ListBlocking g args =
          ((Some \<lparr>Text = ''missing required parameter: issue_number'', IsError = True\<rparr>, None), []) \<and>
        AddBlockedBy g args =
          ((Some \<lparr>Text = ''missing required parameter: issue_number'', IsError = True\<rparr>, None), []) \<and>
        RemoveBlockedBy g args =
          ((Some \<lparr>Text = ''missing required parameter: issue_number'', IsError = True\<rparr>, None), [])) \<and>
     (RequiredParam_string args ''owner'' = Inr owner \<and>
      RequiredParam_string args ''repo'' = Inr repo \<and>
      RequiredInt args ''issue_number'' = Inr issueNumber \<and>
      args ''blocked_by_issue_number'' = None \<longrightarrow>
        AddBlockedBy g args =
          ((Some \<lparr>Text = ''missing required parameter: blocked_by_issue_number'', IsError = True\<rparr>,
            None), []) \<and>
        RemoveBlockedBy g args =
          ((Some \<lparr>Text = ''missing required parameter: blocked_by_issue_number'', IsError = True\<rparr>,
            None), [])) \<and>
     (q \<in> {''owner'', ''repo'', ''issue_number''} \<and> args q = None \<longrightarrow>
        errorFlagged (fst (ListBlockedBy g args)) \<and> snd (ListBlockedBy g args) = [] \<and>
        errorFlagged (fst (ListBlocking g args)) \<and> snd (ListBlocking g args) = []) \<and>
     (q \<in> {''owner'', ''repo'', ''issue_number'', ''blocked_by_issue_number''} \<and> args q = None \<longrightarrow>
        errorFlagged (fst (AddBlockedBy g args)) \<and> snd (AddBlockedBy g args) = [] \<and>
        errorFlagged (fst (RemoveBlockedBy g args)) \<and> snd (RemoveBlockedBy g args) = [])"
proof (intro conjI impI; (elim conjE)?)
  assume m: "args ''owner'' = None"
  note r = Required_missing(1) [of args "''owner''", OF m]
  from list_handlers_invalid(1) [OF r, of g] mutation_handlers_invalid(1) [OF r, of g]
  show "ListBlockedBy g args =
          ((Some \<lparr>Text = ''missing required parameter: owner'', IsError = True\<rparr>, None), [])"
    and "ListBlocking g args =
          ((Some \<lparr>Text = ''missing required parameter: owner'', IsError = True\<rparr>, None), [])"
    and "AddBlockedBy g args =
          ((Some \<lparr>Text = ''missing required parameter: owner'', IsError = True\<rparr>, None), [])"
    and "RemoveBlockedBy g args =
          ((Some \<lparr>Text = ''missing required parameter: owner'', IsError = True\<rparr>, None), [])"
    by (simp_all add: missing_result)
next
  assume o: "RequiredParam_string args ''owner'' = Inr owner" and m: "args ''repo'' = None"
  note r = Required_missing(1) [of args "''repo''", OF m]
  from list_handlers_invalid(2) [OF o r, of g] mutation_handlers_invalid(2) [OF o r, of g]
  show "ListBlockedBy g args =
          ((Some \<lparr>Text = ''missing required parameter: repo'', IsError = True\<rparr>, None), [])"
    and "ListBlocking g args =
          ((Some \<lparr>Text = ''missing required parameter: repo'', IsError = True\<rparr>, None), [])"
    and "AddBlockedBy g args =
          ((Some \<lparr>Text = ''missing required parameter: repo'', IsError = True\<rparr>, None), [])"
    and "RemoveBlockedBy g args =
          ((Some \<lparr>Text = ''missing required parameter: repo'', IsError = True\<rparr>, None), [])"
    by (simp_all add: missing_result)
next
  assume o: "RequiredParam_string args ''owner'' = Inr owner"
    and p: "RequiredParam_string args ''repo'' = Inr repo" and m: "args ''issue_number'' = None"
  note r = Required_missing(2) [of args "''issue_number''", OF m]
  from list_handlers_invalid(3) [OF o p r, of g] mutation_handlers_invalid(3) [OF o p r, of g]
  show "ListBlockedBy g args =
          ((Some \<lparr>Text = ''missing required parameter: issue_number'', IsError = True\<rparr>, None), [])"
    and "ListBlocking g args =
          ((Some \<lparr>Text = ''missing required parameter: issue_number'', IsError = True\<rparr>, None), [])"
    and "AddBlockedBy g args =
          ((Some \<lparr>Text = ''missing required parameter: issue_number'', IsError = True\<rparr>, None), [])"
    and "RemoveBlockedBy g args =
          ((Some \<lparr>Text = ''missing required parameter: issue_number'', IsError = True\<rparr>, None), [])"
    by (simp_all add: missing_result)
next
  assume o: "RequiredParam_string args ''owner'' = Inr owner"
    and p: "RequiredParam_string args ''repo'' = Inr repo"
    and n: "RequiredInt args ''issue_number'' = Inr issueNumber"
    and m: "args ''blocked_by_issue_number'' = None"
  note r = Required_missing(2) [of args "''blocked_by_issue_number''", OF m]
  from mutation_handlers_invalid(4) [OF o p n r, of g]
  show "AddBlockedBy g args =
          ((Some \<lparr>Text = ''missing required parameter: blocked_by_issue_number'', IsError = True\<rparr>,
            None), [])"
    and "RemoveBlockedBy g args =
          ((Some \<lparr>Text = ''missing required parameter: blocked_by_issue_number'', IsError = True\<rparr>,
            None), [])"
    by (simp_all add: missing_result)
next
  assume "q \<in> {''owner'', ''repo'', ''issue_number''}" "args q = None"
  from list_handlers_missing_flagged [of q args g, OF this]
  show "errorFlagged (fst (ListBlockedBy g args))" "snd (ListBlockedBy g args) = []"
    "errorFlagged (fst (ListBlocking g args))" "snd (ListBlocking g args) = []"
    by simp_all
next
  assume "q \<in> {''owner'', ''repo'', ''issue_number'', ''blocked_by_issue_number''}" "args q = None"
  from mutation_handlers_missing_flagged [of q args g, OF this]
  show "errorFlagged (fst (AddBlockedBy g args))" "snd (AddBlockedBy g args) = []"
    "errorFlagged (fst (RemoveBlockedBy g args))" "snd (RemoveBlockedBy g args) = []"
    by simp_all
qed

text \<open>The test's arguments without \<^verbatim>\<open>repo\<close>, without \<^verbatim>\<open>blocked_by_issue_number\<close>, and
  no arguments at all.\<close>

theorem missing_parameter_named_witness:
  "ListBlockedBy (Inr (refusing ''no network'')) (testArgs(''repo'' := None)) =
     ((Some \<lparr>Text = ''missing required parameter: repo'', IsError = True\<rparr>, None), []) \<and>
   strings_Contains ''missing required parameter: repo'' ''repo'' \<and>
   AddBlockedBy (Inr (refusing ''no network'')) (testArgs(''blocked_by_issue_number'' := None)) =
     ((Some \<lparr>Text = ''missing required parameter: blocked_by_issue_number'', IsError = True\<rparr>,
       None), []) \<and>
   errorFlagged (fst (RemoveBlockedBy (Inr (refusing ''no network'')) Map.empty))"
proof -
  have 1: "RequiredParam_string (testArgs(''repo'' := None)) ''owner'' = Inr ''owner'' \<and>
           (testArgs(''repo'' := None)) ''repo'' = None"
    by (simp add: eval_defs)
  have 2: "RequiredParam_string (testArgs(''blocked_by_issue_number'' := None)) ''owner'' = Inr ''owner'' \<and>
      RequiredParam_string (testArgs(''blocked_by_issue_number'' := None)) ''repo'' = Inr ''repo'' \<and>
      RequiredInt (testArgs(''blocked_by_issue_number'' := None)) ''issue_number'' = Inr 42 \<and>
      (testArgs(''blocked_by_issue_number'' := None)) ''blocked_by_issue_number'' = None"
    by (simp add: eval_defs)
  have 3: "''owner'' \<in> {''owner'', ''repo'', ''issue_number'', ''blocked_by_issue_number''} \<and>
      (Map.empty :: string \<rightharpoonup> any) ''owner'' = None"
    by simp
  have 4: "strings_Contains ''missing required parameter: repo'' ''repo''"
    by simp
  note t1 = missing_parameter_named [of "testArgs(''repo'' := None)" "Inr (refusing ''no network'')"
        "''owner''" "''repo''" 42 "''owner''"]
  note t2 = missing_parameter_named [of "testArgs(''blocked_by_issue_number'' := None)"
        "Inr (refusing ''no network'')" "''owner''" "''repo''" 42 "''owner''"]
  note t3 = missing_parameter_named [of Map.empty "Inr (refusing ''no network'')"
        "''owner''" "''repo''" 42 "''owner''"]
  from t1 1 have a: "ListBlockedBy (Inr (refusing ''no network'')) (testArgs(''repo'' := None)) =
     ((Some \<lparr>Text = ''missing required parameter: repo'', IsError = True\<rparr>, None), [])"
    by blast
  from t2 2 have b: "AddBlockedBy (Inr (refusing ''no network''))
      (testArgs(''blocked_by_issue_number'' := None)) =
     ((Some \<lparr>Text = ''missing required parameter: blocked_by_issue_number'', IsError = True\<rparr>,
       None), [])"
    by blast
  from t3 3 have c: "errorFlagged (fst (RemoveBlockedBy (Inr (refusing ''no network'')) Map.empty))"
    by blast
  from a b c 4 show ?thesis
    by blast
qed

subsection \<open>The query string of a list request\<close>

text \<open>
  C5. \<^verbatim>\<open>listIssueDependencies\<close> requests, with \<^verbatim>\<open>GET\<close> and no body, the path
  \<^verbatim>\<open>repos/{owner}/{repo}/issues/{issueNumber}/dependencies/{kind}\<close>; the query string
  \<^verbatim>\<open>?page={page}&per_page={perPage}\<close> is appended to it if and only if \<^verbatim>\<open>page > 0\<close> or
  \<^verbatim>\<open>perPage > 0\<close>, and otherwise (both zero, for counts that are not negative) the
  URL is exactly that path. The two list handlers call it with the kinds
  \<^verbatim>\<open>blocked_by\<close> and \<^verbatim>\<open>blocking\<close> and the pagination their arguments validate to.
\<close>

theorem pagination_query_iff:
  fixes client :: "'req Client"
  shows
    "(\<exists>url. NewRequest_arguments (snd (listIssueDependencies client owner repo issueNumber dependencyType
                pagination)) = Some (''GET'', url, None) \<and>
        (url = ''repos/'' @ owner @ ''/'' @ repo @ ''/issues/'' @ fmt_d issueNumber @
               ''/dependencies/'' @ dependencyType @
               ''?page='' @ fmt_d (Page pagination) @ ''&per_page='' @ fmt_d (PerPage pagination)
           \<longleftrightarrow> Page pagination > 0 \<or> PerPage pagination > 0) \<and>
        (url = ''repos/'' @ owner @ ''/'' @ repo @ ''/issues/'' @ fmt_d issueNumber @
               ''/dependencies/'' @ dependencyType
           \<longleftrightarrow> \<not> (Page pagination > 0 \<or> PerPage pagination > 0))) \<and>
     (RequiredParam_string args ''owner'' = Inr owner \<and>
      RequiredParam_string args ''repo'' = Inr repo \<and>
      RequiredInt args ''issue_number'' = Inr issueNumber \<and>
      OptionalPaginationParams args = Inr pagination \<longrightarrow>
        NewRequest_arguments (snd (ListBlockedBy (Inr client) args)) =
          Some (''GET'',
                ''repos/'' @ owner @ ''/'' @ repo @ ''/issues/'' @ fmt_d issueNumber @
                ''/dependencies/blocked_by'' @
                (if Page pagination > 0 \<or> PerPage pagination > 0
                 then ''?page='' @ fmt_d (Page pagination) @ ''&per_page='' @ fmt_d (PerPage pagination)
                 else []),
                None) \<and>
        NewRequest_arguments (snd (ListBlocking (Inr client) args)) =
          Some (''GET'',
                ''repos/'' @ owner @ ''/'' @ repo @ ''/issues/'' @ fmt_d issueNumber @
                ''/dependencies/blocking'' @
                (if Page pagination > 0 \<or> PerPage pagination > 0
                 then ''?page='' @ fmt_d (Page pagination) @ ''&per_page='' @ fmt_d (PerPage pagination)
                 else []),
                None))"
proof (intro conjI impI)
  show "\<exists>url. NewRequest_arguments (snd (listIssueDependencies client owner repo issueNumber dependencyType
                pagination)) = Some (''GET'', url, None) \<and>
        (url = ''repos/'' @ owner @ ''/'' @ repo @ ''/issues/'' @ fmt_d issueNumber @
               ''/dependencies/'' @ dependencyType @
               ''?page='' @ fmt_d (Page pagination) @ ''&per_page='' @ fmt_d (PerPage pagination)
           \<longleftrightarrow> Page pagination > 0 \<or> PerPage pagination > 0) \<and>
        (url = ''repos/'' @ owner @ ''/'' @ repo @ ''/issues/'' @ fmt_d issueNumber @
               ''/dependencies/'' @ dependencyType
           \<longleftrightarrow> \<not> (Page pagination > 0 \<or> PerPage pagination > 0))"
    by (simp add: listIssueDependencies_NewRequest_arguments)
next
  assume a: "RequiredParam_string args ''owner'' = Inr owner \<and>
      RequiredParam_string args ''repo'' = Inr repo \<and>
      RequiredInt args ''issue_number'' = Inr issueNumber \<and>
      OptionalPaginationParams args = Inr pagination"
  then show "NewRequest_arguments (snd (ListBlockedBy (Inr client) args)) =
          Some (''GET'',
                ''repos/'' @ owner @ ''/'' @ repo @ ''/issues/'' @ fmt_d issueNumber @
                ''/dependencies/blocked_by'' @
                (if Page pagination > 0 \<or> PerPage pagination > 0
                 then ''?page='' @ fmt_d (Page pagination) @ ''&per_page='' @ fmt_d (PerPage pagination)
                 else []),
                None)"
    by (simp add: ListBlockedBy_def listIssueDependencies_NewRequest_arguments)
  from a show "NewRequest_arguments (snd (ListBlocking (Inr client) args)) =
          Some (''GET'',
                ''repos/'' @ owner @ ''/'' @ repo @ ''/issues/'' @ fmt_d issueNumber @
                ''/dependencies/blocking'' @
                (if Page pagination > 0 \<or> PerPage pagination > 0
                 then ''?page='' @ fmt_d (Page pagination) @ ''&per_page='' @ fmt_d (PerPage pagination)
                 else []),
                None)"
    by (simp add: ListBlocking_def listIssueDependencies_NewRequest_arguments)
qed

text \<open>Page 2 on \<^verbatim>\<open>list_blocked_by\<close>, no pagination on \<^verbatim>\<open>list_blocking\<close>.\<close>

theorem pagination_query_iff_witness:
  "NewRequest_arguments (snd (ListBlockedBy (Inr (refusing ''no network''))
      (testArgs(''page'' \<mapsto> AnyFloat64 2)))) =
     Some (''GET'', ''repos/owner/repo/issues/42/dependencies/blocked_by?page=2&per_page=0'', None) \<and>
   NewRequest_arguments (snd (ListBlocking (Inr (refusing ''no network'')) testArgs)) =
     Some (''GET'', ''repos/owner/repo/issues/42/dependencies/blocking'', None)"
proof -
  have 1: "RequiredParam_string (testArgs(''page'' \<mapsto> AnyFloat64 2)) ''owner'' = Inr ''owner'' \<and>
      RequiredParam_string (testArgs(''page'' \<mapsto> AnyFloat64 2)) ''repo'' = Inr ''repo'' \<and>
      RequiredInt (testArgs(''page'' \<mapsto> AnyFloat64 2)) ''issue_number'' = Inr 42 \<and>
      OptionalPaginationParams (testArgs(''page'' \<mapsto> AnyFloat64 2)) = Inr \<lparr>Page = 2, PerPage = 0\<rparr>"
    by (simp add: eval_defs)
  have 2: "RequiredParam_string testArgs ''owner'' = Inr ''owner'' \<and>
      RequiredParam_string testArgs ''repo'' = Inr ''repo'' \<and>
      RequiredInt testArgs ''issue_number'' = Inr 42 \<and>
      OptionalPaginationParams testArgs = Inr \<lparr>Page = 0, PerPage = 0\<rparr>"
    by (simp add: eval_defs)
  from 1 2 show ?thesis
    using pagination_query_iff [of "refusing ''no network''" "''owner''" "''repo''" 42 "''blocked_by''"
        "\<lparr>Page = 2, PerPage = 0\<rparr>" "testArgs(''page'' \<mapsto> AnyFloat64 2)"]
      pagination_query_iff [of "refusing ''no network''" "''owner''" "''repo''" 42 "''blocking''"
        "\<lparr>Page = 0, PerPage = 0\<rparr>" testArgs]
    by (simp add: fmt_d_def digits.simps)
qed

subsection \<open>The answer of the list test\<close>

text \<open>
  C6. \<^verbatim>\<open>list_blocked_by\<close> on the test's arguments (owner \<^verbatim>\<open>owner\<close>, repo \<^verbatim>\<open>repo\<close>, issue
  42) requests \<^verbatim>\<open>GET repos/owner/repo/issues/42/dependencies/blocked_by\<close>. When
  \<^verbatim>\<open>client.Do\<close> answers with status 200, having decoded the test's body
  \<^verbatim>\<open>{"dependencies":[{"number":10,"title":"Blocking Issue","state":"open","html_url":...}]}\<close>,
  the handler returns a success result and a nil error, and the result's text is the
  JSON array of exactly one element, the object with number 10, title
  \<^verbatim>\<open>Blocking Issue\<close>, state \<^verbatim>\<open>open\<close> and that \<^verbatim>\<open>html_url\<close>.
\<close>

theorem list_blocked_by_test_response:
  fixes client :: "'req Client"
  shows
    "DoCall req \<in> set (snd (ListBlockedBy (Inr client) listTestArgs)) \<and>
     Do_deps client req \<lparr>Dependencies = None\<rparr> = DoOK resp deps \<and> StatusCode resp = 200 \<and>
     json_Unmarshal_IssueDependenciesResponse listTestBody \<lparr>Dependencies = None\<rparr> = Some deps \<longrightarrow>
       fst (ListBlockedBy (Inr client) listTestArgs) =
         (Some \<lparr>Text = ''[{\"number\":10,\"title\":\"Blocking Issue\",\"state\":\"open\",\"html_url\":\"https://github.com/owner/repo/issues/10\"}]'',
                IsError = False\<rparr>, None) \<and>
       NewRequest_arguments (snd (ListBlockedBy (Inr client) listTestArgs)) =
         Some (''GET'', ''repos/owner/repo/issues/42/dependencies/blocked_by'', None) \<and>
       ''[{\"number\":10,\"title\":\"Blocking Issue\",\"state\":\"open\",\"html_url\":\"https://github.com/owner/repo/issues/10\"}]'' =
         encode_json (JArray [JObject [(''number'', JNumber ''10''),
           (''title'', JString ''Blocking Issue''), (''state'', JString ''open''),
           (''html_url'', JString ''https://github.com/owner/repo/issues/10'')]])"
proof (intro impI; elim conjE)
  assume a: "DoCall req \<in> set (snd (ListBlockedBy (Inr client) listTestArgs))"
    "Do_deps client req \<lparr>Dependencies = None\<rparr> = DoOK resp deps" "StatusCode resp = 200"
    and u: "json_Unmarshal_IssueDependenciesResponse listTestBody \<lparr>Dependencies = None\<rparr> = Some deps"
  from u listTestBody_decoded
  have d: "Dependencies deps =
      Some [\<lparr>Number = 10, Title = ''Blocking Issue'', State = ''open'',
              HTMLURL = ''https://github.com/owner/repo/issues/10''\<rparr>]"
    by auto
  have v: "RequiredParam_string listTestArgs ''owner'' = Inr ''owner''"
    "RequiredParam_string listTestArgs ''repo'' = Inr ''repo''"
    "RequiredInt listTestArgs ''issue_number'' = Inr 42"
    "OptionalPaginationParams listTestArgs = Inr \<lparr>Page = 0, PerPage = 0\<rparr>"
    by (simp_all add: listTestArgs_def RequiredParam_string_def RequiredInt_def
        OptionalPaginationParams_def OptionalIntParam_def int_of_float64_def)
  have h: "ListBlockedBy (Inr client) listTestArgs =
      listIssueDependencies client ''owner'' ''repo'' 42 ''blocked_by'' \<lparr>Page = 0, PerPage = 0\<rparr>"
    by (simp add: ListBlockedBy_def v)
  have m: "json_Marshal_Dependencies (Dependencies deps) =
      Inr ''[{\"number\":10,\"title\":\"Blocking Issue\",\"state\":\"open\",\"html_url\":\"https://github.com/owner/repo/issues/10\"}]''"
    unfolding d
    by (simp add: json_Marshal_Dependencies_def encodeIssueDependency_def encodeString_def
        escapeByte_def backslash_def fmt_d_def digits.simps)
  from a show "fst (ListBlockedBy (Inr client) listTestArgs) =
         (Some \<lparr>Text = ''[{\"number\":10,\"title\":\"Blocking Issue\",\"state\":\"open\",\"html_url\":\"https://github.com/owner/repo/issues/10\"}]'',
                IsError = False\<rparr>, None) \<and>
       NewRequest_arguments (snd (ListBlockedBy (Inr client) listTestArgs)) =
         Some (''GET'', ''repos/owner/repo/issues/42/dependencies/blocked_by'', None) \<and>
       ''[{\"number\":10,\"title\":\"Blocking Issue\",\"state\":\"open\",\"html_url\":\"https://github.com/owner/repo/issues/10\"}]'' =
         encode_json (JArray [JObject [(''number'', JNumber ''10''),
           (''title'', JString ''Blocking Issue''), (''state'', JString ''open''),
           (''html_url'', JString ''https://github.com/owner/repo/issues/10'')]])"
    unfolding h
    by (simp add: listIssueDependencies_accepted m listIssueDependencies_NewRequest_arguments
        fmt_d_def digits.simps encodeString_def escapeByte_def backslash_def)
qed

text \<open>A client that answers so.\<close>

theorem list_blocked_by_test_response_witness:
  "fst (ListBlockedBy
     (Inr (answering
        (DoOK \<lparr>StatusCode = 200, Body = Inr []\<rparr>
           \<lparr>Dependencies = Some [\<lparr>Number = 10, Title = ''Blocking Issue'', State = ''open'',
              HTMLURL = ''https://github.com/owner/repo/issues/10''\<rparr>]\<rparr>)
        (DoError None ''unused'')))
     listTestArgs) =
   (Some \<lparr>Text = ''[{\"number\":10,\"title\":\"Blocking Issue\",\"state\":\"open\",\"html_url\":\"https://github.com/owner/repo/issues/10\"}]'',
          IsError = False\<rparr>, None)"
proof -
  let ?deps = "\<lparr>Dependencies = Some [\<lparr>Number = 10, Title = ''Blocking Issue'', State = ''open'',
              HTMLURL = ''https://github.com/owner/repo/issues/10''\<rparr>]\<rparr>"
  let ?c = "answering (DoOK \<lparr>StatusCode = 200, Body = Inr []\<rparr> ?deps) (DoError None ''unused'')"
  let ?req = "(''GET'', ''repos/owner/repo/issues/42/dependencies/blocked_by'', None)"
  have 1: "DoCall ?req \<in> set (snd (ListBlockedBy (Inr ?c) listTestArgs)) \<and>
      Do_deps ?c ?req \<lparr>Dependencies = None\<rparr> = DoOK \<lparr>StatusCode = 200, Body = Inr []\<rparr> ?deps \<and>
      StatusCode \<lparr>StatusCode = 200, Body = Inr []\<rparr> = 200"
    by (simp add: listTestArgs_def eval_defs)
  note t = list_blocked_by_test_response [where req = ?req and client = ?c
      and resp = "\<lparr>StatusCode = 200, Body = Inr []\<rparr>" and deps = ?deps]
  from t 1 listTestBody_decoded show ?thesis
    by blast
qed

subsection \<open>Which failures are hard\<close>

text \<open>
  C7, as stated, fails: "a non-nil hard error is returned only for local serialization
  faults, never for input or remote problems". The three functions also return
  \<^verbatim>\<open>nil, err\<close> when \<^verbatim>\<open>client.NewRequest\<close> fails (\<^verbatim>\<open>failed to create request\<close>) and
  when the body of a response with an unexpected status cannot be read
  (\<^verbatim>\<open>failed to read response body\<close>). Here a removal gets a 201 answer whose body
  cannot be read, and an addition's request cannot be built from the owner the caller
  gave: both return a nil result and a non-nil error.
\<close>

theorem hard_failure_for_remote_and_input_counterexample:
  "fst (RemoveBlockedBy
     (Inr (answering (DoError None ''unused'')
        (DoOK \<lparr>StatusCode = 201, Body = Inl ''unexpected EOF''\<rparr> None)))
     testArgs) =
     (None, Some ''failed to read response body: unexpected EOF'') \<and>
   fst (AddBlockedBy (Inr (refusing ''invalid URL escape'')) (testArgs(''owner'' \<mapsto> AnyString ''%zz''))) =
     (None, Some ''failed to create request: invalid URL escape'')"
  by (simp add: eval_defs)

text \<open>
  C7, amended. For each of the four operations: arguments that fail a validation, a
  failure to get the client, an error returned by \<^verbatim>\<open>client.Do\<close> (a transport failure)
  and an unexpected status code whose body can be read are each recovered into an
  error-flagged result with a nil error. A non-nil error is returned only when
  \<^verbatim>\<open>client.NewRequest\<close> fails, as \<^verbatim>\<open>failed to create request: ...\<close>, or when the body
  of a response with an unexpected status cannot be read, as
  \<^verbatim>\<open>failed to read response body: ...\<close>. (The source also returns the error of
  \<^verbatim>\<open>json.Marshal\<close>, which has none to return on the values marshalled here.)
\<close>

theorem hard_failure_causes:
  fixes client :: "'req Client" and getClient :: "go_error + 'req Client"
  shows
    "(isl (RequiredParam_string args ''owner'') \<or> isl (RequiredParam_string args ''repo'') \<or>
      isl (RequiredInt args ''issue_number'') \<or> isl (OptionalPaginationParams args) \<longrightarrow>
        errorFlagged (fst (ListBlockedBy getClient args)) \<and>
        errorFlagged (fst (ListBlocking getClient args))) \<and>
     (isl (RequiredParam_string args ''owner'') \<or> isl (RequiredParam_string args ''repo'') \<or>
      isl (RequiredInt args ''issue_number'') \<or> isl (RequiredInt args ''blocked_by_issue_number'') \<or>
      isl (OptionalParam_string args ''blocked_by_owner'') \<or>
      isl (OptionalParam_string args ''blocked_by_repo'') \<longrightarrow>
        errorFlagged (fst (AddBlockedBy getClient args)) \<and>
        errorFlagged (fst (RemoveBlockedBy getClient args))) \<and>
     errorFlagged (fst (handler op (Inl err :: go_error + 'req Client) args)) \<and>
     (DoCall req \<in> set (snd (handler op (Inr client) args)) \<and>
      Do_returned op client req = (resp', Some err) \<longrightarrow>
        errorFlagged (fst (handler op (Inr client) args))) \<and>
     (DoCall req \<in> set (snd (handler op (Inr client) args)) \<and>
      Do_returned op client req = (Some resp, None) \<and>
      StatusCode resp \<notin> accepted op \<and> Body resp = Inr raw \<longrightarrow>
        errorFlagged (fst (handler op (Inr client) args))) \<and>
     (hardFailure (fst (handler op (Inr client) args)) \<longrightarrow>
        (\<exists>method url body e.
           NewRequest client method url body = Inl e \<and>
           handler op (Inr client) args =
             ((None, Some (''failed to create request: '' @ e)), [NewRequestCall method url body])) \<or>
        (\<exists>rq rs e.
           DoCall rq \<in> set (snd (handler op (Inr client) args)) \<and>
           Do_returned op client rq = (Some rs, None) \<and>
           StatusCode rs \<notin> accepted op \<and> Body rs = Inl e \<and>
           fst (handler op (Inr client) args) =
             (None, Some (''failed to read response body: '' @ e))))"
proof (intro conjI impI; (elim conjE)?)
  assume "isl (RequiredParam_string args ''owner'') \<or> isl (RequiredParam_string args ''repo'') \<or>
      isl (RequiredInt args ''issue_number'') \<or> isl (OptionalPaginationParams args)"
  from list_handlers_invalid_flagged [OF this, of getClient]
  show "errorFlagged (fst (ListBlockedBy getClient args))"
    and "errorFlagged (fst (ListBlocking getClient args))"
    by simp_all
next
  assume "isl (RequiredParam_string args ''owner'') \<or> isl (RequiredParam_string args ''repo'') \<or>
      isl (RequiredInt args ''issue_number'') \<or> isl (RequiredInt args ''blocked_by_issue_number'') \<or>
      isl (OptionalParam_string args ''blocked_by_owner'') \<or>
      isl (OptionalParam_string args ''blocked_by_repo'')"
  from mutation_handlers_invalid_flagged [OF this, of getClient]
  show "errorFlagged (fst (AddBlockedBy getClient args))"
    and "errorFlagged (fst (RemoveBlockedBy getClient args))"
    by simp_all
next
  show "errorFlagged (fst (handler op (Inl err :: go_error + 'req Client) args))"
    by (rule handler_no_client_flagged)
next
  assume "DoCall req \<in> set (snd (handler op (Inr client) args))"
    and "Do_returned op client req = (resp', Some err)"
  then show "errorFlagged (fst (handler op (Inr client) args))"
    by (cases rule: handler_cases [OF refl, of op "Inr client" args])
       (auto simp: Do_returned_def returned_iff listIssueDependencies_flagged
          addIssueDependency_flagged removeIssueDependency_flagged)
next
  assume "DoCall req \<in> set (snd (handler op (Inr client) args))"
    and "Do_returned op client req = (Some resp, None)"
    and "StatusCode resp \<notin> accepted op" and "Body resp = Inr raw"
  then show "errorFlagged (fst (handler op (Inr client) args))"
    by (cases rule: handler_cases [OF refl, of op "Inr client" args])
       (auto simp: Do_returned_def returned_iff accepted_def listIssueDependencies_flagged
          addIssueDependency_flagged removeIssueDependency_flagged)
next
  assume h: "hardFailure (fst (handler op (Inr client) args))"
  show "(\<exists>method url body e.
           NewRequest client method url body = Inl e \<and>
           handler op (Inr client) args =
             ((None, Some (''failed to create request: '' @ e)), [NewRequestCall method url body])) \<or>
        (\<exists>rq rs e.
           DoCall rq \<in> set (snd (handler op (Inr client) args)) \<and>
           Do_returned op client rq = (Some rs, None) \<and>
           StatusCode rs \<notin> accepted op \<and> Body rs = Inl e \<and>
           fst (handler op (Inr client) args) =
             (None, Some (''failed to read response body: '' @ e)))"
  proof (cases rule: handler_cases [OF refl, of op "Inr client" args])
    case (1 e)
    with h show ?thesis by (simp add: hardFailure_def)
  next
    case (2 e)
    with h show ?thesis by (simp add: hardFailure_def)
  next
    case (3 c owner repo n k p)
    then have out: "handler op (Inr client) args = listIssueDependencies client owner repo n k p"
      and op: "op = list_blocked_by \<or> op = list_blocking"
      by simp_all
    from h have "hardFailure (fst (listIssueDependencies client owner repo n k p))"
      by (simp add: out)
    from listIssueDependencies_hardFailure [OF this] show ?thesis
    proof (elim disjE exE conjE)
      fix meth url body e
      assume "NewRequest client meth url body = Inl e"
        and "listIssueDependencies client owner repo n k p =
          ((None, Some (''failed to create request: '' @ e)), [NewRequestCall meth url body])"
      then show ?thesis unfolding out by blast
    next
      fix rq rs deps e
      assume a: "DoCall rq \<in> set (snd (listIssueDependencies client owner repo n k p))"
        "Do_deps client rq \<lparr>Dependencies = None\<rparr> = DoOK rs deps" "Body rs = Inl e"
        "fst (listIssueDependencies client owner repo n k p) =
           (None, Some (''failed to read response body: '' @ e))"
        and s: "StatusCode rs \<noteq> 200"
      from op a(2) have "Do_returned op client rq = (Some rs, None)"
        by (auto simp: Do_returned_def returned_def)
      moreover from op s have "StatusCode rs \<notin> accepted op"
        by (auto simp: accepted_def)
      ultimately show ?thesis using a(1,3,4) unfolding out by blast
    qed
  next
    case (4 c owner repo n bo br bn)
    then have out: "handler op (Inr client) args = addIssueDependency client owner repo n bo br bn"
      and op: "op = add_blocked_by"
      by simp_all
    from h have "hardFailure (fst (addIssueDependency client owner repo n bo br bn))"
      by (simp add: out)
    from addIssueDependency_hardFailure [OF this] show ?thesis
    proof (elim disjE exE conjE)
      fix meth url body e
      assume "NewRequest client meth url body = Inl e"
        and "addIssueDependency client owner repo n bo br bn =
          ((None, Some (''failed to create request: '' @ e)), [NewRequestCall meth url body])"
      then show ?thesis unfolding out by blast
    next
      fix rq rs result e
      assume a: "DoCall rq \<in> set (snd (addIssueDependency client owner repo n bo br bn))"
        "Do_map client rq None = DoOK rs result" "Body rs = Inl e"
        "fst (addIssueDependency client owner repo n bo br bn) =
           (None, Some (''failed to read response body: '' @ e))"
        and s: "StatusCode rs \<noteq> 200" "StatusCode rs \<noteq> 201"
      from op a(2) have "Do_returned op client rq = (Some rs, None)"
        by (auto simp: Do_returned_def returned_def)
      moreover from op s have "StatusCode rs \<notin> accepted op"
        by (auto simp: accepted_def)
      ultimately show ?thesis using a(1,3,4) unfolding out by blast
    qed
  next
    case (5 c owner repo n bo br bn)
    then have out: "handler op (Inr client) args = removeIssueDependency client owner repo n bo br bn"
      and op: "op = remove_blocked_by"
      by simp_all
    from h have "hardFailure (fst (removeIssueDependency client owner repo n bo br bn))"
      by (simp add: out)
    from removeIssueDependency_hardFailure [OF this] show ?thesis
    proof (elim disjE exE conjE)
      fix meth url body e
      assume "NewRequest client meth url body = Inl e"
        and "removeIssueDependency client owner repo n bo br bn =
          ((None, Some (''failed to create request: '' @ e)), [NewRequestCall meth url body])"
      then show ?thesis unfolding out by blast
    next
      fix rq rs result e
      assume a: "DoCall rq \<in> set (snd (removeIssueDependency client owner repo n bo br bn))"
        "Do_map client rq None = DoOK rs result" "Body rs = Inl e"
        "fst (removeIssueDependency client owner repo n bo br bn) =
           (None, Some (''failed to read response body: '' @ e))"
        and s: "StatusCode rs \<noteq> 200" "StatusCode rs \<noteq> 204"
      from op a(2) have "Do_returned op client rq = (Some rs, None)"
        by (auto simp: Do_returned_def returned_def)
      moreover from op s have "StatusCode rs \<notin> accepted op"
        by (auto simp: accepted_def)
      ultimately show ?thesis using a(1,3,4) unfolding out by blast
    qed
  qed
qed

text \<open>A mistyped \<^verbatim>\<open>issue_number\<close>; a refused connection; a 204 answer to a listing;
  a request that cannot be built.\<close>

theorem hard_failure_causes_witness:
  "errorFlagged (fst (ListBlockedBy (Inr (refusing ''no network''))
      (testArgs(''issue_number'' \<mapsto> AnyString ''forty-two'')))) \<and>
   errorFlagged (fst (handler add_blocked_by
      (Inr (answering (DoError None ''unused'') (DoError None ''connection refused''))) testArgs)) \<and>
   errorFlagged (fst (handler list_blocking
      (Inr (answering (DoOK \<lparr>StatusCode = 204, Body = Inr []\<rparr> \<lparr>Dependencies = None\<rparr>)
         (DoError None ''unused''))) testArgs)) \<and>
   hardFailure (fst (handler remove_blocked_by (Inr (refusing ''invalid URL escape'')) testArgs)) \<and>
   NewRequest (refusing ''invalid URL escape'') ''DELETE''
     ''repos/owner/repo/issues/42/dependencies/blocked_by''
     (Some (bytes_NewReader ''{\"owner\":\"owner\",\"repo\":\"repo\",\"issue_number\":10}'')) = Inl ''invalid URL escape''"
proof -
  let ?bad = "testArgs(''issue_number'' \<mapsto> AnyString ''forty-two'')"
  let ?a = "answering (DoError None ''unused'') (DoError None ''connection refused'')"
  let ?l = "answering (DoOK \<lparr>StatusCode = 204, Body = Inr []\<rparr> \<lparr>Dependencies = None\<rparr>)
         (DoError None ''unused'')"
  let ?body = "Some (bytes_NewReader ''{\"owner\":\"owner\",\"repo\":\"repo\",\"issue_number\":10}'')"
  let ?areq = "(''POST'', ''repos/owner/repo/issues/42/dependencies/blocked_by'', ?body)"
  let ?lreq = "(''GET'', ''repos/owner/repo/issues/42/dependencies/blocking'', None)"
  have 1: "isl (RequiredInt ?bad ''issue_number'')"
    by (simp add: eval_defs)
  have 2: "DoCall ?areq \<in> set (snd (handler add_blocked_by (Inr ?a) testArgs)) \<and>
      Do_returned add_blocked_by ?a ?areq = (None, Some ''connection refused'')"
    by (simp add: handler_def Do_returned_def returned_def eval_defs)
  have 3: "DoCall ?lreq \<in> set (snd (handler list_blocking (Inr ?l) testArgs)) \<and>
      Do_returned list_blocking ?l ?lreq = (Some \<lparr>StatusCode = 204, Body = Inr []\<rparr>, None) \<and>
      StatusCode \<lparr>StatusCode = 204, Body = Inr []\<rparr> \<notin> accepted list_blocking \<and>
      Body \<lparr>StatusCode = 204, Body = Inr []\<rparr> = Inr []"
    by (simp add: handler_def Do_returned_def returned_def accepted_def eval_defs)
  have 4: "hardFailure (fst (handler remove_blocked_by (Inr (refusing ''invalid URL escape'')) testArgs))"
    by (simp add: handler_def hardFailure_def eval_defs)
  have 5: "NewRequest (refusing ''invalid URL escape'') ''DELETE''
     ''repos/owner/repo/issues/42/dependencies/blocked_by'' ?body = Inl ''invalid URL escape''"
    by (simp add: refusing_def)
  note t1 = hard_failure_causes [where args = ?bad and getClient = "Inr (refusing ''no network'')"]
  note t2 = hard_failure_causes [where op = add_blocked_by and err = "''connection refused''"
      and req = ?areq and client = ?a and args = testArgs and resp' = None]
  note t3 = hard_failure_causes [where op = list_blocking and req = ?lreq and client = ?l
      and args = testArgs and resp = "\<lparr>StatusCode = 204, Body = Inr []\<rparr>" and raw = "[]"]
  from t1 1 have a: "errorFlagged (fst (ListBlockedBy (Inr (refusing ''no network'')) ?bad))"
    by blast
  from t2 2 have b: "errorFlagged (fst (handler add_blocked_by (Inr ?a) testArgs))"
    by blast
  from t3 3 have c: "errorFlagged (fst (handler list_blocking (Inr ?l) testArgs))"
    by blast
  from a b c 4 5 show ?thesis
    by blast
qed

subsection \<open>Closing the response body\<close>

text \<open>
  C8, as stated, fails: "for every execution in which an HTTP response object is
  obtained, the response body is closed (released) exactly once on every exit path".
  The functions defer \<^verbatim>\<open>resp.Body.Close()\<close> once \<^verbatim>\<open>client.Do\<close> has returned a response
  with a nil error; the client of go-github has by then closed that body itself, before
  \<^verbatim>\<open>Do\<close> returned. Here \<^verbatim>\<open>list_blocked_by\<close> gets the answer of the source's test:
  \<^verbatim>\<open>Do\<close> closes the body once and the function calls \<^verbatim>\<open>Close\<close> on it once more.
\<close>

theorem body_closed_twice_counterexample:
  "snd (ListBlockedBy (Inr (github_Client (serving listTestArrival))) listTestArgs) =
     [NewRequestCall ''GET'' ''repos/owner/repo/issues/42/dependencies/blocked_by'' None,
      DoCall \<lparr>Method = ''GET'', URL = ''repos/owner/repo/issues/42/dependencies/blocked_by'',
              Payload = None\<rparr>,
      BodyClose] \<and>
   DoCloses (github_Client (serving listTestArrival))
     \<lparr>Method = ''GET'', URL = ''repos/owner/repo/issues/42/dependencies/blocked_by'',
      Payload = None\<rparr> = 1 \<and>
   closes (github_Client (serving listTestArrival))
     (snd (ListBlockedBy (Inr (github_Client (serving listTestArrival))) listTestArgs)) = 2"
  by (simp add: closes_def serving_def listTestArrival_def listTestBody_def github_Client_def
      github_NewRequest_def github_Do_def CheckResponse_def decode_defs listTestArgs_def eval_defs)

text \<open>
  C8, amended. Each of the three functions, once \<^verbatim>\<open>client.NewRequest\<close> has returned
  the request: when \<^verbatim>\<open>client.Do\<close> returns a response with a nil error, the function
  itself calls \<^verbatim>\<open>Close\<close> on the body exactly once, as the last thing it does, on every
  exit path after that (unexpected status with the body read, failure to read the body,
  failure to marshal, success), so that the body gets one \<^verbatim>\<open>Close\<close> call more than
  \<^verbatim>\<open>Do\<close> made on it; when \<^verbatim>\<open>client.Do\<close> returns an error, with or without a response,
  the function itself calls \<^verbatim>\<open>Close\<close> not at all, and the body gets the calls \<^verbatim>\<open>Do\<close>
  made. With the client of go-github, whose \<^verbatim>\<open>Do\<close> closes the body of every response
  before it returns, each of the four operations that called \<^verbatim>\<open>Do\<close> has the body closed
  twice when \<^verbatim>\<open>Do\<close> returned a response with a nil error, once when \<^verbatim>\<open>Do\<close> returned a
  response with an error, and there is no body when \<^verbatim>\<open>Do\<close> returned no response.
\<close>

theorem body_closed_by_Do_and_by_defer:
  fixes client :: "'req Client"
  shows
    "(NewRequest client ''GET''
        (''repos/'' @ owner @ ''/'' @ repo @ ''/issues/'' @ fmt_d issueNumber @
         ''/dependencies/'' @ dependencyType @
         (if Page pagination > 0 \<or> PerPage pagination > 0
          then ''?page='' @ fmt_d (Page pagination) @ ''&per_page='' @ fmt_d (PerPage pagination)
          else [])) None = Inr req \<longrightarrow>
        (Do_deps client req \<lparr>Dependencies = None\<rparr> = DoOK resp deps \<longrightarrow>
           count_list (snd (listIssueDependencies client owner repo issueNumber dependencyType pagination))
             BodyClose = 1 \<and>
           last (snd (listIssueDependencies client owner repo issueNumber dependencyType pagination)) =
             BodyClose \<and>
           closes client (snd (listIssueDependencies client owner repo issueNumber dependencyType
             pagination)) = DoCloses client req + 1) \<and>
        (Do_deps client req \<lparr>Dependencies = None\<rparr> = DoError resp' err \<longrightarrow>
           count_list (snd (listIssueDependencies client owner repo issueNumber dependencyType pagination))
             BodyClose = 0 \<and>
           closes client (snd (listIssueDependencies client owner repo issueNumber dependencyType
             pagination)) = DoCloses client req)) \<and>
     (NewRequest client ''POST''
        (''repos/'' @ owner @ ''/'' @ repo @ ''/issues/'' @ fmt_d issueNumber @
         ''/dependencies/blocked_by'')
        (Some (bytes_NewReader (''{\"owner\":'' @ encodeString blockedByOwner @
               '',\"repo\":'' @ encodeString blockedByRepo @
               '',\"issue_number\":'' @ fmt_d blockedByIssueNumber @ ''}''))) = Inr req \<longrightarrow>
        (Do_map client req None = DoOK resp result \<longrightarrow>
           count_list (snd (addIssueDependency client owner repo issueNumber
             blockedByOwner blockedByRepo blockedByIssueNumber)) BodyClose = 1 \<and>
           last (snd (addIssueDependency client owner repo issueNumber
             blockedByOwner blockedByRepo blockedByIssueNumber)) = BodyClose \<and>
           closes client (snd (addIssueDependency client owner repo issueNumber
             blockedByOwner blockedByRepo blockedByIssueNumber)) = DoCloses client req + 1) \<and>
        (Do_map client req None = DoError resp' err \<longrightarrow>
           count_list (snd (addIssueDependency client owner repo issueNumber
             blockedByOwner blockedByRepo blockedByIssueNumber)) BodyClose = 0 \<and>
           closes client (snd (addIssueDependency client owner repo issueNumber
             blockedByOwner blockedByRepo blockedByIssueNumber)) = DoCloses client req)) \<and>
     (NewRequest client ''DELETE''
        (''repos/'' @ owner @ ''/'' @ repo @ ''/issues/'' @ fmt_d issueNumber @
         ''/dependencies/blocked_by'')
        (Some (bytes_NewReader (''{\"owner\":'' @ encodeString blockedByOwner @
               '',\"repo\":'' @ encodeString blockedByRepo @
               '',\"issue_number\":'' @ fmt_d blockedByIssueNumber @ ''}''))) = Inr req \<longrightarrow>
        (Do_map client req None = DoOK resp result \<longrightarrow>
           count_list (snd (removeIssueDependency client owner repo issueNumber
             blockedByOwner blockedByRepo blockedByIssueNumber)) BodyClose = 1 \<and>
           last (snd (removeIssueDependency client owner repo issueNumber
             blockedByOwner blockedByRepo blockedByIssueNumber)) = BodyClose \<and>
           closes client (snd (removeIssueDependency client owner repo issueNumber
             blockedByOwner blockedByRepo blockedByIssueNumber)) = DoCloses client req + 1) \<and>
        (Do_map client req None = DoError resp' err \<longrightarrow>
           count_list (snd (removeIssueDependency client owner repo issueNumber
             blockedByOwner blockedByRepo blockedByIssueNumber)) BodyClose = 0 \<and>
           closes client (snd (removeIssueDependency client owner repo issueNumber
             blockedByOwner blockedByRepo blockedByIssueNumber)) = DoCloses client req)) \<and>
     (DoCall sent \<in> set (snd (handler op (Inr (github_Client pf)) args)) \<and>
      Do_returned op (github_Client pf) sent = (Some got, None) \<longrightarrow>
        closes (github_Client pf) (snd (handler op (Inr (github_Client pf)) args)) = 2) \<and>
     (DoCall sent \<in> set (snd (handler op (Inr (github_Client pf)) args)) \<and>
      Do_returned op (github_Client pf) sent = (Some got, Some err) \<longrightarrow>
        closes (github_Client pf) (snd (handler op (Inr (github_Client pf)) args)) = 1) \<and>
     (DoCall sent \<in> set (snd (handler op (Inr (github_Client pf)) args)) \<and>
      Do_returned op (github_Client pf) sent = (None, Some err) \<longrightarrow>
        closes (github_Client pf) (snd (handler op (Inr (github_Client pf)) args)) = 0)"
    (is "(?NL \<longrightarrow> ?CL) \<and> (?NA \<longrightarrow> ?CA) \<and> (?NR \<longrightarrow> ?CR) \<and> (?G2H \<longrightarrow> ?G2) \<and>
         (?G1H \<longrightarrow> ?G1) \<and> (?G0H \<longrightarrow> ?G0)")
proof (intro conjI)
  show "?NL \<longrightarrow> ?CL"
  proof
    assume n: ?NL
    from listIssueDependencies_built(2) [OF n, of resp deps]
      listIssueDependencies_built(3) [OF n, of resp' err]
    show ?CL by simp
  qed
  show "?NA \<longrightarrow> ?CA"
  proof
    assume n: ?NA
    from addIssueDependency_built(2) [OF n, of resp result]
      addIssueDependency_built(3) [OF n, of resp' err]
    show ?CA by simp
  qed
  show "?NR \<longrightarrow> ?CR"
  proof
    assume n: ?NR
    from removeIssueDependency_built(2) [OF n, of resp result]
      removeIssueDependency_built(3) [OF n, of resp' err]
    show ?CR by simp
  qed
  show "?G2H \<longrightarrow> ?G2"
  proof
    assume h: ?G2H
    then have "closes (github_Client pf) (snd (handler op (Inr (github_Client pf)) args)) =
        DoCloses (github_Client pf) sent + 1"
      using handler_closes(1) [of sent op "github_Client pf" args got] by blast
    moreover from h have "DoCloses (github_Client pf) sent = 1"
      using github_DoCloses(1) [of op pf sent got None] by blast
    ultimately show ?G2 by simp
  qed
  show "?G1H \<longrightarrow> ?G1"
  proof
    assume h: ?G1H
    then have "closes (github_Client pf) (snd (handler op (Inr (github_Client pf)) args)) =
        DoCloses (github_Client pf) sent"
      using handler_closes(2) [of sent op "github_Client pf" args "Some got" err] by blast
    moreover from h have "DoCloses (github_Client pf) sent = 1"
      using github_DoCloses(1) [of op pf sent got "Some err"] by blast
    ultimately show ?G1 by simp
  qed
  show "?G0H \<longrightarrow> ?G0"
  proof
    assume h: ?G0H
    then have "closes (github_Client pf) (snd (handler op (Inr (github_Client pf)) args)) =
        DoCloses (github_Client pf) sent"
      using handler_closes(2) [of sent op "github_Client pf" args None err] by blast
    moreover from h have "DoCloses (github_Client pf) sent = 0"
      using github_DoCloses(2) [of op pf sent "Some err"] by blast
    ultimately show ?G0 by simp
  qed
qed

text \<open>With the client of go-github on the arguments of the source's tests: a removal
  with a 204 answer calls \<^verbatim>\<open>Close\<close> once itself, last, and its body is closed twice; the
  body of a 404 answer to a listing is closed once; an addition whose exchange fails
  closes nothing.\<close>

theorem body_closed_by_Do_and_by_defer_witness:
  "count_list (snd (removeIssueDependency
      (github_Client (serving \<lparr>Status = 204, Raw = [], Content = NoContent\<rparr>))
      ''owner'' ''repo'' 42 ''owner'' ''repo'' 10)) BodyClose = 1 \<and>
   last (snd (removeIssueDependency
      (github_Client (serving \<lparr>Status = 204, Raw = [], Content = NoContent\<rparr>))
      ''owner'' ''repo'' 42 ''owner'' ''repo'' 10)) = BodyClose \<and>
   closes (github_Client (serving \<lparr>Status = 204, Raw = [], Content = NoContent\<rparr>))
     (snd (handler remove_blocked_by
        (Inr (github_Client (serving \<lparr>Status = 204, Raw = [], Content = NoContent\<rparr>))) testArgs)) = 2 \<and>
   closes
     (github_Client
        (serving \<lparr>Status = 404, Raw = ''{\"message\":\"Not Found\"}'',
                  Content = Document (JObject [(''message'', JString ''Not Found'')])\<rparr>))
     (snd (handler list_blocking
        (Inr (github_Client
           (serving \<lparr>Status = 404, Raw = ''{\"message\":\"Not Found\"}'',
                     Content = Document (JObject [(''message'', JString ''Not Found'')])\<rparr>)))
        listTestArgs)) = 1 \<and>
   closes (github_Client (unreachable ''connection refused''))
     (snd (handler add_blocked_by (Inr (github_Client (unreachable ''connection refused''))) testArgs)) = 0"
proof -
  let ?a204 = "\<lparr>Status = 204, Raw = [], Content = NoContent\<rparr>"
  let ?a404 = "\<lparr>Status = 404, Raw = ''{\"message\":\"Not Found\"}'',
                  Content = Document (JObject [(''message'', JString ''Not Found'')])\<rparr>"
  let ?path = "''repos/owner/repo/issues/42/dependencies/blocked_by''"
  let ?pathing = "''repos/owner/repo/issues/42/dependencies/blocking''"
  let ?body = "''{\"owner\":\"owner\",\"repo\":\"repo\",\"issue_number\":10}''"
  let ?delete = "\<lparr>Method = ''DELETE'', URL = ?path, Payload = Some (''{}'' @ [CHR 0x0A])\<rparr>"
  let ?post = "\<lparr>Method = ''POST'', URL = ?path, Payload = Some (''{}'' @ [CHR 0x0A])\<rparr>"
  let ?get = "\<lparr>Method = ''GET'', URL = ?pathing, Payload = None\<rparr>"
  let ?closed = "\<lparr>StatusCode = 204, Body = Inl ''http: read on closed response body''\<rparr>"
  let ?notfound = "\<lparr>StatusCode = 404, Body = Inr ''{\"message\":\"Not Found\"}''\<rparr>"
  have 1: "NewRequest (github_Client (serving ?a204)) ''DELETE'' ?path (Some (bytes_NewReader ?body)) =
        Inr ?delete \<and>
      Do_map (github_Client (serving ?a204)) ?delete None = DoOK ?closed None"
    by (simp add: serving_def github_Client_def github_NewRequest_def github_Do_def CheckResponse_def
        json_Encode_Reader_def)
  have 2: "DoCall ?delete \<in> set (snd (handler remove_blocked_by (Inr (github_Client (serving ?a204))) testArgs)) \<and>
      Do_returned remove_blocked_by (github_Client (serving ?a204)) ?delete = (Some ?closed, None)"
    by (simp add: handler_def Do_returned_def returned_def serving_def github_Client_def
        github_NewRequest_def github_Do_def CheckResponse_def json_Encode_Reader_def eval_defs)
  have 3: "DoCall ?get \<in> set (snd (handler list_blocking (Inr (github_Client (serving ?a404))) listTestArgs)) \<and>
      Do_returned list_blocking (github_Client (serving ?a404)) ?get =
        (Some ?notfound, Some ''unexpected status code: 404'')"
    by (simp add: handler_def Do_returned_def returned_def serving_def github_Client_def
        github_NewRequest_def github_Do_def CheckResponse_def listTestArgs_def eval_defs)
  have 4: "DoCall ?post \<in> set (snd (handler add_blocked_by
        (Inr (github_Client (unreachable ''connection refused''))) testArgs)) \<and>
      Do_returned add_blocked_by (github_Client (unreachable ''connection refused'')) ?post =
        (None, Some ''connection refused'')"
    by (simp add: handler_def Do_returned_def returned_def unreachable_def github_Client_def
        github_NewRequest_def github_Do_def json_Encode_Reader_def eval_defs)
  note t1 = body_closed_by_Do_and_by_defer [where client = "github_Client (serving ?a204)"
      and owner = "''owner''" and repo = "''repo''" and issueNumber = 42
      and blockedByOwner = "''owner''" and blockedByRepo = "''repo''" and blockedByIssueNumber = 10
      and req = ?delete and resp = ?closed and result = None
      and pf = "serving ?a204" and op = remove_blocked_by and args = testArgs and sent = ?delete
      and got = ?closed]
  note t2 = body_closed_by_Do_and_by_defer [where client = "github_Client (serving ?a404)"
      and pf = "serving ?a404" and op = list_blocking and args = listTestArgs and sent = ?get
      and got = ?notfound and err = "''unexpected status code: 404''"]
  note t3 = body_closed_by_Do_and_by_defer [where client = "github_Client (unreachable ''connection refused'')"
      and pf = "unreachable ''connection refused''" and op = add_blocked_by and args = testArgs
      and sent = ?post and err = "''connection refused''"]
  from t1 1 have a: "count_list (snd (removeIssueDependency (github_Client (serving ?a204))
      ''owner'' ''repo'' 42 ''owner'' ''repo'' 10)) BodyClose = 1 \<and>
    last (snd (removeIssueDependency (github_Client (serving ?a204))
      ''owner'' ''repo'' 42 ''owner'' ''repo'' 10)) = BodyClose"
    by (simp add: fmt_d_def digits.simps encodeString_def escapeByte_def backslash_def)
  from t1 2 have b: "closes (github_Client (serving ?a204))
     (snd (handler remove_blocked_by (Inr (github_Client (serving ?a204))) testArgs)) = 2"
    by blast
  from t2 3 have c: "closes (github_Client (serving ?a404))
     (snd (handler list_blocking (Inr (github_Client (serving ?a404))) listTestArgs)) = 1"
    by blast
  from t3 4 have d: "closes (github_Client (unreachable ''connection refused''))
     (snd (handler add_blocked_by (Inr (github_Client (unreachable ''connection refused''))) testArgs)) = 0"
    by blast
  from a b c d show ?thesis
    by blast
qed

subsection \<open>Removal builds the request of addition\<close>

text \<open>
  C9. Given the same owner, repo, issue number and (defaulted) blocking owner, repo
  and issue number, \<^verbatim>\<open>removeIssueDependency\<close> builds its request from the same path
  \<^verbatim>\<open>repos/{owner}/{repo}/issues/{issueNumber}/dependencies/blocked_by\<close> and the same JSON
  body (the blocking issue's owner, repo and number, marshalled and handed to
  \<^verbatim>\<open>NewRequest\<close> under a reader) as \<^verbatim>\<open>addIssueDependency\<close>; only the method differs,
  \<^verbatim>\<open>DELETE\<close> for \<^verbatim>\<open>POST\<close>. The same holds of the two handlers on any arguments: what
  the removal hands to \<^verbatim>\<open>NewRequest\<close> is what the addition hands to it with the method
  replaced, and neither builds a request when the arguments fail validation.
\<close>

theorem remove_request_is_add_request:
  fixes client client' :: "'req Client"
  shows
    "NewRequest_arguments (snd (addIssueDependency client owner repo issueNumber
        blockedByOwner blockedByRepo blockedByIssueNumber)) =
       Some (''POST'',
             ''repos/'' @ owner @ ''/'' @ repo @ ''/issues/'' @ fmt_d issueNumber @
             ''/dependencies/blocked_by'',
             Some (bytes_NewReader (''{\"owner\":'' @ encodeString blockedByOwner @
                   '',\"repo\":'' @ encodeString blockedByRepo @
                   '',\"issue_number\":'' @ fmt_d blockedByIssueNumber @ ''}''))) \<and>
     NewRequest_arguments (snd (removeIssueDependency client' owner repo issueNumber
        blockedByOwner blockedByRepo blockedByIssueNumber)) =
       Some (''DELETE'',
             ''repos/'' @ owner @ ''/'' @ repo @ ''/issues/'' @ fmt_d issueNumber @
             ''/dependencies/blocked_by'',
             Some (bytes_NewReader (''{\"owner\":'' @ encodeString blockedByOwner @
                   '',\"repo\":'' @ encodeString blockedByRepo @
                   '',\"issue_number\":'' @ fmt_d blockedByIssueNumber @ ''}''))) \<and>
     NewRequest_arguments (snd (RemoveBlockedBy (Inr client') args)) =
       map_option (\<lambda>(method, url, body). (''DELETE'', url, body))
         (NewRequest_arguments (snd (AddBlockedBy (Inr client) args))) \<and>
     map_option fst (NewRequest_arguments (snd (AddBlockedBy (Inr client) args))) \<in> {None, Some ''POST''}"
proof (intro conjI)
  show "NewRequest_arguments (snd (RemoveBlockedBy (Inr client') args)) =
       map_option (\<lambda>(method, url, body). (''DELETE'', url, body))
         (NewRequest_arguments (snd (AddBlockedBy (Inr client) args)))"
    by (cases rule: AddBlockedBy_cases [OF refl, of "Inr client" args];
        cases rule: RemoveBlockedBy_cases [OF refl, of "Inr client'" args])
       (auto simp: addIssueDependency_NewRequest_arguments removeIssueDependency_NewRequest_arguments)
  show "map_option fst (NewRequest_arguments (snd (AddBlockedBy (Inr client) args))) \<in> {None, Some ''POST''}"
    by (cases rule: AddBlockedBy_cases [OF refl, of "Inr client" args])
       (auto simp: addIssueDependency_NewRequest_arguments)
qed (simp_all add: addIssueDependency_NewRequest_arguments removeIssueDependency_NewRequest_arguments)

text \<open>The arguments of the source's test.\<close>

theorem remove_request_is_add_request_witness:
  "NewRequest_arguments (snd (AddBlockedBy (Inr (refusing ''no network'')) testArgs)) =
     Some (''POST'', ''repos/owner/repo/issues/42/dependencies/blocked_by'',
           Some (bytes_NewReader ''{\"owner\":\"owner\",\"repo\":\"repo\",\"issue_number\":10}'')) \<and>
   NewRequest_arguments (snd (RemoveBlockedBy (Inr (refusing ''no network'')) testArgs)) =
     Some (''DELETE'', ''repos/owner/repo/issues/42/dependencies/blocked_by'',
           Some (bytes_NewReader ''{\"owner\":\"owner\",\"repo\":\"repo\",\"issue_number\":10}''))"
proof -
  have "NewRequest_arguments (snd (AddBlockedBy (Inr (refusing ''no network'')) testArgs)) =
     Some (''POST'', ''repos/owner/repo/issues/42/dependencies/blocked_by'',
           Some (bytes_NewReader ''{\"owner\":\"owner\",\"repo\":\"repo\",\"issue_number\":10}''))"
    by (simp add: eval_defs)
  then show ?thesis
    using remove_request_is_add_request [of "refusing ''no network''" _ _ _ _ _ _
        "refusing ''no network''" testArgs]
    by simp
qed

subsection \<open>A listing without dependencies\<close>



end
